theory Spec2Isabelle
  imports Main "HOL-Library.Sublist"
begin

section \<open>JavaScript values\<close>

text \<open>
  The component \<^verbatim>\<open>CVPreview\<close> (frontend/src/components/CVPreview.js) receives a CV
  document and a theme as loosely typed JavaScript values. The model keeps that: a
  document is a \<open>jsval\<close>, and every coercion the source relies on (\<^verbatim>\<open>||\<close>, \<^verbatim>\<open>&&\<close>,
  property reads, method calls on a value of the wrong type) is written out.

  A string is the list of its UTF-16 code units, as \<^verbatim>\<open>substring\<close>, \<^verbatim>\<open>slice\<close> and
  \<^verbatim>\<open>includes\<close> see it. \<open>str\<close> turns an ASCII literal of the source into that form;
  other characters of the source are written by code unit (\<open>228\<close> is U+00E4).

  \<open>Obj kvs\<close> lists the own properties of an object in the order \<^verbatim>\<open>Object.entries\<close>
  enumerates them; a property read takes the first entry of that name. \<open>Num n\<close> is the
  number whose value is the integer \<open>n\<close>; numbers with a fraction, \<^verbatim>\<open>NaN\<close> and the infinities
  have no counterpart here. \<open>Fn\<close> is a built-in function object; the only one the component can
  meet is \<^verbatim>\<open>String.prototype.link\<close>, read by \<^verbatim>\<open>p.link\<close> when a project entry is a string.
\<close>

type_synonym jsstring = "nat list"

definition str :: "string \<Rightarrow> jsstring" where
  "str s = map of_char s"

datatype jsval =
    Undefined
  | Null
  | Bool bool
  | Num int
  | Str jsstring
  | Arr "jsval list"
  | Obj "(jsstring \<times> jsval) list"
  | Fn

text \<open>
  \<open>Thrown\<close>: the render raises an exception (a TypeError in the component, or React's
  error for an object used as a child, or react-dom's conversion of a style value).
  \<open>Unmodelled\<close>: the outcome depends on a conversion that is not part of this development:
  \<^verbatim>\<open>ToNumber\<close> of a non-numeric \<^verbatim>\<open>length\<close> property, the string form of a number beyond
  \<open>2^53\<close>, the string form of a primary colour that is an array.
\<close>

datatype error = Thrown | Unmodelled

definition ebind :: "error + 'a \<Rightarrow> ('a \<Rightarrow> error + 'b) \<Rightarrow> error + 'b" where
  "ebind m f = (case m of Inl e \<Rightarrow> Inl e | Inr x \<Rightarrow> f x)"

text \<open>Evaluate the parts in order and concatenate; the first failure wins.\<close>

fun collect :: "(error + 'a list) list \<Rightarrow> error + 'a list" where
  "collect [] = Inr []"
| "collect (p # ps) =
     (case p of
        Inl e \<Rightarrow> Inl e
      | Inr xs \<Rightarrow> (case collect ps of Inl e \<Rightarrow> Inl e | Inr ys \<Rightarrow> Inr (xs @ ys)))"

fun truthy :: "jsval \<Rightarrow> bool" where
  "truthy Undefined = False"
| "truthy Null = False"
| "truthy (Bool b) = b"
| "truthy (Num n) = (n \<noteq> 0)"
| "truthy (Str s) = (s \<noteq> [])"
| "truthy (Arr xs) = True"
| "truthy (Obj kvs) = True"
| "truthy Fn = True"

fun nullish :: "jsval \<Rightarrow> bool" where
  "nullish Undefined = True"
| "nullish Null = True"
| "nullish _ = False"

text \<open>\<^verbatim>\<open>a || b\<close>, for operands whose evaluation cannot throw.\<close>

definition js_or :: "jsval \<Rightarrow> jsval \<Rightarrow> jsval" where
  "js_or a b = (if truthy a then a else b)"

text \<open>
  \<^verbatim>\<open>v.k\<close> on a receiver that is neither \<^verbatim>\<open>undefined\<close> nor \<^verbatim>\<open>null\<close>, for the property
  names the component reads: an own property of an object, \<^verbatim>\<open>length\<close> of a string or an
  array, \<^verbatim>\<open>link\<close> of a string (a method of the prototype), and \<^verbatim>\<open>undefined\<close> otherwise.
\<close>

definition member :: "jsval \<Rightarrow> jsstring \<Rightarrow> jsval" where
  "member v k =
     (case v of
        Obj kvs \<Rightarrow> (case map_of kvs k of Some x \<Rightarrow> x | None \<Rightarrow> Undefined)
      | Str s \<Rightarrow> (if k = str ''length'' then Num (int (length s))
                  else if k = str ''link'' then Fn else Undefined)
      | Arr xs \<Rightarrow> (if k = str ''length'' then Num (int (length xs)) else Undefined)
      | Fn \<Rightarrow> (if k = str ''length'' then Num 1
                else if k = str ''name'' then Str (str ''link'') else Undefined)
      | _ \<Rightarrow> Undefined)"

text \<open>\<^verbatim>\<open>v?.k\<close>.\<close>

definition optMember :: "jsval \<Rightarrow> jsstring \<Rightarrow> jsval" where
  "optMember v k = (if nullish v then Undefined else member v k)"

subsection \<open>ToString\<close>

fun digits :: "nat \<Rightarrow> jsstring" where
  "digits n = (if n < 10 then [48 + n] else digits (n div 10) @ [48 + n mod 10])"

text \<open>
  \<^verbatim>\<open>Number.prototype.toString\<close> of an integer up to \<open>2^53\<close> in magnitude: its decimal
  digits. Beyond \<open>2^53\<close> not every integer is a number, JavaScript prints the shortest
  digits that identify the number, and from \<open>10^21\<close> on the exponent form; a value that
  would print such a number is not \<open>printable\<close>, and its string form is left unmodelled.
\<close>

definition numStr :: "int \<Rightarrow> jsstring" where
  "numStr n = (if n < 0 then 45 # digits (nat (- n)) else digits (nat n))"

fun printable :: "jsval \<Rightarrow> bool" where
  "printable (Num n) = (\<bar>n\<bar> \<le> 9007199254740992)"
| "printable (Arr xs) = list_all printable xs"
| "printable _ = True"

fun join :: "'a list \<Rightarrow> 'a list list \<Rightarrow> 'a list" where
  "join sep [] = []"
| "join sep [x] = x"
| "join sep (x # y # ys) = x @ sep @ join sep (y # ys)"

text \<open>
  ToString of a value that came from JSON. An object prints as \<^verbatim>\<open>[object Object]\<close>
  unless it has an own property \<^verbatim>\<open>toString\<close>, which (not being callable) makes the
  conversion throw. An array prints its elements joined by commas, \<^verbatim>\<open>null\<close> and
  \<^verbatim>\<open>undefined\<close> as the empty string.
\<close>

fun canStr :: "jsval \<Rightarrow> bool" where
  "canStr (Obj kvs) = (map_of kvs (str ''toString'') = None)"
| "canStr (Arr xs) = list_all canStr xs"
| "canStr _ = True"

fun strOf :: "jsval \<Rightarrow> jsstring" where
  "strOf Undefined = str ''undefined''"
| "strOf Null = str ''null''"
| "strOf (Bool b) = (if b then str ''true'' else str ''false'')"
| "strOf (Num n) = numStr n"
| "strOf (Str s) = s"
| "strOf (Arr xs) = join [44] (map (\<lambda>x. if nullish x then [] else strOf x) xs)"
| "strOf (Obj kvs) = str ''[object Object]''"
| "strOf Fn = str ''function link() { [native code] }''"

definition toStr :: "jsval \<Rightarrow> error + jsstring" where
  "toStr v =
     (if \<not> canStr v then Inl Thrown
      else if printable v then Inr (strOf v) else Inl Unmodelled)"

text \<open>\<^verbatim>\<open>xs.join(sep)\<close> on an array.\<close>

definition joinVals :: "jsstring \<Rightarrow> jsval list \<Rightarrow> error + jsstring" where
  "joinVals sep xs =
     (if \<not> list_all canStr xs then Inl Thrown
      else if list_all printable xs
      then Inr (join sep (map (\<lambda>x. if nullish x then [] else strOf x) xs))
      else Inl Unmodelled)"

subsection \<open>String methods\<close>

text \<open>
  The lower case of a code unit up to U+00FF: A-Z, and U+00C0 to U+00DE without the
  multiplication sign, move up by 32; the others stay. A code unit above U+00FF has no
  entry here.
\<close>

definition lowerUnit :: "nat \<Rightarrow> nat option" where
  "lowerUnit u =
     (if 255 < u then None
      else if (65 \<le> u \<and> u \<le> 90) \<or> (192 \<le> u \<and> u \<le> 222 \<and> u \<noteq> 215) then Some (u + 32)
      else Some u)"

text \<open>
  \<^verbatim>\<open>s.toLowerCase()\<close>. A string within U+00FF is converted unit by unit. For any other
  string the result comes from the case table of the JavaScript engine, which looks at
  the context of a character and may change the length; that table is the parameter
  \<open>lc\<close>, and every statement below holds for whatever it is.
\<close>

definition toLowerCase :: "(jsstring \<Rightarrow> jsstring) \<Rightarrow> jsstring \<Rightarrow> jsstring" where
  "toLowerCase lc s = (case those (map lowerUnit s) of Some r \<Rightarrow> r | None \<Rightarrow> lc s)"

text \<open>\<^verbatim>\<open>s.includes(w)\<close>: \<open>w\<close> occurs in \<open>s\<close> as a contiguous run.\<close>

fun str_includes :: "'a list \<Rightarrow> 'a list \<Rightarrow> bool" where
  "str_includes [] w = (w = [])"
| "str_includes (c # cs) w = (prefix w (c # cs) \<or> str_includes cs w)"

text \<open>\<^verbatim>\<open>s.replace(pat, rep)\<close> with a string pattern: the first occurrence only.\<close>

fun replaceFirst :: "'a list \<Rightarrow> 'a list \<Rightarrow> 'a list \<Rightarrow> 'a list" where
  "replaceFirst pat rep [] = (if pat = [] then rep else [])"
| "replaceFirst pat rep (c # cs) =
     (if prefix pat (c # cs) then rep @ drop (length pat) (c # cs)
      else c # replaceFirst pat rep cs)"

text \<open>\<^verbatim>\<open>v.substring(0, n)\<close>: only a string has the method.\<close>

definition substring :: "jsval \<Rightarrow> nat \<Rightarrow> error + jsstring" where
  "substring v n = (case v of Str s \<Rightarrow> Inr (take n s) | _ \<Rightarrow> Inl Thrown)"

section \<open>Language detection\<close>

definition GERMAN_MARKERS :: "jsstring list" where
  "GERMAN_MARKERS =
     [str ''erfahrung'', str ''kenntnisse'', str ''f'' @ [228] @ str ''higkeiten'',
      str ''verantwortlich'',
      str ''unternehmen'', str ''t'' @ [228] @ str ''tigkeiten'', str ''entwicklung'',
      str ''aufgaben'',
      str ''bereich'', str ''mittels'', str ''wurden'', str ''wurde'', str ''haben'',
      str ''leitung'', str ''planung'', str ''umsetzung'', str ''werkzeug'', str ''arbeit'',
      str ''softwareentwickler'', str ''ingenieur'', str ''datenbankadministrator'']"

text \<open>
  The callback of \<^verbatim>\<open>forEach\<close> in \<^verbatim>\<open>detectGerman\<close>:
  \<^verbatim>\<open>e => { sample += (e.description || '').substring(0, 200) + ' '; }\<close>
\<close>

definition expSample :: "jsval \<Rightarrow> error + jsstring" where
  "expSample e =
     (if nullish e then Inl Thrown
      else ebind (substring (js_or (member e (str ''description'')) (Str [])) 200)
             (\<lambda>d. Inr (d @ str '' '')))"

text \<open>
  \<^verbatim>\<open>exps.slice(0, 2).forEach(...)\<close>: an array has both methods; a string has
  \<^verbatim>\<open>slice\<close> but no \<^verbatim>\<open>forEach\<close>; nothing else has \<^verbatim>\<open>slice\<close>.
\<close>

definition firstTwo :: "jsval \<Rightarrow> error + jsval list" where
  "firstTwo exps = (case exps of Arr xs \<Rightarrow> Inr (take 2 xs) | _ \<Rightarrow> Inl Thrown)"

text \<open>The value of \<^verbatim>\<open>sample\<close> after \<^verbatim>\<open>sample = sample.toLowerCase()\<close>.\<close>

definition detectGerman_sample :: "(jsstring \<Rightarrow> jsstring) \<Rightarrow> jsval \<Rightarrow> error + jsstring" where
  "detectGerman_sample lc data =
     (if nullish data then Inl Thrown
      else
        let pinfo = js_or (member data (str ''personal_info'')) (Obj []);
            title = js_or (js_or (member pinfo (str ''title'')) (member pinfo (str ''jobTitle'')))
                      (Str []);
            summary = js_or (js_or (member pinfo (str ''summary''))
                                   (member data (str ''profile_summary''))) (Str []);
            exps = js_or (js_or (member data (str ''experiences''))
                                (member data (str ''experience''))) (Arr [])
        in ebind
             (collect
                [toStr title, Inr (str '' ''),
                 substring summary 400, Inr (str '' ''),
                 ebind (firstTwo exps) (\<lambda>es. collect (map expSample es))])
             (\<lambda>sample. Inr (toLowerCase lc sample)))"

definition score :: "jsstring \<Rightarrow> nat" where
  "score sample = length (filter (\<lambda>w. str_includes sample w) GERMAN_MARKERS)"

definition detectGerman :: "(jsstring \<Rightarrow> jsstring) \<Rightarrow> jsval \<Rightarrow> error + bool" where
  "detectGerman lc data =
     ebind (detectGerman_sample lc data) (\<lambda>sample. Inr (2 \<le> score sample))"

section \<open>Normalisation helpers\<close>

text \<open>
  \<^verbatim>\<open>process.env.REACT_APP_API_URL?.replace('/api', '') || 'http://localhost:8000'\<close>;
  the environment variable is a string when it is set.
\<close>

definition API_BASE :: "jsstring option \<Rightarrow> jsstring" where
  "API_BASE env =
     (case env of
        None \<Rightarrow> str ''http://localhost:8000''
      | Some url \<Rightarrow>
          (let b = replaceFirst (str ''/api'') [] url
           in if b = [] then str ''http://localhost:8000'' else b))"

text \<open>\<^verbatim>\<open>photo.replace(/^\//, '')\<close>\<close>

definition stripLeadingSlash :: "jsstring \<Rightarrow> jsstring" where
  "stripLeadingSlash s = (case s of [] \<Rightarrow> [] | c # cs \<Rightarrow> if c = 47 then cs else s)"

definition resolvePhoto :: "jsstring \<Rightarrow> jsval \<Rightarrow> error + jsval" where
  "resolvePhoto base photo =
     (if \<not> truthy photo then Inr Null
      else case photo of
        Str s \<Rightarrow>
          (if prefix (str ''/uploads/'') s \<or> prefix (str ''uploads/'') s
           then Inr (Str (base @ str ''/'' @ stripLeadingSlash s))
           else Inr photo)
      | _ \<Rightarrow> Inl Thrown)"

text \<open>\<^verbatim>\<open>s => (typeof s === 'string' ? s : s?.name || '')\<close>\<close>

definition skillName :: "jsval \<Rightarrow> jsval" where
  "skillName s = (case s of Str _ \<Rightarrow> s | _ \<Rightarrow> js_or (optMember s (str ''name'')) (Str []))"

text \<open>\<^verbatim>\<open>xs.map(s => ...).filter(Boolean)\<close>\<close>

definition skillNames :: "jsval list \<Rightarrow> jsval list" where
  "skillNames xs = filter truthy (map skillName xs)"

text \<open>
  \<^verbatim>\<open>flattenSkills\<close>: an array is mapped and filtered; of a value that is an object
  \<^verbatim>\<open>Object.entries\<close> is mapped with \<^verbatim>\<open>flatMap\<close>, a value that is not an array
  contributing nothing; anything else gives the empty list.
\<close>

definition flattenSkills :: "jsval \<Rightarrow> jsval list" where
  "flattenSkills skills =
     (if \<not> truthy skills then []
      else case skills of
        Arr xs \<Rightarrow> skillNames xs
      | Obj kvs \<Rightarrow> concat (map (\<lambda>(k, v). case v of Arr xs \<Rightarrow> skillNames xs | _ \<Rightarrow> []) kvs)
      | _ \<Rightarrow> [])"

text \<open>\<^verbatim>\<open>typeof v === 'object'\<close> holds of objects, arrays and \<^verbatim>\<open>null\<close>.\<close>

fun isArray :: "jsval \<Rightarrow> bool" where
  "isArray (Arr xs) = True"
| "isArray _ = False"

fun typeofObject :: "jsval \<Rightarrow> bool" where
  "typeofObject (Obj kvs) = True"
| "typeofObject (Arr xs) = True"
| "typeofObject Null = True"
| "typeofObject _ = False"

definition getSkillCategories :: "jsval \<Rightarrow> jsval" where
  "getSkillCategories skills =
     (if \<not> truthy skills \<or> isArray skills then Null
      else if typeofObject skills \<and> \<not> isArray skills then skills
      else Null)"

section \<open>The render tree\<close>

text \<open>
  What React puts on the page for the element tree the component returns: host elements
  with their children, text, and the profile image with its \<^verbatim>\<open>src\<close>. Inline styles and keys
  are not recorded; an expression that only feeds a style is kept where it can throw. The
  values that reach a style are constants, strings built by \<^verbatim>\<open>rgba\<close>, the primary colour (a
  string once \<^verbatim>\<open>rgba\<close> has taken it), the photo size (a number, or what the lookup in
  \<^verbatim>\<open>PHOTO_SIZE_MAP\<close> finds, which always has a string form) and \<^verbatim>\<open>theme.fontFamily\<close>.
  \<^verbatim>\<open>SectionTitle\<close> and the two shared renderers are expanded in place, as React does when it
  renders them.
\<close>

datatype node = Elem string "node list" | Text jsstring | Img jsval

type_synonym frag = "error + node list"

text \<open>
  A JavaScript value in child position. React renders a non-empty string or a number as
  text, renders nothing for \<^verbatim>\<open>''\<close>, booleans, \<^verbatim>\<open>null\<close>, \<^verbatim>\<open>undefined\<close> and functions, walks
  into arrays, and throws on a plain object.
\<close>

fun childOK :: "jsval \<Rightarrow> bool" where
  "childOK (Obj kvs) = False"
| "childOK (Arr xs) = list_all childOK xs"
| "childOK _ = True"

fun childNodes :: "jsval \<Rightarrow> node list" where
  "childNodes (Str s) = (if s = [] then [] else [Text s])"
| "childNodes (Num n) = [Text (numStr n)]"
| "childNodes (Arr xs) = concat (map childNodes xs)"
| "childNodes _ = []"

definition child :: "jsval \<Rightarrow> frag" where
  "child v =
     (if \<not> childOK v then Inl Thrown
      else if printable v then Inr (childNodes v) else Inl Unmodelled)"

text \<open>\<^verbatim>\<open><tag>...</tag>\<close> and literal text between tags.\<close>

definition el :: "string \<Rightarrow> frag list \<Rightarrow> frag" where
  "el tag kids = ebind (collect kids) (\<lambda>ns. Inr [Elem tag ns])"

definition lit :: "jsstring \<Rightarrow> frag" where
  "lit s = Inr [Text s]"

text \<open>\<^verbatim>\<open>{v && <jsx/>}\<close>: a falsy \<open>v\<close> is itself the child.\<close>

definition js_and :: "jsval \<Rightarrow> jsval \<Rightarrow> jsval" where
  "js_and a b = (if truthy a then b else a)"

definition andJSX :: "jsval \<Rightarrow> frag \<Rightarrow> frag" where
  "andJSX v f = (if truthy v then f else child v)"

text \<open>\<^verbatim>\<open>{xs.map(f)}\<close>: only an array has \<^verbatim>\<open>map\<close>.\<close>

definition mapEl :: "(jsval \<Rightarrow> frag) \<Rightarrow> jsval \<Rightarrow> frag" where
  "mapEl f xs = (case xs of Arr ys \<Rightarrow> collect (map f ys) | _ \<Rightarrow> Inl Thrown)"

text \<open>
  \<^verbatim>\<open>x.length > 0\<close> for a receiver that is not nullish. The comparison converts its left
  side to a number; a \<^verbatim>\<open>length\<close> that is a string, an array or an object (possible only as
  an own property of an object) is left unmodelled.
\<close>

definition lengthPositive :: "jsval \<Rightarrow> error + bool" where
  "lengthPositive x =
     (case member x (str ''length'') of
        Num n \<Rightarrow> Inr (0 < n)
      | Bool b \<Rightarrow> Inr b
      | Undefined \<Rightarrow> Inr False
      | Null \<Rightarrow> Inr False
      | _ \<Rightarrow> Inl Unmodelled)"

text \<open>\<^verbatim>\<open>{x.length > 0 && <jsx/>}\<close>: \<^verbatim>\<open>false\<close> renders nothing.\<close>

definition whenLong :: "jsval \<Rightarrow> frag \<Rightarrow> frag" where
  "whenLong x f = ebind (lengthPositive x) (\<lambda>b. if b then f else Inr [])"

text \<open>
  \<^verbatim>\<open>rgba(hex, a)\<close> builds a colour for a style. Its value is not recorded; the call
  \<^verbatim>\<open>hex.slice\<close> throws on a value without \<^verbatim>\<open>slice\<close>. An array has the method: \<^verbatim>\<open>parseInt\<close>
  and every style that shows the colour then convert array elements to strings, and that
  case is left unmodelled.
\<close>

definition rgba :: "jsval \<Rightarrow> error + unit" where
  "rgba hex =
     (case hex of
        Str s \<Rightarrow> Inr ()
      | Arr xs \<Rightarrow> Inl Unmodelled
      | _ \<Rightarrow> Inl Thrown)"

text \<open>
  A value in an inline style. react-dom writes the empty string for \<^verbatim>\<open>null\<close>,
  \<^verbatim>\<open>undefined\<close>, a boolean and \<^verbatim>\<open>''\<close>, and converts every other value with
  \<^verbatim>\<open>'' + value\<close>, which throws exactly where ToString does. The text written is not
  recorded.
\<close>

definition styleValue :: "jsval \<Rightarrow> error + unit" where
  "styleValue v = (if canStr v then Inr () else Inl Thrown)"

subsection \<open>Literals of the templates\<close>

definition en_dash_sep :: jsstring where
  "en_dash_sep = [32, 0x2013, 32]"

definition em_dash_sep :: jsstring where
  "em_dash_sep = [32, 0x2014, 32]"

definition middot_sep :: jsstring where
  "middot_sep = [32, 0xB7, 32]"

definition bullet :: jsstring where
  "bullet = [0x2022]"

definition bullet_sp :: jsstring where
  "bullet_sp = [0x2022, 32]"

definition glyph_mail :: jsstring where
  "glyph_mail = [0x2709, 32]"

definition glyph_phone :: jsstring where
  "glyph_phone = [0x2706, 32]"

definition glyph_pin :: jsstring where
  "glyph_pin = [0xD83D, 0xDCCD, 32]"

definition glyph_link :: jsstring where
  "glyph_link = [0xD83D, 0xDD17, 32]"

datatype sectionKey = Profile | Experience | Education | Skills | Languages | Interests
  | Projects | Certifications

fun LABELS_EN :: "sectionKey \<Rightarrow> jsstring" where
  "LABELS_EN Profile = str ''Profile''"
| "LABELS_EN Experience = str ''Experience''"
| "LABELS_EN Education = str ''Education''"
| "LABELS_EN Skills = str ''Skills''"
| "LABELS_EN Languages = str ''Languages''"
| "LABELS_EN Interests = str ''Interests''"
| "LABELS_EN Projects = str ''Projects''"
| "LABELS_EN Certifications = str ''Certifications''"

fun LABELS_DE :: "sectionKey \<Rightarrow> jsstring" where
  "LABELS_DE Profile = str ''Profil''"
| "LABELS_DE Experience = str ''Berufserfahrung''"
| "LABELS_DE Education = str ''Bildung''"
| "LABELS_DE Skills = str ''F'' @ [228] @ str ''higkeiten''"
| "LABELS_DE Languages = str ''Sprachen''"
| "LABELS_DE Interests = str ''Interessen''"
| "LABELS_DE Projects = str ''Projekte''"
| "LABELS_DE Certifications = str ''Zertifikate''"

text \<open>The icons the clean layout passes to \<^verbatim>\<open>sTitle\<close>; the last is for custom sections.\<close>

fun icon :: "sectionKey \<Rightarrow> jsstring" where
  "icon Profile = [0xD83D, 0xDC64]"
| "icon Experience = [0xD83D, 0xDCBC]"
| "icon Education = [0xD83C, 0xDF93]"
| "icon Skills = [0x26A1]"
| "icon Languages = [0xD83C, 0xDF10]"
| "icon Interests = [0xD83C, 0xDFAF]"
| "icon Projects = [0xD83D, 0xDE80]"
| "icon Certifications = [0xD83C, 0xDFC5]"

definition icon_custom :: jsstring where
  "icon_custom = [0xD83D, 0xDCCC]"

subsection \<open>Section titles\<close>

text \<open>
  \<^verbatim>\<open>SectionTitle({ label, color, border, style = 'line', icon })\<close>, with the three accent
  styles. \<open>icon\<close> is \<^verbatim>\<open>undefined\<close> where the caller passes none.
\<close>

definition SectionTitle :: "jsval \<Rightarrow> jsval \<Rightarrow> jsval \<Rightarrow> jsval \<Rightarrow> frag" where
  "SectionTitle style color label ic =
     (if style = Str (str ''badge'') then
        el ''div'' [andJSX ic (el ''span'' [child ic]), el ''span'' [child label]]
      else if style = Str (str ''dot'') then
        el ''div''
          [el ''div'' [], el ''h2'' [child label],
           ebind (rgba color) (\<lambda>_. el ''div'' [])]
      else
        el ''div''
          [el ''div'' [andJSX ic (el ''span'' [child ic]), el ''h2'' [child label]],
           el ''div'' []])"

subsection \<open>Description bullets\<close>

text \<open>\<^verbatim>\<open>s.split('\n')\<close>\<close>

fun splitOn :: "'a \<Rightarrow> 'a list \<Rightarrow> 'a list list" where
  "splitOn c [] = [ []]"
| "splitOn c (x # xs) =
     (if x = c then [] # splitOn c xs
      else (case splitOn c xs of [] \<Rightarrow> [ [x]] | l # ls \<Rightarrow> (x # l) # ls))"

text \<open>The characters \<^verbatim>\<open>\s\<close> matches.\<close>

definition isSpace :: "nat \<Rightarrow> bool" where
  "isSpace c \<longleftrightarrow>
     c \<in> {9, 10, 11, 12, 13, 32, 0xA0, 0x1680, 0x2028, 0x2029, 0x202F, 0x205F, 0x3000, 0xFEFF}
     \<or> (0x2000 \<le> c \<and> c \<le> 0x200A)"

text \<open>\<^verbatim>\<open>line.replace(/^[(bullet)\-]\s*/, '')\<close>, the bullet being U+2022.\<close>

definition stripBullet :: "jsstring \<Rightarrow> jsstring" where
  "stripBullet line =
     (case line of
        [] \<Rightarrow> []
      | c # cs \<Rightarrow> if c = 0x2022 \<or> c = 45 then dropWhile isSpace cs else line)"

text \<open>\<^verbatim>\<open>d.split('\n').filter(Boolean)\<close>: only a string has \<^verbatim>\<open>split\<close>.\<close>

definition descLines :: "jsval \<Rightarrow> error + jsstring list" where
  "descLines d =
     (case d of
        Str s \<Rightarrow> Inr (filter (\<lambda>l. l \<noteq> []) (splitOn 10 s))
      | _ \<Rightarrow> Inl Thrown)"

section \<open>The component\<close>

subsection \<open>Normalised view\<close>

text \<open>
  The constants \<^verbatim>\<open>CVPreview\<close> computes before it chooses a layout. \<open>skills\<close> is always an
  array (the result of \<^verbatim>\<open>flattenSkills\<close>); the other collections are whatever the document
  holds, or \<^verbatim>\<open>[]\<close> when that is falsy.
\<close>

record view =
  primary :: jsval
  fontFamily :: jsval
  accentStyle :: jsval
  layout :: jsval
  photo :: jsval
  experiences :: jsval
  education :: jsval
  skills :: "jsval list"
  skillCategories :: jsval
  certs :: jsval
  langs :: jsval
  projects :: jsval
  interests :: jsval
  hobbies :: jsval
  customSections :: jsval
  summary :: jsval
  name :: jsval
  title :: jsval
  email :: jsval
  phone :: jsval
  location :: jsval
  linkedin :: jsval
  website :: jsval
  isGerman :: bool

text \<open>
  \<^verbatim>\<open>{ ...DEFAULT_THEME, ...themeProp }.k\<close>: an own property of the theme object wins, also
  when its value is \<^verbatim>\<open>null\<close>; spreading anything that is not an object adds no property of
  these names.
\<close>

definition themeField :: "jsval \<Rightarrow> jsstring \<Rightarrow> jsval \<Rightarrow> jsval" where
  "themeField themeProp k dflt =
     (case themeProp of
        Obj kvs \<Rightarrow> (case map_of kvs k of Some v \<Rightarrow> v | None \<Rightarrow> dflt)
      | _ \<Rightarrow> dflt)"

text \<open>
  \<^verbatim>\<open>typeof pi.photoSize === 'number' ? pi.photoSize : (PHOTO_SIZE_MAP[pi.photoSize] || 76)\<close>:
  the size feeds a style only; the lookup converts its key to a string first.
\<close>

definition photoSizePx :: "jsval \<Rightarrow> error + unit" where
  "photoSizePx pinfo =
     (case member pinfo (str ''photoSize'') of
        Num n \<Rightarrow> Inr ()
      | v \<Rightarrow> ebind (toStr v) (\<lambda>_. Inr ()))"

text \<open>
  The body of \<^verbatim>\<open>CVPreview\<close> down to the first layout test, in the order of the source.
  \<open>data\<close> and \<open>themeProp\<close> are the props after their defaults.
\<close>

definition normalize ::
  "(jsstring \<Rightarrow> jsstring) \<Rightarrow> jsstring \<Rightarrow> jsval \<Rightarrow> jsval \<Rightarrow> error + view" where
  "normalize lc apiBase data themeProp =
     (let prim = themeField themeProp (str ''primaryColor'') (Str (str ''#1a1a1a''));
          font = themeField themeProp (str ''fontFamily'')
                   (Str (str ''Inter, system-ui, sans-serif''));
          accent = js_or (themeField themeProp (str ''accentStyle'') (Str (str ''line'')))
                     (Str (str ''line''));
          lay = themeField themeProp (str ''layout'') (Str (str ''clean''))
      in ebind (rgba prim) (\<lambda>_.
         if nullish data then Inl Thrown
         else
           let pinfo = js_or (member data (str ''personal_info'')) (Obj []);
               rawSkills = member data (str ''skills'')
           in ebind (resolvePhoto apiBase
                       (js_or (member pinfo (str ''photo'')) (member data (str ''photo_path''))))
                (\<lambda>ph.
              ebind (detectGerman lc data) (\<lambda>german.
              ebind (photoSizePx pinfo) (\<lambda>_.
              Inr \<lparr> primary = prim,
                    fontFamily = font,
                    accentStyle = accent,
                    layout = lay,
                    photo = ph,
                    experiences = js_or (member data (str ''experiences'')) (Arr []),
                    education = js_or (member data (str ''educations'')) (Arr []),
                    skills = flattenSkills rawSkills,
                    skillCategories = getSkillCategories rawSkills,
                    certs = js_or (member data (str ''certifications'')) (Arr []),
                    langs = js_or (member data (str ''languages'')) (Arr []),
                    projects = js_or (member data (str ''projects'')) (Arr []),
                    interests = js_or (member data (str ''interests'')) (Arr []),
                    hobbies = js_or (js_or (member data (str ''hobbies''))
                                           (member data (str ''hobbies_text''))) (Str []),
                    customSections = js_or (member data (str ''custom_sections'')) (Arr []),
                    summary = js_or (js_or (member pinfo (str ''summary''))
                                           (member data (str ''profile_summary''))) (Str []),
                    name = js_or (js_or (member pinfo (str ''name''))
                                        (member data (str ''full_name''))) (Str []),
                    title = js_or (js_or (js_or (member pinfo (str ''title''))
                                                (member pinfo (str ''jobTitle'')))
                                         (member data (str ''title''))) (Str []),
                    email = js_or (js_or (member pinfo (str ''email''))
                                         (member data (str ''email''))) (Str []),
                    phone = js_or (js_or (member pinfo (str ''phone''))
                                         (member data (str ''phone''))) (Str []),
                    location = js_or (js_or (member pinfo (str ''location''))
                                            (member data (str ''location''))) (Str []),
                    linkedin = js_or (js_or (js_or (member pinfo (str ''linkedin''))
                                                   (member pinfo (str ''linkedin_url'')))
                                            (member data (str ''linkedin_url''))) (Str []),
                    website = js_or (member pinfo (str ''website'')) (Str []),
                    isGerman = german \<rparr>)))))"

text \<open>\<^verbatim>\<open>const L = isGerman ? LABELS_DE : LABELS_EN\<close>\<close>

definition L :: "view \<Rightarrow> sectionKey \<Rightarrow> jsstring" where
  "L v = (if isGerman v then LABELS_DE else LABELS_EN)"

text \<open>\<^verbatim>\<open>sTitle(label, icon)\<close> of the clean layout, and the title without icon of the others.\<close>

definition sTitle :: "view \<Rightarrow> jsval \<Rightarrow> jsstring \<Rightarrow> frag" where
  "sTitle v label ic = SectionTitle (accentStyle v) (primary v) label (Str ic)"

definition plainTitle :: "view \<Rightarrow> jsval \<Rightarrow> frag" where
  "plainTitle v label = SectionTitle (accentStyle v) (primary v) label Undefined"

subsection \<open>Skills\<close>

text \<open>
  One category row of \<^verbatim>\<open>renderSkills\<close>:
  \<^verbatim>\<open>(Array.isArray(items) ? items : []).map(...).filter(Boolean).join(' (middle dot) ')\<close>
\<close>

definition categoryRow :: "jsstring \<times> jsval \<Rightarrow> frag" where
  "categoryRow entry =
     (case entry of (cat, items) \<Rightarrow>
        el ''div''
          [el ''span'' [child (Str cat), lit (str '':'')],
           el ''span''
             [ebind (joinVals middot_sep
                       (skillNames (case items of Arr xs \<Rightarrow> xs | _ \<Rightarrow> [])))
                (\<lambda>s. child (Str s))]])"

text \<open>\<^verbatim>\<open>Object.entries\<close> of the category object.\<close>

definition entriesOf :: "jsval \<Rightarrow> (jsstring \<times> jsval) list" where
  "entriesOf v = (case v of Obj kvs \<Rightarrow> kvs | _ \<Rightarrow> [])"

definition renderSkills :: "view \<Rightarrow> bool \<Rightarrow> frag" where
  "renderSkills v compact =
     (if truthy (skillCategories v) then
        el ''div'' (map categoryRow (entriesOf (skillCategories v)))
      else if compact then
        el ''div'' [ebind (joinVals middot_sep (skills v)) (\<lambda>s. child (Str s))]
      else
        el ''div'' (map (\<lambda>s. el ''span'' [child s]) (skills v)))"

text \<open>\<^verbatim>\<open>(skills.length > 0 || skillCategories) && ...\<close> and \<^verbatim>\<open>skills.length > 0 && ...\<close>\<close>

definition skillsOrCategories :: "view \<Rightarrow> frag \<Rightarrow> frag" where
  "skillsOrCategories v f = (if skills v \<noteq> [] then f else andJSX (skillCategories v) f)"

definition someSkills :: "view \<Rightarrow> frag \<Rightarrow> frag" where
  "someSkills v f = (if skills v \<noteq> [] then f else Inr [])"

subsection \<open>Experience and education entries\<close>

text \<open>\<^verbatim>\<open>exp.role || exp.position || exp.job_title || dflt\<close>\<close>

definition expRole :: "jsval \<Rightarrow> jsstring \<Rightarrow> jsval" where
  "expRole exp dflt =
     js_or (js_or (js_or (member exp (str ''role'')) (member exp (str ''position'')))
                  (member exp (str ''job_title''))) (Str dflt)"

text \<open>
  The date span of an experience entry in the clean layout (source lines 236 to 238), with
  \<^verbatim>\<open>currentLabel = isGerman ? 'Heute' : 'Present'\<close>.
\<close>

definition cleanExpDates :: "bool \<Rightarrow> jsval \<Rightarrow> frag" where
  "cleanExpDates german exp =
     (if nullish exp then Inl Thrown
      else
        let currentLabel = (if german then Str (str ''Heute'') else Str (str ''Present''));
            startDate = member exp (str ''startDate'');
            endDate = member exp (str ''endDate'');
            current = member exp (str ''current'')
        in el ''span''
             [child startDate,
              child (if truthy (js_and startDate (js_or endDate current))
                     then Str en_dash_sep else Str []),
              child (if truthy current then currentLabel else endDate)])"

text \<open>The date span of an experience entry in \<^verbatim>\<open>_renderExp\<close> (source lines 556 to 558).\<close>

definition renderExpDates :: "jsval \<Rightarrow> frag" where
  "renderExpDates exp =
     (if nullish exp then Inl Thrown
      else
        let startDate = member exp (str ''startDate'');
            endDate = member exp (str ''endDate'');
            current = member exp (str ''current'')
        in el ''span''
             [child startDate,
              child (if truthy (js_and startDate (js_or endDate current))
                     then Str en_dash_sep else Str []),
              child (if truthy current then Str (str ''Present'') else endDate)])"

definition cleanExp :: "bool \<Rightarrow> jsval \<Rightarrow> frag" where
  "cleanExp german exp =
     (if nullish exp then Inl Thrown
      else
        let company = member exp (str ''company'');
            loc = member exp (str ''location'');
            description = member exp (str ''description'')
        in el ''div''
             [el ''div''
                [el ''div''
                   [el ''span'' [child (expRole exp [0x2014])],
                    andJSX company (el ''span'' [lit (str '', ''), child company]),
                    andJSX loc (el ''span'' [lit em_dash_sep, child loc])],
                 cleanExpDates german exp],
              andJSX description
                (ebind (descLines description) (\<lambda>ls.
                   el ''div''
                     (map (\<lambda>l. el ''div''
                                  [el ''span'' [lit bullet],
                                   el ''span'' [child (Str (stripBullet l))]]) ls)))])"

text \<open>
  One entry of \<^verbatim>\<open>_renderExp\<close>; \<open>isLast\<close> is \<^verbatim>\<open>!(i < experiences.length - 1)\<close>, which decides
  the dashed rule after the entry.
\<close>

definition renderExpEntry :: "bool \<Rightarrow> jsval \<Rightarrow> frag" where
  "renderExpEntry isLast exp =
     (if nullish exp then Inl Thrown
      else
        let company = member exp (str ''company'');
            loc = member exp (str ''location'');
            description = member exp (str ''description'')
        in el ''div''
             [el ''div''
                [el ''div''
                   [el ''span'' [child (expRole exp (str ''Role''))],
                    andJSX company (el ''span'' [lit middot_sep, child company]),
                    andJSX loc (el ''span'' [lit em_dash_sep, child loc])],
                 renderExpDates exp],
              andJSX description
                (ebind (descLines description) (\<lambda>ls.
                   el ''div''
                     (map (\<lambda>l. el ''div''
                                  [el ''span'' [lit bullet], child (Str (stripBullet l))]) ls))),
              (if isLast then Inr [] else el ''div'' [])])"

fun mapLast :: "(bool \<Rightarrow> 'a \<Rightarrow> 'b) \<Rightarrow> 'a list \<Rightarrow> 'b list" where
  "mapLast f [] = []"
| "mapLast f [x] = [f True x]"
| "mapLast f (x # y # ys) = f False x # mapLast f (y # ys)"

text \<open>
  \<^verbatim>\<open>_renderExp(experiences, primary, border, accentStyle)\<close>. The argument is never nullish
  (it is \<^verbatim>\<open>data.experiences || []\<close>).
\<close>

definition renderExp :: "view \<Rightarrow> frag" where
  "renderExp v =
     (if \<not> truthy (member (experiences v) (str ''length'')) then Inr []
      else
        el ''div''
          [plainTitle v (Str (str ''Experience'')),
           (case experiences v of
              Arr xs \<Rightarrow> collect (mapLast renderExpEntry xs)
            | _ \<Rightarrow> Inl Thrown)])"

text \<open>
  The date span of an education entry, the same in both renderers:
  \<^verbatim>\<open>{edu.startDate}{edu.startDate && edu.endDate ? ' (en dash) ' : ''}{edu.endDate}\<close>
\<close>

definition eduDates :: "jsval \<Rightarrow> frag" where
  "eduDates edu =
     (if nullish edu then Inl Thrown
      else
        let startDate = member edu (str ''startDate'');
            endDate = member edu (str ''endDate'')
        in el ''span''
             [child startDate,
              child (if truthy (js_and startDate endDate) then Str en_dash_sep else Str []),
              child endDate])"

text \<open>
  \<^verbatim>\<open>{edu.degree}{edu.field ? `<sep>${edu.field}` : ''}\<close>, the separator being an en dash
  between spaces in the clean layout and \<^verbatim>\<open> in \<close> in \<^verbatim>\<open>_renderEdu\<close>.
\<close>

definition eduHeading :: "jsstring \<Rightarrow> jsval \<Rightarrow> frag" where
  "eduHeading sep edu =
     (let field = member edu (str ''field'')
      in el ''span''
           [child (member edu (str ''degree'')),
            (if truthy field then ebind (toStr field) (\<lambda>s. child (Str (sep @ s)))
             else child (Str []))])"

definition cleanEdu :: "bool \<Rightarrow> jsval \<Rightarrow> frag" where
  "cleanEdu german edu =
     (if nullish edu then Inl Thrown
      else
        let institution = member edu (str ''institution'');
            grade = member edu (str ''grade'')
        in el ''div''
             [el ''div''
                [el ''div''
                   [eduHeading en_dash_sep edu,
                    andJSX institution (el ''span'' [lit (str '', ''), child institution])],
                 eduDates edu],
              andJSX grade
                (el ''div''
                   [child (Str (if german then str ''Note'' else str ''Grade'')),
                    lit (str '': ''), child grade])])"

definition renderEduEntry :: "jsval \<Rightarrow> frag" where
  "renderEduEntry edu =
     (if nullish edu then Inl Thrown
      else
        let institution = member edu (str ''institution'');
            grade = member edu (str ''grade'')
        in el ''div''
             [el ''div''
                [el ''div''
                   [eduHeading (str '' in '') edu,
                    andJSX institution (el ''span'' [lit middot_sep, child institution])],
                 eduDates edu],
              andJSX grade (el ''div'' [lit (str ''Grade: ''), child grade])])"

text \<open>\<^verbatim>\<open>_renderEdu(education, primary, border, accentStyle)\<close>\<close>

definition renderEdu :: "view \<Rightarrow> frag" where
  "renderEdu v =
     (if \<not> truthy (member (education v) (str ''length'')) then Inr []
      else el ''div'' [plainTitle v (Str (str ''Education'')), mapEl renderEduEntry (education v)])"

subsection \<open>Rows shared by the layouts\<close>

text \<open>
  Where several layouts repeat the same markup up to its inline style, one definition
  stands for the copies.
\<close>

definition headerName :: "view \<Rightarrow> frag" where
  "headerName v = el ''h1'' [child (js_or (name v) (Str (str ''Your Name'')))]"

definition headerTitle :: "view \<Rightarrow> frag" where
  "headerTitle v = andJSX (title v) (el ''p'' [child (title v)])"

definition photoImg :: "view \<Rightarrow> frag" where
  "photoImg v = andJSX (photo v) (Inr [Img (photo v)])"

text \<open>\<^verbatim>\<open>{x && <span>(glyph) {x}</span>}\<close>\<close>

definition contactSpan :: "jsstring \<Rightarrow> jsval \<Rightarrow> frag" where
  "contactSpan glyph x = andJSX x (el ''span'' [lit glyph, child x])"

definition contacts4 :: "view \<Rightarrow> frag list" where
  "contacts4 v =
     [contactSpan glyph_mail (email v), contactSpan glyph_phone (phone v),
      contactSpan glyph_pin (location v), contactSpan (str ''in '') (linkedin v)]"

definition contacts5 :: "view \<Rightarrow> frag list" where
  "contacts5 v = contacts4 v @ [contactSpan glyph_link (website v)]"

text \<open>The coloured band of the executive and the classic layout.\<close>

definition band :: "view \<Rightarrow> frag list \<Rightarrow> frag" where
  "band v contacts =
     el ''div''
       [el ''div'' [el ''div'' [headerName v, headerTitle v], photoImg v],
        el ''div'' contacts]"

definition langRow :: "jsval \<Rightarrow> frag" where
  "langRow l =
     (if nullish l then Inl Thrown
      else el ''div''
             [el ''span'' [child (member l (str ''language''))],
              el ''span'' [child (member l (str ''proficiency''))]])"

text \<open>Certifications in every layout but the executive one.\<close>

definition certRow :: "jsval \<Rightarrow> frag" where
  "certRow c =
     (if nullish c then Inl Thrown
      else
        let issuer = member c (str ''issuer'')
        in el ''div''
             [el ''div''
                [el ''span'' [child (member c (str ''name''))],
                 andJSX issuer (el ''span'' [lit em_dash_sep, child issuer])],
              el ''span''
                [child (js_or (member c (str ''issueDate'')) (member c (str ''date'')))]])"

definition execCertRow :: "jsval \<Rightarrow> frag" where
  "execCertRow c =
     (if nullish c then Inl Thrown
      else
        let issuer = member c (str ''issuer'')
        in el ''div''
             [el ''div'' [child (member c (str ''name''))],
              andJSX issuer (el ''div'' [child issuer])])"

definition cleanProject :: "jsval \<Rightarrow> frag" where
  "cleanProject p =
     (if nullish p then Inl Thrown
      else
        let url = js_or (member p (str ''link'')) (member p (str ''url''));
            description = member p (str ''description'')
        in el ''div''
             [el ''div'' [el ''span'' [child (member p (str ''name''))],
                          andJSX url (el ''span'' [child url])],
              andJSX description (el ''div'' [child description])])"

text \<open>Projects in the four other layouts.\<close>

definition projectRow :: "jsval \<Rightarrow> frag" where
  "projectRow p =
     (if nullish p then Inl Thrown
      else
        let url = js_or (member p (str ''link'')) (member p (str ''url''));
            description = member p (str ''description'')
        in el ''div''
             [el ''span'' [child (member p (str ''name''))],
              andJSX url (el ''span'' [child url]),
              andJSX description (el ''div'' [child description])])"

text \<open>
  \<^verbatim>\<open>typeof interest === 'string' ? interest : interest?.name || interest?.interest || ''\<close>
  in the clean and the modern layout; the three others read \<^verbatim>\<open>name\<close> only.
\<close>

definition interestText :: "jsval \<Rightarrow> jsval" where
  "interestText i =
     (case i of
        Str s \<Rightarrow> i
      | _ \<Rightarrow> js_or (js_or (optMember i (str ''name'')) (optMember i (str ''interest'')))
                    (Str []))"

definition interestName :: "jsval \<Rightarrow> jsval" where
  "interestName i = (case i of Str s \<Rightarrow> i | _ \<Rightarrow> js_or (optMember i (str ''name'')) (Str []))"

text \<open>\<^verbatim>\<open>txt ? <tag>(bullet) {txt}</tag> : null\<close>\<close>

definition interestChip :: "string \<Rightarrow> (jsval \<Rightarrow> jsval) \<Rightarrow> jsval \<Rightarrow> frag" where
  "interestChip tag text i =
     (if truthy (text i) then el tag [lit bullet_sp, child (text i)] else Inr [])"

text \<open>\<^verbatim>\<open>{(interests.length > 0 || hobbies) && <jsx/>}\<close>\<close>

definition interestsGuard :: "view \<Rightarrow> frag \<Rightarrow> frag" where
  "interestsGuard v f =
     ebind (lengthPositive (interests v)) (\<lambda>b. if b then f else andJSX (hobbies v) f)"

text \<open>\<^verbatim>\<open>interests.length > 0 ? <list/> : <hobbies/>\<close>\<close>

definition interestsBody :: "view \<Rightarrow> frag \<Rightarrow> frag \<Rightarrow> frag" where
  "interestsBody v list text =
     ebind (lengthPositive (interests v)) (\<lambda>b. if b then list else text)"

text \<open>
  \<^verbatim>\<open>customSections.filter(cs => cs.title && cs.content)\<close>: only an array has \<^verbatim>\<open>filter\<close>,
  and the callback reads a property of every entry.
\<close>

definition customEntries :: "jsval \<Rightarrow> error + jsval list" where
  "customEntries cs =
     (case cs of
        Arr xs \<Rightarrow>
          (if list_ex nullish xs then Inl Thrown
           else Inr (filter (\<lambda>c. truthy (js_and (member c (str ''title''))
                                                 (member c (str ''content'')))) xs))
      | _ \<Rightarrow> Inl Thrown)"

text \<open>
  The outermost \<^verbatim>\<open>div\<close> of every layout, whose style holds
  \<^verbatim>\<open>fontFamily: theme.fontFamily\<close>. The style is written when the rendered tree is
  committed, after every child has been rendered.
\<close>

definition rootDiv :: "view \<Rightarrow> frag list \<Rightarrow> frag" where
  "rootDiv v kids =
     ebind (el ''div'' kids) (\<lambda>ns. ebind (styleValue (fontFamily v)) (\<lambda>_. Inr ns))"

subsection \<open>Clean layout\<close>

definition clean_header :: "view \<Rightarrow> frag" where
  "clean_header v =
     el ''div''
       [el ''div'' [headerName v, headerTitle v, el ''div'' (contacts5 v)],
        photoImg v]"

definition clean_profile :: "view \<Rightarrow> frag" where
  "clean_profile v =
     andJSX (summary v)
       (el ''div'' [sTitle v (Str (L v Profile)) (icon Profile), el ''p'' [child (summary v)]])"

definition clean_experience :: "view \<Rightarrow> frag" where
  "clean_experience v =
     whenLong (experiences v)
       (el ''div''
          [sTitle v (Str (L v Experience)) (icon Experience),
           mapEl (cleanExp (isGerman v)) (experiences v)])"

definition clean_education :: "view \<Rightarrow> frag" where
  "clean_education v =
     whenLong (education v)
       (el ''div''
          [sTitle v (Str (L v Education)) (icon Education),
           mapEl (cleanEdu (isGerman v)) (education v)])"

definition clean_skills :: "view \<Rightarrow> frag" where
  "clean_skills v =
     skillsOrCategories v
       (el ''div'' [sTitle v (Str (L v Skills)) (icon Skills), renderSkills v False])"

definition clean_languages :: "view \<Rightarrow> frag" where
  "clean_languages v =
     whenLong (langs v)
       (el ''div''
          [sTitle v (Str (L v Languages)) (icon Languages),
           el ''div'' [mapEl langRow (langs v)]])"

definition clean_interests :: "view \<Rightarrow> frag" where
  "clean_interests v =
     interestsGuard v
       (el ''div''
          [sTitle v (Str (L v Interests)) (icon Interests),
           interestsBody v
             (el ''div'' [mapEl (interestChip ''span'' interestText) (interests v)])
             (el ''p'' [child (hobbies v)])])"

definition clean_projects :: "view \<Rightarrow> frag" where
  "clean_projects v =
     whenLong (projects v)
       (el ''div''
          [sTitle v (Str (L v Projects)) (icon Projects), mapEl cleanProject (projects v)])"

definition clean_certifications :: "view \<Rightarrow> frag" where
  "clean_certifications v =
     whenLong (certs v)
       (el ''div''
          [sTitle v (Str (L v Certifications)) (icon Certifications),
           mapEl certRow (certs v)])"

definition clean_custom :: "view \<Rightarrow> frag" where
  "clean_custom v =
     ebind (customEntries (customSections v)) (\<lambda>cs.
       collect
         (map (\<lambda>c. el ''div''
                      [sTitle v (member c (str ''title'')) icon_custom,
                       el ''p'' [child (member c (str ''content''))]]) cs))"

definition clean_layout :: "view \<Rightarrow> frag" where
  "clean_layout v =
     rootDiv v
       [clean_header v, el ''div'' [],
        clean_profile v, clean_experience v, clean_education v, clean_skills v,
        clean_languages v, clean_interests v, clean_projects v, clean_certifications v,
        clean_custom v]"

subsection \<open>Sections of the four other layouts\<close>

text \<open>\<^verbatim>\<open>summary && <><SectionTitle label="Profile" .../><p>{summary}</p></>\<close>\<close>

definition profileFragment :: "view \<Rightarrow> frag" where
  "profileFragment v =
     andJSX (summary v)
       (collect [plainTitle v (Str (str ''Profile'')), el ''p'' [child (summary v)]])"

definition classic_profile :: "view \<Rightarrow> frag" where
  "classic_profile v =
     andJSX (summary v)
       (el ''div'' [plainTitle v (Str (str ''Profile'')), el ''p'' [child (summary v)]])"

text \<open>The two cells of the grid in the minimal and the classic layout.\<close>

definition grid_skills :: "view \<Rightarrow> frag" where
  "grid_skills v =
     someSkills v (el ''div'' [plainTitle v (Str (str ''Skills'')), renderSkills v False])"

definition grid_languages :: "view \<Rightarrow> frag" where
  "grid_languages v =
     whenLong (langs v)
       (el ''div'' [plainTitle v (Str (str ''Languages'')), mapEl langRow (langs v)])"

definition boxed_interests :: "view \<Rightarrow> frag" where
  "boxed_interests v =
     interestsGuard v
       (el ''div''
          [plainTitle v (Str (str ''Interests'')),
           interestsBody v
             (el ''div'' [mapEl (interestChip ''span'' interestName) (interests v)])
             (el ''p'' [child (hobbies v)])])"

definition boxed_certifications :: "view \<Rightarrow> frag" where
  "boxed_certifications v =
     whenLong (certs v)
       (el ''div'' [plainTitle v (Str (str ''Certifications'')), mapEl certRow (certs v)])"

definition boxed_projects :: "view \<Rightarrow> frag" where
  "boxed_projects v =
     whenLong (projects v)
       (el ''div'' [plainTitle v (Str (str ''Projects'')), mapEl projectRow (projects v)])"

text \<open>Certifications of the modern layout, projects of the modern and the executive one.\<close>

definition fragment_certifications :: "view \<Rightarrow> frag" where
  "fragment_certifications v =
     whenLong (certs v)
       (collect [plainTitle v (Str (str ''Certifications'')), mapEl certRow (certs v)])"

definition fragment_projects :: "view \<Rightarrow> frag" where
  "fragment_projects v =
     whenLong (projects v)
       (collect [plainTitle v (Str (str ''Projects'')), mapEl projectRow (projects v)])"

text \<open>Custom sections of the minimal and of the classic layout.\<close>

definition plain_custom :: "view \<Rightarrow> frag" where
  "plain_custom v =
     ebind (customEntries (customSections v)) (\<lambda>cs.
       collect
         (map (\<lambda>c. el ''div''
                      [plainTitle v (member c (str ''title'')),
                       el ''p'' [child (member c (str ''content''))]]) cs))"

subsection \<open>Modern layout\<close>

text \<open>\<^verbatim>\<open>x && `(glyph) ${x}`\<close>, kept by \<^verbatim>\<open>filter(Boolean)\<close> and wrapped in a \<^verbatim>\<open>div\<close>.\<close>

definition contactLine :: "jsstring \<Rightarrow> jsval \<Rightarrow> frag" where
  "contactLine glyph x =
     (if truthy x then ebind (toStr x) (\<lambda>s. el ''div'' [child (Str (glyph @ s))])
      else Inr [])"

definition modern_skills :: "view \<Rightarrow> frag" where
  "modern_skills v =
     someSkills v
       (collect
          [el ''div'' [lit (str ''Skills'')],
           el ''div'' (map (\<lambda>s. el ''span'' [child s]) (skills v))])"

definition modern_languages :: "view \<Rightarrow> frag" where
  "modern_languages v =
     whenLong (langs v)
       (el ''div'' [el ''div'' [lit (str ''Languages'')], mapEl langRow (langs v)])"

definition modern_interests :: "view \<Rightarrow> frag" where
  "modern_interests v =
     interestsGuard v
       (el ''div''
          [el ''div'' [lit (str ''Interests'')],
           interestsBody v
             (mapEl (interestChip ''div'' interestText) (interests v))
             (el ''div'' [child (hobbies v)])])"

definition modern_layout :: "view \<Rightarrow> frag" where
  "modern_layout v =
     rootDiv v
       [el ''div''
          [photoImg v, headerName v, headerTitle v,
           el ''div''
             [contactLine glyph_mail (email v), contactLine glyph_phone (phone v),
              contactLine glyph_pin (location v), contactLine (str ''in '') (linkedin v)],
           modern_skills v, modern_languages v, modern_interests v],
        el ''div''
          [profileFragment v, renderExp v, renderEdu v,
           fragment_certifications v, fragment_projects v]]"

subsection \<open>Executive layout\<close>

definition exec_skills :: "view \<Rightarrow> frag" where
  "exec_skills v =
     skillsOrCategories v
       (collect [plainTitle v (Str (str ''Skills'')), el ''div'' [renderSkills v True]])"

definition exec_languages :: "view \<Rightarrow> frag" where
  "exec_languages v =
     whenLong (langs v)
       (collect [plainTitle v (Str (str ''Languages'')), mapEl langRow (langs v)])"

definition exec_interests :: "view \<Rightarrow> frag" where
  "exec_interests v =
     interestsGuard v
       (el ''div''
          [plainTitle v (Str (str ''Interests'')),
           interestsBody v
             (mapEl (interestChip ''div'' interestName) (interests v))
             (el ''div'' [child (hobbies v)])])"

definition exec_certifications :: "view \<Rightarrow> frag" where
  "exec_certifications v =
     whenLong (certs v)
       (el ''div'' [plainTitle v (Str (str ''Certifications'')), mapEl execCertRow (certs v)])"

definition executive_layout :: "view \<Rightarrow> frag" where
  "executive_layout v =
     rootDiv v
       [band v (contacts4 v),
        el ''div''
          [el ''div'' [exec_skills v, exec_languages v, exec_interests v, exec_certifications v],
           el ''div'' [profileFragment v, renderExp v, renderEdu v, fragment_projects v]]]"

subsection \<open>Minimal layout\<close>

definition minimal_layout :: "view \<Rightarrow> frag" where
  "minimal_layout v =
     rootDiv v
       [el ''div''
          [el ''div''
             [el ''div'' [headerName v, headerTitle v, el ''div'' (contacts4 v)],
              photoImg v]],
        profileFragment v, renderExp v, renderEdu v,
        el ''div'' [grid_skills v, grid_languages v],
        boxed_interests v, boxed_certifications v, boxed_projects v,
        plain_custom v]"

subsection \<open>Classic layout, the default\<close>

definition classic_layout :: "view \<Rightarrow> frag" where
  "classic_layout v =
     rootDiv v
       [band v (contacts5 v),
        el ''div''
          [classic_profile v, renderExp v, renderEdu v,
           el ''div'' [grid_skills v, grid_languages v],
           boxed_interests v, boxed_certifications v, boxed_projects v,
           plain_custom v]]"

subsection \<open>The component\<close>

text \<open>
  \<^verbatim>\<open>CVPreview({ data = {}, theme: themeProp = {}, scale = 1 })\<close>, with the case table of
  the engine and the value of \<^verbatim>\<open>API_BASE\<close> as parameters. A prop that is \<^verbatim>\<open>undefined\<close>
  takes its default; the tests on \<^verbatim>\<open>theme.layout\<close> come in the order of the source, the
  classic layout being what is left.
\<close>

definition CVPreview ::
  "(jsstring \<Rightarrow> jsstring) \<Rightarrow> jsstring \<Rightarrow> jsval \<Rightarrow> jsval \<Rightarrow> frag" where
  "CVPreview lc apiBase dataProp themeProp =
     ebind (normalize lc apiBase (if dataProp = Undefined then Obj [] else dataProp)
              (if themeProp = Undefined then Obj [] else themeProp))
       (\<lambda>v.
          if layout v = Str (str ''clean'') then clean_layout v
          else if layout v = Str (str ''modern'') then modern_layout v
          else if layout v = Str (str ''executive'') then executive_layout v
          else if layout v = Str (str ''minimal'') then minimal_layout v
          else classic_layout v)"

text \<open>The text of a rendered tree, in document order.\<close>

fun texts :: "node \<Rightarrow> jsstring list" where
  "texts (Text s) = [s]"
| "texts (Img src) = []"
| "texts (Elem tag kids) = concat (map texts kids)"

section \<open>The specification's wording\<close>

text \<open>
  The count of the specification: how many words of the marker list occur in the sample
  as substrings.
\<close>

definition spec_marker_count :: "jsstring \<Rightarrow> nat" where
  "spec_marker_count sample = length (filter (\<lambda>w. sublist w sample) GERMAN_MARKERS)"

text \<open>The phrase of the specification's test for German text (\<open>252\<close> is U+00FC).\<close>

definition spec_example_phrase :: jsstring where
  "spec_example_phrase =
     str ''verantwortlich f'' @ [252] @ str ''r die Entwicklung und Leitung''"

text \<open>
  A backing collection that is empty or absent: the value is falsy
  (\<^verbatim>\<open>undefined\<close>, \<^verbatim>\<open>null\<close>, ...) or the empty array.
\<close>

definition absentOrEmpty :: "jsval \<Rightarrow> bool" where
  "absentOrEmpty x \<longleftrightarrow> \<not> truthy x \<or> x = Arr []"

text \<open>The text a fragment shows, its text nodes concatenated in document order.\<close>

definition fragText :: "frag \<Rightarrow> error + jsstring" where
  "fragText f = (case f of Inl e \<Rightarrow> Inl e | Inr ns \<Rightarrow> Inr (concat (concat (map texts ns))))"

text \<open>A text field that is absent, \<^verbatim>\<open>null\<close> or a string, and the text it stands for.\<close>

fun isPlain :: "jsval \<Rightarrow> bool" where
  "isPlain Undefined = True"
| "isPlain Null = True"
| "isPlain (Str s) = True"
| "isPlain _ = False"

fun plainText :: "jsval \<Rightarrow> jsstring" where
  "plainText (Str s) = s"
| "plainText _ = []"

text \<open>
  What \<^verbatim>\<open>detectGerman\<close> reads of a document: \<^verbatim>\<open>data.personal_info || {}\<close> and
  \<^verbatim>\<open>data.experiences || data.experience || []\<close>.
\<close>

definition sampled_info :: "jsval \<Rightarrow> jsval" where
  "sampled_info d = js_or (member d (str ''personal_info'')) (Obj [])"

definition sampled_experiences :: "jsval \<Rightarrow> jsval" where
  "sampled_experiences d =
     js_or (js_or (member d (str ''experiences'')) (member d (str ''experience''))) (Arr [])"

text \<open>
  A document whose sampled fields are text: it is not nullish, the title, the job title
  and both summaries are each a string, absent or \<^verbatim>\<open>null\<close>, the experiences are the array
  \<open>es\<close> (the empty one when the document has none), and the first two entries are not
  nullish and have a description that is a string, absent or \<^verbatim>\<open>null\<close>.
\<close>

definition textSampled :: "jsval \<Rightarrow> jsval list \<Rightarrow> bool" where
  "textSampled d es \<longleftrightarrow>
     \<not> nullish d
     \<and> isPlain (member (sampled_info d) (str ''title''))
     \<and> isPlain (member (sampled_info d) (str ''jobTitle''))
     \<and> isPlain (member (sampled_info d) (str ''summary''))
     \<and> isPlain (member d (str ''profile_summary''))
     \<and> sampled_experiences d = Arr es
     \<and> list_all (\<lambda>e. \<not> nullish e \<and> isPlain (member e (str ''description''))) (take 2 es)"

text \<open>
  The sample of the specification for such a document, before it is lowercased: the title
  (the job title when there is no title), a space, the first 400 code units of the summary
  (the legacy summary when there is none), a space, and the first 200 code units of the
  description of each of the first two experiences, each followed by a space.
\<close>

definition spec_sample :: "jsval \<Rightarrow> jsval list \<Rightarrow> jsstring" where
  "spec_sample d es =
     plainText (js_or (member (sampled_info d) (str ''title''))
                      (member (sampled_info d) (str ''jobTitle'')))
     @ str '' ''
     @ take 400 (plainText (js_or (member (sampled_info d) (str ''summary''))
                                  (member d (str ''profile_summary''))))
     @ str '' ''
     @ concat (map (\<lambda>e. take 200 (plainText (member e (str ''description''))) @ str '' '')
                 (take 2 es))"

text \<open>A text within U+00FF, which is lowercased without the case table of the engine.\<close>

definition latin1 :: "jsstring \<Rightarrow> bool" where
  "latin1 s = list_all (\<lambda>u. u \<le> 255) s"

text \<open>The section of the clean layout that belongs to a key of the label set.\<close>

fun clean_section :: "sectionKey \<Rightarrow> view \<Rightarrow> frag" where
  "clean_section Profile = clean_profile"
| "clean_section Experience = clean_experience"
| "clean_section Education = clean_education"
| "clean_section Skills = clean_skills"
| "clean_section Languages = clean_languages"
| "clean_section Interests = clean_interests"
| "clean_section Projects = clean_projects"
| "clean_section Certifications = clean_certifications"

text \<open>
  A section that renders is one \<^verbatim>\<open>div\<close> whose first children are the given heading; a
  section may also render nothing, or throw.
\<close>

definition headedBy :: "frag \<Rightarrow> frag \<Rightarrow> bool" where
  "headedBy heading f =
     (case f of
        Inl e \<Rightarrow> True
      | Inr [] \<Rightarrow> True
      | Inr [Elem tag kids] \<Rightarrow>
          tag = ''div'' \<and> (case heading of Inl e \<Rightarrow> False | Inr h \<Rightarrow> prefix h kids)
      | Inr _ \<Rightarrow> False)"

text \<open>
  The sections of the four other layouts, by key. The modern layout shows skills,
  languages and interests in its sidebar, under a bare \<^verbatim>\<open>div\<close> as heading; every other
  section of these layouts has a \<^verbatim>\<open>SectionTitle\<close> without icon.
\<close>

fun modern_section :: "sectionKey \<Rightarrow> view \<Rightarrow> frag" where
  "modern_section Profile = profileFragment"
| "modern_section Experience = renderExp"
| "modern_section Education = renderEdu"
| "modern_section Skills = modern_skills"
| "modern_section Languages = modern_languages"
| "modern_section Interests = modern_interests"
| "modern_section Projects = fragment_projects"
| "modern_section Certifications = fragment_certifications"

fun executive_section :: "sectionKey \<Rightarrow> view \<Rightarrow> frag" where
  "executive_section Profile = profileFragment"
| "executive_section Experience = renderExp"
| "executive_section Education = renderEdu"
| "executive_section Skills = exec_skills"
| "executive_section Languages = exec_languages"
| "executive_section Interests = exec_interests"
| "executive_section Projects = fragment_projects"
| "executive_section Certifications = exec_certifications"

fun minimal_section :: "sectionKey \<Rightarrow> view \<Rightarrow> frag" where
  "minimal_section Profile = profileFragment"
| "minimal_section Experience = renderExp"
| "minimal_section Education = renderEdu"
| "minimal_section Skills = grid_skills"
| "minimal_section Languages = grid_languages"
| "minimal_section Interests = boxed_interests"
| "minimal_section Projects = boxed_projects"
| "minimal_section Certifications = boxed_certifications"

fun classic_section :: "sectionKey \<Rightarrow> view \<Rightarrow> frag" where
  "classic_section Profile = classic_profile"
| "classic_section k = minimal_section k"

text \<open>The two kinds of heading, with the English label of the key.\<close>

definition englishTitle :: "view \<Rightarrow> sectionKey \<Rightarrow> frag" where
  "englishTitle v k = plainTitle v (Str (LABELS_EN k))"

definition sidebarTitle :: "sectionKey \<Rightarrow> frag" where
  "sidebarTitle k = el ''div'' [lit (LABELS_EN k)]"

fun modern_heading :: "sectionKey \<Rightarrow> view \<Rightarrow> frag" where
  "modern_heading Skills v = sidebarTitle Skills"
| "modern_heading Languages v = sidebarTitle Languages"
| "modern_heading Interests v = sidebarTitle Interests"
| "modern_heading k v = englishTitle v k"

text \<open>
  A section of these layouts is a fragment or one \<^verbatim>\<open>div\<close>. When it renders, the heading
  has rendered to at least one node, and the nodes of the heading come first: first in the
  fragment, or first among the children of the \<^verbatim>\<open>div\<close>. A section may also render
  nothing, or throw.
\<close>

definition titledBy :: "frag \<Rightarrow> frag \<Rightarrow> bool" where
  "titledBy heading f =
     (case f of
        Inl e \<Rightarrow> True
      | Inr [] \<Rightarrow> True
      | Inr (n # ns) \<Rightarrow>
          (case heading of
             Inl e \<Rightarrow> False
           | Inr h \<Rightarrow>
               h \<noteq> []
               \<and> (prefix h (n # ns)
                  \<or> (case n of Elem tag kids \<Rightarrow> ns = [] \<and> tag = ''div'' \<and> prefix h kids
                      | _ \<Rightarrow> False))))"

section \<open>Well-typed documents\<close>

text \<open>Shapes of values.\<close>

fun isStr :: "jsval \<Rightarrow> bool" where
  "isStr (Str s) = True"
| "isStr _ = False"

fun isScalar :: "jsval \<Rightarrow> bool" where
  "isScalar (Arr xs) = False"
| "isScalar (Obj kvs) = False"
| "isScalar Fn = False"
| "isScalar _ = True"

text \<open>
  An object (or any value that is not nullish) whose listed fields are each a string,
  absent or \<^verbatim>\<open>null\<close>.
\<close>

definition plainAt :: "jsval \<Rightarrow> string list \<Rightarrow> bool" where
  "plainAt e ks \<longleftrightarrow> \<not> nullish e \<and> list_all (\<lambda>k. isPlain (member e (str k))) ks"

text \<open>
  A collection of the document: absent, \<^verbatim>\<open>null\<close> (or otherwise falsy), or an array whose
  entries all have the given shape.
\<close>

definition wfList :: "(jsval \<Rightarrow> bool) \<Rightarrow> jsval \<Rightarrow> bool" where
  "wfList P x = (case x of Arr xs \<Rightarrow> list_all P xs | _ \<Rightarrow> \<not> truthy x)"

text \<open>The entries of the collections, with the fields the component reads.\<close>

definition wfExperience :: "jsval \<Rightarrow> bool" where
  "wfExperience e =
     plainAt e [''role'', ''position'', ''job_title'', ''company'', ''location'',
                ''startDate'', ''endDate'', ''description'']"

definition wfEducation :: "jsval \<Rightarrow> bool" where
  "wfEducation e =
     plainAt e [''degree'', ''field'', ''institution'', ''startDate'', ''endDate'', ''grade'']"

definition wfLanguage :: "jsval \<Rightarrow> bool" where
  "wfLanguage e = plainAt e [''language'', ''proficiency'']"

definition wfCertification :: "jsval \<Rightarrow> bool" where
  "wfCertification e = plainAt e [''name'', ''issuer'', ''issueDate'', ''date'']"

definition wfProject :: "jsval \<Rightarrow> bool" where
  "wfProject e = plainAt e [''name'', ''link'', ''url'', ''description'']"

definition wfCustomSection :: "jsval \<Rightarrow> bool" where
  "wfCustomSection e = plainAt e [''title'', ''content'']"

text \<open>
  An interest is a string or an object with a name; a skill likewise. Both may be
  \<^verbatim>\<open>null\<close>, which the source reads with \<^verbatim>\<open>?.\<close>.
\<close>

definition wfInterest :: "jsval \<Rightarrow> bool" where
  "wfInterest i \<longleftrightarrow> isPlain i \<or> plainAt i [''name'', ''interest'']"

definition wfSkill :: "jsval \<Rightarrow> bool" where
  "wfSkill s \<longleftrightarrow> isPlain s \<or> plainAt s [''name'']"

text \<open>
  Skills: a list of skills, or a mapping whose array values are lists of skills; any
  other value flattens to nothing.
\<close>

definition wfSkills :: "jsval \<Rightarrow> bool" where
  "wfSkills x =
     (case x of
        Arr xs \<Rightarrow> list_all wfSkill xs
      | Obj kvs \<Rightarrow>
          list_all (\<lambda>(c, items). case items of Arr xs \<Rightarrow> list_all wfSkill xs | _ \<Rightarrow> True) kvs
      | _ \<Rightarrow> True)"

definition wfPersonalInfo :: "jsval \<Rightarrow> bool" where
  "wfPersonalInfo x \<longleftrightarrow>
     \<not> truthy x
     \<or> (plainAt x [''name'', ''title'', ''jobTitle'', ''summary'', ''photo'', ''email'', ''phone'',
                    ''location'', ''linkedin'', ''linkedin_url'', ''website'']
        \<and> isScalar (member x (str ''photoSize'')))"

text \<open>
  A document of the documented types: every text field the component reads is a string,
  absent or \<^verbatim>\<open>null\<close>, and every collection is well-typed. It is an object, or at least
  not nullish.
\<close>

definition wfDoc :: "jsval \<Rightarrow> bool" where
  "wfDoc d \<longleftrightarrow>
     wfPersonalInfo (member d (str ''personal_info''))
     \<and> plainAt d [''full_name'', ''title'', ''profile_summary'', ''photo_path'', ''email'',
                   ''phone'', ''location'', ''linkedin_url'', ''hobbies'', ''hobbies_text'']
     \<and> wfList wfExperience (member d (str ''experiences''))
     \<and> wfList wfExperience (member d (str ''experience''))
     \<and> wfList wfEducation (member d (str ''educations''))
     \<and> wfSkills (member d (str ''skills''))
     \<and> wfList wfCertification (member d (str ''certifications''))
     \<and> wfList wfLanguage (member d (str ''languages''))
     \<and> wfList wfProject (member d (str ''projects''))
     \<and> wfList wfInterest (member d (str ''interests''))
     \<and> wfList wfCustomSection (member d (str ''custom_sections''))"

text \<open>
  A theme whose primary colour and font family, after the merge with the defaults, are
  strings.
\<close>

definition wfTheme :: "jsval \<Rightarrow> bool" where
  "wfTheme t \<longleftrightarrow>
     isStr (themeField t (str ''primaryColor'') (Str (str ''#1a1a1a'')))
     \<and> isStr (themeField t (str ''fontFamily'') (Str (str ''Inter, system-ui, sans-serif'')))"

text \<open>The computation returns.\<close>

definition ok :: "error + 'a \<Rightarrow> bool" where
  "ok r = (case r of Inl e \<Rightarrow> False | Inr x \<Rightarrow> True)"

text \<open>
  The view of a well-typed document: every collection is an array of well-typed entries,
  every text a string, absent or \<^verbatim>\<open>null\<close>.
\<close>

definition arrOf :: "(jsval \<Rightarrow> bool) \<Rightarrow> jsval \<Rightarrow> bool" where
  "arrOf P x = (case x of Arr xs \<Rightarrow> list_all P xs | _ \<Rightarrow> False)"

definition wfCategories :: "jsval \<Rightarrow> bool" where
  "wfCategories c = (case c of Null \<Rightarrow> True | Obj kvs \<Rightarrow> wfSkills c | _ \<Rightarrow> False)"

definition wfView :: "view \<Rightarrow> bool" where
  "wfView v \<longleftrightarrow>
     rgba (primary v) = Inr () \<and> isStr (fontFamily v)
     \<and> isPlain (photo v) \<and> isPlain (summary v) \<and> isPlain (name v) \<and> isPlain (title v)
     \<and> isPlain (email v) \<and> isPlain (phone v) \<and> isPlain (location v) \<and> isPlain (linkedin v)
     \<and> isPlain (website v) \<and> isPlain (hobbies v)
     \<and> arrOf wfExperience (experiences v) \<and> arrOf wfEducation (education v)
     \<and> arrOf wfCertification (certs v) \<and> arrOf wfLanguage (langs v)
     \<and> arrOf wfProject (projects v) \<and> arrOf wfInterest (interests v)
     \<and> arrOf wfCustomSection (customSections v)
     \<and> list_all isStr (skills v) \<and> wfCategories (skillCategories v)"

section \<open>Example inputs\<close>

text \<open>
  The examples keep the text that is lowercased within U+00FF, where the case table of
  the engine is not consulted. They are stated for the table that changes nothing.
\<close>

definition no_table :: "jsstring \<Rightarrow> jsstring" where
  "no_table s = s"

text \<open>The view of the empty document under the default theme.\<close>

definition empty_view :: view where
  "empty_view =
     \<lparr> primary = Str (str ''#1a1a1a''),
       fontFamily = Str (str ''Inter, system-ui, sans-serif''),
       accentStyle = Str (str ''line''),
       layout = Str (str ''clean''), photo = Null, experiences = Arr [], education = Arr [],
       skills = [], skillCategories = Null, certs = Arr [], langs = Arr [],
       projects = Arr [], interests = Arr [], hobbies = Str [], customSections = Arr [],
       summary = Str [], name = Str [], title = Str [], email = Str [], phone = Str [],
       location = Str [], linkedin = Str [], website = Str [], isGerman = False \<rparr>"

text \<open>A list of custom sections, each an object with a title and a content.\<close>

definition customDoc :: "(jsstring \<times> jsstring) list \<Rightarrow> jsval" where
  "customDoc tcs = Arr (map (\<lambda>(t, c). Obj [(str ''title'', Str t), (str ''content'', Str c)]) tcs)"

text \<open>
  A German document: the phrase of the specification as summary, and one current position.
\<close>

definition example_german_doc :: jsval where
  "example_german_doc =
     Obj [(str ''personal_info'', Obj [(str ''summary'', Str spec_example_phrase)]),
          (str ''experiences'',
           Arr [Obj [(str ''role'', Str (str ''Ingenieur'')),
                     (str ''startDate'', Str (str ''2022-01'')),
                     (str ''current'', Bool True)]])]"

section \<open>Properties\<close>

lemma str_includes_iff: "str_includes s w \<longleftrightarrow> sublist w s"
  by (induction s) (auto simp: sublist_Cons_right)

lemma two_hits:
  assumes "w1 \<in> set ms" "w2 \<in> set ms" "w1 \<noteq> w2" "P w1" "P w2"
  shows "2 \<le> length (filter P ms)"
proof -
  have "{w1, w2} \<subseteq> set (filter P ms)" using assms by simp
  then have "card {w1, w2} \<le> card (set (filter P ms))"
    by (intro card_mono) simp_all
  also have "\<dots> \<le> length (filter P ms)" by (rule card_length)
  finally show ?thesis using assms(3) by simp
qed

lemma str_eq_iff [simp]: "str a = str b \<longleftrightarrow> a = b"
  by (simp add: str_def inj_map_eq_map inj_on_def)

lemma str_Nil_iff [simp]: "str a = [] \<longleftrightarrow> a = []" "[] = str a \<longleftrightarrow> a = []"
  by (auto simp: str_def)

lemma member_Obj [simp]:
  "member (Obj kvs) k = (case map_of kvs k of Some x \<Rightarrow> x | None \<Rightarrow> Undefined)"
  by (simp add: member_def)

lemma toLowerCase_within_table:
  "those (map lowerUnit s) = Some r \<Longrightarrow> toLowerCase lc s = r"
  by (simp add: toLowerCase_def)

lemma toStr_or_plain: "isPlain x \<Longrightarrow> toStr (js_or x (Str [])) = Inr (plainText x)"
  by (cases x) (simp_all add: toStr_def js_or_def)

lemma substring_or_plain:
  "isPlain x \<Longrightarrow> substring (js_or x (Str [])) n = Inr (take n (plainText x))"
  by (cases x) (simp_all add: substring_def js_or_def)

lemma isPlain_js_or: "isPlain x \<Longrightarrow> isPlain y \<Longrightarrow> isPlain (js_or x y)"
  by (simp add: js_or_def)

lemma expSample_plain:
  "\<not> nullish e \<Longrightarrow> isPlain (member e (str ''description'')) \<Longrightarrow>
   expSample e = Inr (take 200 (plainText (member e (str ''description''))) @ str '' '')"
  by (simp add: expSample_def substring_or_plain ebind_def)

lemma collect_expSample_plain:
  "list_all (\<lambda>e. \<not> nullish e \<and> isPlain (member e (str ''description''))) es \<Longrightarrow>
   collect (map expSample es)
     = Inr (concat (map (\<lambda>e. take 200 (plainText (member e (str ''description''))) @ str '' '')
                      es))"
  by (induction es) (simp_all add: expSample_plain)

lemma sample_text:
  assumes "textSampled d es"
  shows "detectGerman_sample lc d = Inr (toLowerCase lc (spec_sample d es))"
proof -
  let ?pi = "js_or (member d (str ''personal_info'')) (Obj [])"
  from assms have n: "\<not> nullish d"
    and t: "isPlain (js_or (member ?pi (str ''title'')) (member ?pi (str ''jobTitle'')))"
    and s: "isPlain (js_or (member ?pi (str ''summary'')) (member d (str ''profile_summary'')))"
    and e: "js_or (js_or (member d (str ''experiences'')) (member d (str ''experience'')))
              (Arr []) = Arr es"
    and l: "list_all (\<lambda>e. \<not> nullish e \<and> isPlain (member e (str ''description''))) (take 2 es)"
    by (simp_all add: textSampled_def sampled_info_def sampled_experiences_def isPlain_js_or)
  show ?thesis
    using n
    by (simp add: detectGerman_sample_def Let_def e firstTwo_def toStr_or_plain [OF t]
        substring_or_plain [OF s] collect_expSample_plain [OF l] spec_sample_def
        sampled_info_def ebind_def)
qed

lemma textSampled_skeleton:
  "textSampled
     (Obj [(str ''personal_info'',
              Obj [(str ''title'', Str t), (str ''jobTitle'', Str j), (str ''summary'', Str s)]),
           (str ''profile_summary'', Str ps),
           (str ''experiences'', Arr (map (\<lambda>d. Obj [(str ''description'', Str d)]) ds))])
     (map (\<lambda>d. Obj [(str ''description'', Str d)]) ds)"
  by (simp add: textSampled_def sampled_info_def sampled_experiences_def js_or_def
      list_all_iff take_map)

lemma sample_shape:
  "detectGerman_sample lc
     (Obj [(str ''personal_info'',
              Obj [(str ''title'', Str t), (str ''jobTitle'', Str j), (str ''summary'', Str s)]),
           (str ''profile_summary'', Str ps),
           (str ''experiences'', Arr (map (\<lambda>d. Obj [(str ''description'', Str d)]) ds))])
   = Inr (toLowerCase lc
            ((if t \<noteq> [] then t else j) @ str '' '' @
             take 400 (if s \<noteq> [] then s else ps) @ str '' '' @
             concat (map (\<lambda>d. take 200 d @ str '' '') (take 2 ds))))"
  by (simp add: sample_text [OF textSampled_skeleton] spec_sample_def sampled_info_def
      js_or_def take_map comp_def)

lemma those_map_Some:
  "those (map f xs) = Some ys \<Longrightarrow> ys = map (\<lambda>x. the (f x)) xs"
  by (induction xs arbitrary: ys) (auto split: option.splits)

lemma latin1_lowerUnit: "latin1 s \<longleftrightarrow> those (map lowerUnit s) \<noteq> None"
  by (induction s) (auto simp: latin1_def lowerUnit_def split: option.splits)

lemma latin1_sublist: "latin1 s \<Longrightarrow> sublist w s \<Longrightarrow> latin1 w"
  using set_mono_sublist [of w s] by (auto simp: latin1_def list_all_iff)

lemma toLowerCase_latin1: "latin1 s \<Longrightarrow> toLowerCase lc s = map (\<lambda>x. the (lowerUnit x)) s"
  using those_map_Some [of lowerUnit s] by (auto simp: latin1_lowerUnit toLowerCase_def)

lemma toLowerCase_sublist:
  assumes "latin1 s" and "sublist w s"
  shows "sublist (toLowerCase lc w) (toLowerCase lc s)"
  using assms latin1_sublist [OF assms]
  by (simp add: toLowerCase_latin1 map_mono_sublist)

lemma score_eq_spec: "score sample = spec_marker_count sample"
  by (simp add: score_def spec_marker_count_def str_includes_iff)

lemma phrase_markers:
  "sublist (str ''verantwortlich'') (toLowerCase lc spec_example_phrase)"
  "sublist (str ''entwicklung'') (toLowerCase lc spec_example_phrase)"
  by (simp_all add: str_includes_iff [symmetric] spec_example_phrase_def toLowerCase_def
      lowerUnit_def str_def)

lemma phrase_is_german:
  assumes "sublist (toLowerCase lc spec_example_phrase) sample"
  shows "2 \<le> score sample"
proof -
  have a: "str_includes sample (str ''verantwortlich'')"
    using phrase_markers(1) assms sublist_order.order_trans by (auto simp: str_includes_iff)
  have b: "str_includes sample (str ''entwicklung'')"
    using phrase_markers(2) assms sublist_order.order_trans by (auto simp: str_includes_iff)
  show ?thesis
    unfolding score_def
    by (rule two_hits [where ?w1.0 = "str ''verantwortlich''" and ?w2.0 = "str ''entwicklung''"])
       (simp_all add: GERMAN_MARKERS_def a b)
qed

lemma phrase_in_document:
  assumes "textSampled d es" and "latin1 (spec_sample d es)"
    and "sublist spec_example_phrase (spec_sample d es)"
  shows "detectGerman lc d = Inr True"
  using phrase_is_german [OF toLowerCase_sublist [OF assms(2,3)], of lc]
  by (simp add: detectGerman_def ebind_def sample_text [OF assms(1)])

text \<open>
  Claim C2. For every document whose sampled fields are text (each a string, absent or
  \<^verbatim>\<open>null\<close>, under the current or the legacy key), the sample is the lowercased
  concatenation of the title (the job title when there is no title), a space, the first
  400 code units of the summary, a space, and the first 200 code units of each of the
  first two descriptions, each followed by a space; the second conjunct spells this out
  for a document that has every key. Whenever the sample is built, the document is German
  exactly when at least two marker words occur in the sample as substrings; a sample that
  contains the (lowercased) phrase of the specification is German; a sample with no
  marker, or with exactly one, is English. A document whose sampled text stays within
  U+00FF and contains the phrase of the specification as it is written there is German.
  All of this holds for every case table of the engine.
\<close>

theorem detectGerman_spec:
  "(textSampled d es \<longrightarrow>
      detectGerman_sample lc d = Inr (toLowerCase lc (spec_sample d es)))
   \<and> detectGerman_sample lc
     (Obj [(str ''personal_info'',
              Obj [(str ''title'', Str t), (str ''jobTitle'', Str j), (str ''summary'', Str s)]),
           (str ''profile_summary'', Str ps),
           (str ''experiences'', Arr (map (\<lambda>d. Obj [(str ''description'', Str d)]) ds))])
     = Inr (toLowerCase lc
            ((if t \<noteq> [] then t else j) @ str '' '' @
             take 400 (if s \<noteq> [] then s else ps) @ str '' '' @
             concat (map (\<lambda>d. take 200 d @ str '' '') (take 2 ds))))
   \<and> (detectGerman_sample lc data = Inr sample \<longrightarrow>
        detectGerman lc data = Inr (2 \<le> spec_marker_count sample))
   \<and> (detectGerman_sample lc data = Inr sample
          \<and> sublist (toLowerCase lc spec_example_phrase) sample \<longrightarrow>
        detectGerman lc data = Inr True)
   \<and> (detectGerman_sample lc data = Inr sample \<and> spec_marker_count sample = 0 \<longrightarrow>
        detectGerman lc data = Inr False)
   \<and> (detectGerman_sample lc data = Inr sample \<and> spec_marker_count sample = 1 \<longrightarrow>
        detectGerman lc data = Inr False)
   \<and> (textSampled d es \<and> latin1 (spec_sample d es)
          \<and> sublist spec_example_phrase (spec_sample d es) \<longrightarrow>
        detectGerman lc d = Inr True)"
  using phrase_is_german [of lc sample] sample_text [of d es lc] phrase_in_document [of d es lc]
  by (simp add: sample_shape detectGerman_def ebind_def score_eq_spec)

text \<open>
  The theorem at five documents: the phrase in the summary, no marker at all, the single
  marker \<^verbatim>\<open>leitung\<close>, a document that has only a job title, a legacy summary and a
  legacy list of three experiences, the second without description, and a document that
  has only a legacy summary with the phrase.
\<close>

theorem detectGerman_spec_witness:
  "detectGerman no_table
     (Obj [(str ''personal_info'',
              Obj [(str ''title'', Str []), (str ''jobTitle'', Str []),
                   (str ''summary'', Str (str ''Ich war '' @ spec_example_phrase))]),
           (str ''profile_summary'', Str []),
           (str ''experiences'', Arr (map (\<lambda>d. Obj [(str ''description'', Str d)]) []))])
     = Inr True
   \<and> detectGerman no_table
     (Obj [(str ''personal_info'',
              Obj [(str ''title'', Str (str ''Engineer'')), (str ''jobTitle'', Str []),
                   (str ''summary'', Str (str ''Builds compilers''))]),
           (str ''profile_summary'', Str []),
           (str ''experiences'', Arr (map (\<lambda>d. Obj [(str ''description'', Str d)]) []))])
     = Inr False
   \<and> detectGerman no_table
     (Obj [(str ''personal_info'',
              Obj [(str ''title'', Str (str ''Engineer'')), (str ''jobTitle'', Str []),
                   (str ''summary'', Str (str ''Leitung''))]),
           (str ''profile_summary'', Str []),
           (str ''experiences'', Arr (map (\<lambda>d. Obj [(str ''description'', Str d)]) []))])
     = Inr False
   \<and> detectGerman_sample no_table
     (Obj [(str ''personal_info'', Obj [(str ''jobTitle'', Str (str ''Ingenieur''))]),
           (str ''profile_summary'', Str (str ''Planung'')),
           (str ''experience'',
            Arr [Obj [(str ''description'', Str (str ''Umsetzung''))],
                 Obj [(str ''description'', Null)],
                 Obj [(str ''description'', Str (str ''Werkzeug''))]])])
     = Inr (str ''ingenieur planung umsetzung  '')
   \<and> detectGerman no_table
     (Obj [(str ''personal_info'', Obj [(str ''jobTitle'', Str (str ''Ingenieur''))]),
           (str ''profile_summary'', Str (str ''Planung'')),
           (str ''experience'',
            Arr [Obj [(str ''description'', Str (str ''Umsetzung''))],
                 Obj [(str ''description'', Null)],
                 Obj [(str ''description'', Str (str ''Werkzeug''))]])])
     = Inr True
   \<and> detectGerman no_table
     (Obj [(str ''profile_summary'', Str (str ''Ich war '' @ spec_example_phrase))])
     = Inr True"
proof -
  let ?doc = "\<lambda>t s. Obj [(str ''personal_info'',
              Obj [(str ''title'', Str t), (str ''jobTitle'', Str []), (str ''summary'', Str s)]),
           (str ''profile_summary'', Str []),
           (str ''experiences'', Arr (map (\<lambda>d. Obj [(str ''description'', Str d)]) []))]"
  let ?smp = "\<lambda>t s. toLowerCase no_table
            ((if t \<noteq> [] then t else []) @ str '' '' @
             take 400 (if s \<noteq> [] then s else []) @ str '' '' @
             concat (map (\<lambda>d. take 200 d @ str '' '') (take 2 [])))"
  let ?de = "str ''Ich war '' @ spec_example_phrase"
  let ?es = "[Obj [(str ''description'', Str (str ''Umsetzung''))],
              Obj [(str ''description'', Null)],
              Obj [(str ''description'', Str (str ''Werkzeug''))]]"
  let ?legacy = "Obj [(str ''personal_info'', Obj [(str ''jobTitle'', Str (str ''Ingenieur''))]),
           (str ''profile_summary'', Str (str ''Planung'')),
           (str ''experience'', Arr ?es)]"
  let ?ls = "toLowerCase no_table (spec_sample ?legacy ?es)"
  note de = detectGerman_spec [where lc = no_table and t = "[]" and j = "[]" and s = ?de
      and ps = "[]" and ds = "[]" and data = "?doc [] ?de" and sample = "?smp [] ?de"]
  note en = detectGerman_spec [where lc = no_table and t = "str ''Engineer''" and j = "[]"
      and s = "str ''Builds compilers''" and ps = "[]" and ds = "[]"
      and data = "?doc (str ''Engineer'') (str ''Builds compilers'')"
      and sample = "?smp (str ''Engineer'') (str ''Builds compilers'')"]
  note one = detectGerman_spec [where lc = no_table and t = "str ''Engineer''" and j = "[]"
      and s = "str ''Leitung''" and ps = "[]" and ds = "[]"
      and data = "?doc (str ''Engineer'') (str ''Leitung'')"
      and sample = "?smp (str ''Engineer'') (str ''Leitung'')"]
  note leg = detectGerman_spec [where lc = no_table and d = ?legacy and es = ?es
      and data = ?legacy and sample = ?ls]
  let ?old = "Obj [(str ''profile_summary'', Str (str ''Ich war '' @ spec_example_phrase))]"
  note old = detectGerman_spec [where lc = no_table and d = ?old and es = "[]"]
  have ot: "textSampled ?old []"
    by (simp add: textSampled_def sampled_info_def sampled_experiences_def js_or_def)
  have ol: "latin1 (spec_sample ?old [])"
    by (simp add: latin1_def spec_sample_def sampled_info_def js_or_def
        spec_example_phrase_def str_def)
  have os: "sublist spec_example_phrase (spec_sample ?old [])"
    by (simp add: str_includes_iff [symmetric] spec_sample_def sampled_info_def js_or_def
        spec_example_phrase_def str_def)
  have c0: "spec_marker_count (?smp (str ''Engineer'') (str ''Builds compilers'')) = 0"
    by (simp add: spec_marker_count_def GERMAN_MARKERS_def str_includes_iff [symmetric]
        toLowerCase_def lowerUnit_def str_def)
  have c1: "spec_marker_count (?smp (str ''Engineer'') (str ''Leitung'')) = 1"
    by (simp add: spec_marker_count_def GERMAN_MARKERS_def str_includes_iff [symmetric]
        toLowerCase_def lowerUnit_def str_def)
  have c2: "sublist (toLowerCase no_table spec_example_phrase) (?smp [] ?de)"
    by (simp add: str_includes_iff [symmetric] spec_example_phrase_def
        toLowerCase_def lowerUnit_def str_def)
  have ts: "textSampled ?legacy ?es"
    by (simp add: textSampled_def sampled_info_def sampled_experiences_def js_or_def)
  have lv: "?ls = str ''ingenieur planung umsetzung  ''"
    by (simp add: spec_sample_def sampled_info_def js_or_def toLowerCase_def lowerUnit_def
        str_def)
  have c3: "spec_marker_count (str ''ingenieur planung umsetzung  '') = 3"
    by (simp add: spec_marker_count_def GERMAN_MARKERS_def str_includes_iff [symmetric] str_def)
  from de c2 have "detectGerman no_table (?doc [] ?de) = Inr True" by blast
  moreover from en c0
  have "detectGerman no_table (?doc (str ''Engineer'') (str ''Builds compilers'')) = Inr False"
    by blast
  moreover from one c1
  have "detectGerman no_table (?doc (str ''Engineer'') (str ''Leitung'')) = Inr False"
    by blast
  moreover from leg ts lv
  have l1: "detectGerman_sample no_table ?legacy = Inr (str ''ingenieur planung umsetzung  '')"
    by simp
  moreover from leg l1 lv c3 have "detectGerman no_table ?legacy = Inr True"
    by simp
  moreover from old ot ol os have "detectGerman no_table ?old = Inr True"
    by blast
  ultimately show ?thesis by blast
qed

lemma wurden_two_hits:
  assumes "sublist (str ''wurden'') sample"
  shows "2 \<le> score sample"
proof -
  have "sublist (str ''wurde'') (str ''wurden'')"
    by (simp add: str_includes_iff [symmetric] str_def)
  then have b: "str_includes sample (str ''wurde'')"
    using assms sublist_order.order_trans by (auto simp: str_includes_iff)
  have a: "str_includes sample (str ''wurden'')"
    using assms by (simp add: str_includes_iff)
  show ?thesis
    unfolding score_def
    by (rule two_hits [where ?w1.0 = "str ''wurden''" and ?w2.0 = "str ''wurde''"])
       (simp_all add: GERMAN_MARKERS_def a b)
qed

lemma wurden_only_score:
  assumes "sublist (str ''wurden'') sample"
    and "\<forall>w\<in>set GERMAN_MARKERS. w \<noteq> str ''wurden'' \<and> w \<noteq> str ''wurde'' \<longrightarrow> \<not> sublist w sample"
  shows "score sample = 2"
proof -
  have "sublist (str ''wurde'') (str ''wurden'')"
    by (simp add: str_includes_iff [symmetric] str_def)
  then have b: "str_includes sample (str ''wurde'')"
    using assms(1) sublist_order.order_trans by (auto simp: str_includes_iff)
  have a: "str_includes sample (str ''wurden'')"
    using assms(1) by (simp add: str_includes_iff)
  have rest: "\<forall>w\<in>set GERMAN_MARKERS. w \<noteq> str ''wurden'' \<and> w \<noteq> str ''wurde'' \<longrightarrow> \<not> str_includes sample w"
    using assms(2) by (simp add: str_includes_iff)
  show ?thesis
    using rest a b unfolding score_def GERMAN_MARKERS_def
    by (simp add: str_def)
qed

text \<open>
  Claim C10. A sample that contains \<^verbatim>\<open>wurden\<close> also contains \<^verbatim>\<open>wurde\<close>, so it scores
  at least two and the document is German; when no other marker occurs, the score is
  exactly two.
\<close>

theorem wurden_counts_twice:
  "(detectGerman_sample lc data = Inr sample \<and> sublist (str ''wurden'') sample \<longrightarrow>
      2 \<le> score sample \<and> detectGerman lc data = Inr True)
   \<and> (sublist (str ''wurden'') sample
        \<and> (\<forall>w\<in>set GERMAN_MARKERS.
              w \<noteq> str ''wurden'' \<and> w \<noteq> str ''wurde'' \<longrightarrow> \<not> sublist w sample) \<longrightarrow>
      score sample = 2)"
  using wurden_two_hits [of sample] wurden_only_score [of sample]
  by (simp add: detectGerman_def ebind_def)

text \<open>
  The theorem at a document whose only German marker word is \<^verbatim>\<open>wurden\<close>.
\<close>

theorem wurden_counts_twice_witness:
  "detectGerman no_table
     (Obj [(str ''personal_info'', Obj [(str ''summary'', Str (str ''Alle Tests wurden automatisiert''))])])
     = Inr True
   \<and> score (toLowerCase no_table (str '' Alle Tests wurden automatisiert '')) = 2"
proof -
  let ?doc = "Obj [(str ''personal_info'', Obj [(str ''summary'', Str (str ''Alle Tests wurden automatisiert''))])]"
  let ?smp = "toLowerCase no_table (str '' Alle Tests wurden automatisiert '')"
  have s: "detectGerman_sample no_table ?doc = Inr ?smp"
    by (simp add: detectGerman_sample_def js_or_def toStr_def substring_def Let_def
        ebind_def firstTwo_def str_def)
  have h: "sublist (str ''wurden'') ?smp"
    by (simp add: str_includes_iff [symmetric] toLowerCase_def lowerUnit_def str_def)
  have n: "\<forall>w\<in>set GERMAN_MARKERS.
              w \<noteq> str ''wurden'' \<and> w \<noteq> str ''wurde'' \<longrightarrow> \<not> sublist w ?smp"
    by (simp add: GERMAN_MARKERS_def str_includes_iff [symmetric] toLowerCase_def lowerUnit_def str_def)
  show ?thesis
    using wurden_counts_twice [where lc = no_table and data = ?doc and sample = ?smp] s h n
    by blast
qed

text \<open>
  Claim C4. A list of strings, a list of objects with a \<^verbatim>\<open>name\<close>, and a mapping from one
  category to a list of strings flatten to the same list: the names in order, the empty
  ones dropped. The two lists have no category grouping (\<^verbatim>\<open>null\<close>); the mapping is its
  own grouping, one category holding the skills.
\<close>

theorem flattenSkills_shapes:
  "flattenSkills (Arr (map Str ss)) = map Str (filter (\<lambda>s. s \<noteq> []) ss)
   \<and> flattenSkills (Arr (map (\<lambda>s. Obj [(str ''name'', Str s)]) ss))
       = map Str (filter (\<lambda>s. s \<noteq> []) ss)
   \<and> flattenSkills (Obj [(cat, Arr (map Str ss))]) = map Str (filter (\<lambda>s. s \<noteq> []) ss)
   \<and> getSkillCategories (Arr (map Str ss)) = Null
   \<and> getSkillCategories (Arr (map (\<lambda>s. Obj [(str ''name'', Str s)]) ss)) = Null
   \<and> getSkillCategories (Obj [(cat, Arr (map Str ss))]) = Obj [(cat, Arr (map Str ss))]"
  by (simp add: flattenSkills_def getSkillCategories_def skillNames_def skillName_def
      optMember_def js_or_def filter_map comp_def)

text \<open>
  The theorem at the skills \<^verbatim>\<open>Go\<close> and \<^verbatim>\<open>Rust\<close> and the category \<^verbatim>\<open>Languages\<close>.
\<close>

theorem flattenSkills_shapes_witness:
  "flattenSkills (Arr [Str (str ''Go''), Str (str ''Rust'')]) = [Str (str ''Go''), Str (str ''Rust'')]
   \<and> flattenSkills (Arr [Obj [(str ''name'', Str (str ''Go''))], Obj [(str ''name'', Str (str ''Rust''))]])
       = [Str (str ''Go''), Str (str ''Rust'')]
   \<and> flattenSkills (Obj [(str ''Languages'', Arr [Str (str ''Go''), Str (str ''Rust'')])])
       = [Str (str ''Go''), Str (str ''Rust'')]
   \<and> getSkillCategories (Arr [Str (str ''Go''), Str (str ''Rust'')]) = Null
   \<and> getSkillCategories (Arr [Obj [(str ''name'', Str (str ''Go''))], Obj [(str ''name'', Str (str ''Rust''))]]) = Null
   \<and> getSkillCategories (Obj [(str ''Languages'', Arr [Str (str ''Go''), Str (str ''Rust'')])])
       = Obj [(str ''Languages'', Arr [Str (str ''Go''), Str (str ''Rust'')])]"
  using flattenSkills_shapes [of "[str ''Go'', str ''Rust'']" "str ''Languages''"]
  by simp

text \<open>
  Claim C5, at the configured origin \<^verbatim>\<open>http://api.example.com/api\<close>. The claim removes a
  trailing \<^verbatim>\<open>/api\<close> and resolves \<^verbatim>\<open>/uploads/photo.png\<close> to
  \<^verbatim>\<open>http://api.example.com/uploads/photo.png\<close>. The source removes the first occurrence of
  \<^verbatim>\<open>/api\<close>, which here is the second slash of the scheme with the host's first label; the
  same happens when the origin is configured without the suffix. With the documented
  value \<^verbatim>\<open>http://localhost:8000/api\<close> the suffix is removed, and with \<^verbatim>\<open>API_BASE\<close> itself
  equal to \<^verbatim>\<open>http://api.example.com\<close> both examples of the claim hold.
\<close>

theorem API_BASE_host_named_api:
  "API_BASE (Some (str ''http://api.example.com/api'')) = str ''http:/.example.com/api''
   \<and> resolvePhoto (API_BASE (Some (str ''http://api.example.com/api'')))
         (Str (str ''/uploads/photo.png''))
       = Inr (Str (str ''http:/.example.com/api/uploads/photo.png''))
   \<and> API_BASE (Some (str ''http://api.example.com'')) = str ''http:/.example.com''
   \<and> API_BASE (Some (str ''http://localhost:8000/api'')) = str ''http://localhost:8000''
   \<and> API_BASE None = str ''http://localhost:8000''
   \<and> resolvePhoto (str ''http://api.example.com'') (Str (str ''/uploads/photo.png''))
       = Inr (Str (str ''http://api.example.com/uploads/photo.png''))
   \<and> resolvePhoto (str ''http://api.example.com'') (Str (str ''uploads/photo.png''))
       = Inr (Str (str ''http://api.example.com/uploads/photo.png''))
   \<and> resolvePhoto (str ''http://api.example.com'') (Str (str ''https://cdn.example.com/x.png''))
       = Inr (Str (str ''https://cdn.example.com/x.png''))"
  by (simp add: API_BASE_def resolvePhoto_def stripLeadingSlash_def str_def)

lemma resolvePhoto_rule:
  "resolvePhoto base (Str s) =
     (if s = [] then Inr Null
      else if prefix (str ''/uploads/'') s \<or> prefix (str ''uploads/'') s
      then Inr (Str (base @ str ''/'' @ (if prefix (str ''/'') s then tl s else s)))
      else Inr (Str s))"
  by (cases s) (auto simp: resolvePhoto_def stripLeadingSlash_def str_def)

lemma API_BASE_cases:
  "API_BASE None = str ''http://localhost:8000''"
  "API_BASE (Some (str ''http://localhost:8000/api'')) = str ''http://localhost:8000''"
  by (simp_all add: API_BASE_def str_def)

lemma ebind_simps [simp]:
  "ebind (Inr x) f = f x"
  "ebind (Inl e) f = Inl e"
  by (simp_all add: ebind_def)

lemma normalize_layout:
  "normalize lc base data themeProp = Inr v \<Longrightarrow>
   layout v = themeField themeProp (str ''layout'') (Str (str ''clean''))"
  by (auto simp: normalize_def Let_def ebind_def split: sum.splits if_splits)

lemmas section_defs =
  headerName_def headerTitle_def photoImg_def contacts4_def contacts5_def band_def
  sTitle_def plainTitle_def renderSkills_def skillsOrCategories_def someSkills_def
  renderExp_def renderEdu_def interestsGuard_def interestsBody_def L_def
  clean_header_def clean_profile_def clean_experience_def clean_education_def
  clean_skills_def clean_languages_def clean_interests_def clean_projects_def
  clean_certifications_def clean_custom_def
  profileFragment_def classic_profile_def grid_skills_def grid_languages_def
  boxed_interests_def boxed_certifications_def boxed_projects_def
  fragment_certifications_def fragment_projects_def plain_custom_def
  modern_skills_def modern_languages_def modern_interests_def
  exec_skills_def exec_languages_def exec_interests_def exec_certifications_def
  rootDiv_def

lemmas layout_defs =
  clean_layout_def modern_layout_def executive_layout_def minimal_layout_def
  classic_layout_def

lemma layout_field_unused:
  "clean_layout (v\<lparr>layout := x\<rparr>) = clean_layout v"
  "modern_layout (v\<lparr>layout := x\<rparr>) = modern_layout v"
  "executive_layout (v\<lparr>layout := x\<rparr>) = executive_layout v"
  "minimal_layout (v\<lparr>layout := x\<rparr>) = minimal_layout v"
  "classic_layout (v\<lparr>layout := x\<rparr>) = classic_layout v"
  by (simp_all add: layout_defs section_defs cong: if_cong split del: if_split)

lemma isGerman_unused:
  "modern_layout (v\<lparr>isGerman := b\<rparr>) = modern_layout v"
  "executive_layout (v\<lparr>isGerman := b\<rparr>) = executive_layout v"
  "minimal_layout (v\<lparr>isGerman := b\<rparr>) = minimal_layout v"
  "classic_layout (v\<lparr>isGerman := b\<rparr>) = classic_layout v"
  by (simp_all add: layout_defs section_defs cong: if_cong split del: if_split)

lemma customSections_unused:
  "modern_layout (v\<lparr>customSections := x\<rparr>) = modern_layout v"
  "executive_layout (v\<lparr>customSections := x\<rparr>) = executive_layout v"
  by (simp_all add: layout_defs section_defs cong: if_cong split del: if_split)

lemmas value_defs =
  member_def optMember_def js_or_def js_and_def toStr_def joinVals_def substring_def
  expSample_def firstTwo_def detectGerman_sample_def score_def detectGerman_def
  GERMAN_MARKERS_def toLowerCase_def lowerUnit_def
  resolvePhoto_def stripLeadingSlash_def skillName_def skillNames_def flattenSkills_def
  getSkillCategories_def themeField_def photoSizePx_def normalize_def rgba_def
  lengthPositive_def styleValue_def

lemmas frag_defs =
  child_def el_def lit_def andJSX_def mapEl_def whenLong_def SectionTitle_def
  descLines_def stripBullet_def categoryRow_def entriesOf_def expRole_def
  cleanExpDates_def renderExpDates_def cleanExp_def renderExpEntry_def eduDates_def
  eduHeading_def cleanEdu_def renderEduEntry_def langRow_def certRow_def execCertRow_def
  cleanProject_def projectRow_def interestText_def interestName_def interestChip_def
  customEntries_def contactSpan_def contactLine_def

lemmas glyph_defs =
  en_dash_sep_def em_dash_sep_def middot_sep_def bullet_def bullet_sp_def glyph_mail_def
  glyph_phone_def glyph_pin_def glyph_link_def icon_custom_def

lemma normalize_cons_layout:
  "normalize lc base d (Obj ((str ''layout'', x) # kvs))
   = (case normalize lc base d (Obj kvs) of Inl e \<Rightarrow> Inl e | Inr v \<Rightarrow> Inr (v\<lparr>layout := x\<rparr>))"
  by (simp add: normalize_def themeField_def Let_def ebind_def split: sum.splits)

text \<open>
  Claim C8. A theme whose \<^verbatim>\<open>layout\<close> is none of \<^verbatim>\<open>clean\<close>, \<^verbatim>\<open>modern\<close>, \<^verbatim>\<open>executive\<close>,
  \<^verbatim>\<open>minimal\<close> renders through the classic branch, with the result (tree or exception) of
  the same theme with \<^verbatim>\<open>layout: 'classic'\<close>. A theme without a \<^verbatim>\<open>layout\<close>, and an absent
  theme, take the default \<^verbatim>\<open>clean\<close> of the merge and render through the clean branch.
\<close>

theorem unknown_layout_is_classic:
  "(map_of kvs (str ''layout'') = Some l
      \<and> l \<notin> {Str (str ''clean''), Str (str ''modern''), Str (str ''executive''),
               Str (str ''minimal'')}
    \<longrightarrow> CVPreview lc base dat (Obj kvs)
          = ebind (normalize lc base (if dat = Undefined then Obj [] else dat) (Obj kvs))
              classic_layout
        \<and> CVPreview lc base dat (Obj kvs)
          = CVPreview lc base dat (Obj ((str ''layout'', Str (str ''classic'')) # kvs)))
   \<and> (map_of kvs (str ''layout'') = None
    \<longrightarrow> CVPreview lc base dat (Obj kvs)
          = ebind (normalize lc base (if dat = Undefined then Obj [] else dat) (Obj kvs))
              clean_layout
        \<and> CVPreview lc base dat (Obj kvs)
          = CVPreview lc base dat (Obj ((str ''layout'', Str (str ''clean'')) # kvs)))
   \<and> CVPreview lc base dat Undefined
        = ebind (normalize lc base (if dat = Undefined then Obj [] else dat) (Obj []))
            clean_layout"
proof -
  let ?d = "if dat = Undefined then Obj [] else dat"
  have lay: "layout v = themeField tp (str ''layout'') (Str (str ''clean''))"
    if "normalize lc base ?d tp = Inr v" for v tp
    using that by (rule normalize_layout)
  show ?thesis
    by (cases "normalize lc base ?d (Obj kvs)"; cases "normalize lc base ?d (Obj [])")
       (auto simp: CVPreview_def normalize_cons_layout layout_field_unused
          themeField_def dest!: lay)
qed

text \<open>
  The theorem at the empty document: the layout \<^verbatim>\<open>nonexistent\<close> gives the classic tree,
  the empty theme the clean one.
\<close>

theorem unknown_layout_is_classic_witness:
  "CVPreview no_table (API_BASE None) (Obj []) (Obj [(str ''layout'', Str (str ''nonexistent''))])
   = Inr [Elem ''div''
           [Elem ''div''
              [Elem ''div'' [Elem ''div'' [Elem ''h1'' [Text (str ''Your Name'')]]],
               Elem ''div'' []],
            Elem ''div'' [Elem ''div'' []]]]
   \<and> CVPreview no_table (API_BASE None) (Obj []) (Obj [])
   = Inr [Elem ''div''
           [Elem ''div''
              [Elem ''div'' [Elem ''h1'' [Text (str ''Your Name'')], Elem ''div'' []]],
            Elem ''div'' []]]"
proof -
  have a: "ebind (normalize no_table (API_BASE None) (if Obj [] = Undefined then Obj [] else Obj [])
             (Obj [(str ''layout'', Str (str ''nonexistent''))])) classic_layout
     = Inr [Elem ''div''
           [Elem ''div''
              [Elem ''div'' [Elem ''div'' [Elem ''h1'' [Text (str ''Your Name'')]]],
               Elem ''div'' []],
            Elem ''div'' [Elem ''div'' []]]]"
    by (simp add: API_BASE_def value_defs frag_defs layout_defs section_defs str_def)
  have b: "ebind (normalize no_table (API_BASE None) (if Obj [] = Undefined then Obj [] else Obj [])
             (Obj [])) clean_layout
     = Inr [Elem ''div''
           [Elem ''div''
              [Elem ''div'' [Elem ''h1'' [Text (str ''Your Name'')], Elem ''div'' []]],
            Elem ''div'' []]]"
    by (simp add: API_BASE_def value_defs frag_defs layout_defs section_defs str_def)
  show ?thesis
    using unknown_layout_is_classic [where kvs = "[(str ''layout'', Str (str ''nonexistent''))]"
            and l = "Str (str ''nonexistent'')" and lc = no_table and base = "API_BASE None"
            and dat = "Obj []"]
          unknown_layout_is_classic [where kvs = "[]" and l = "Undefined" and lc = no_table
            and base = "API_BASE None" and dat = "Obj []"]
          a b
    by simp
qed

lemma normalize_empty: "normalize no_table (API_BASE None) (Obj []) (Obj []) = Inr empty_view"
  by (simp add: empty_view_def API_BASE_def value_defs str_def)

lemma collect_append:
  "collect (ps @ qs) =
     (case collect ps of
        Inl e \<Rightarrow> Inl e
      | Inr xs \<Rightarrow> (case collect qs of Inl e \<Rightarrow> Inl e | Inr ys \<Rightarrow> Inr (xs @ ys)))"
  by (induction ps) (auto split: sum.splits)

lemma el_snoc:
  assumes "el tag (ps @ [c]) = Inr out"
  shows "\<exists>pre blocks. collect ps = Inr pre \<and> c = Inr blocks \<and> out = [Elem tag (pre @ blocks)]"
  using assms by (auto simp: el_def ebind_def collect_append split: sum.splits)

lemma el_snoc_empty:
  "collect ps = Inr pre \<Longrightarrow> el tag (ps @ [Inr []]) = Inr [Elem tag pre]"
  by (simp add: el_def collect_append)

lemma el_two:
  assumes "el tag [a, b] = Inr out"
  shows "\<exists>x y. a = Inr x \<and> b = Inr y \<and> out = [Elem tag (x @ y)]"
  using assms by (auto simp: el_def ebind_def split: sum.splits)

lemma customEntries_empty [simp]: "customEntries (Arr []) = Inr []"
  by (simp add: customEntries_def)

lemma custom_empty:
  "clean_custom (v\<lparr>customSections := Arr []\<rparr>) = Inr []"
  "plain_custom (v\<lparr>customSections := Arr []\<rparr>) = Inr []"
  by (simp_all add: clean_custom_def plain_custom_def)

lemmas section_defs_no_custom =
  headerName_def headerTitle_def photoImg_def contacts4_def contacts5_def band_def
  sTitle_def plainTitle_def renderSkills_def skillsOrCategories_def someSkills_def
  renderExp_def renderEdu_def interestsGuard_def interestsBody_def L_def
  clean_header_def clean_profile_def clean_experience_def clean_education_def
  clean_skills_def clean_languages_def clean_interests_def clean_projects_def
  clean_certifications_def
  profileFragment_def classic_profile_def grid_skills_def grid_languages_def
  boxed_interests_def boxed_certifications_def boxed_projects_def

lemma clean_pre_unused:
  "[clean_header (v\<lparr>customSections := x\<rparr>), el ''div'' [],
    clean_profile (v\<lparr>customSections := x\<rparr>), clean_experience (v\<lparr>customSections := x\<rparr>),
    clean_education (v\<lparr>customSections := x\<rparr>), clean_skills (v\<lparr>customSections := x\<rparr>),
    clean_languages (v\<lparr>customSections := x\<rparr>), clean_interests (v\<lparr>customSections := x\<rparr>),
    clean_projects (v\<lparr>customSections := x\<rparr>), clean_certifications (v\<lparr>customSections := x\<rparr>)]
   = [clean_header v, el ''div'' [], clean_profile v, clean_experience v, clean_education v,
      clean_skills v, clean_languages v, clean_interests v, clean_projects v,
      clean_certifications v]"
  by (simp add: section_defs_no_custom cong: if_cong split del: if_split)

lemma minimal_pre_unused:
  "[el ''div''
      [el ''div''
         [el ''div'' [headerName (v\<lparr>customSections := x\<rparr>), headerTitle (v\<lparr>customSections := x\<rparr>),
                      el ''div'' (contacts4 (v\<lparr>customSections := x\<rparr>))],
          photoImg (v\<lparr>customSections := x\<rparr>)]],
    profileFragment (v\<lparr>customSections := x\<rparr>), renderExp (v\<lparr>customSections := x\<rparr>),
    renderEdu (v\<lparr>customSections := x\<rparr>),
    el ''div'' [grid_skills (v\<lparr>customSections := x\<rparr>), grid_languages (v\<lparr>customSections := x\<rparr>)],
    boxed_interests (v\<lparr>customSections := x\<rparr>), boxed_certifications (v\<lparr>customSections := x\<rparr>),
    boxed_projects (v\<lparr>customSections := x\<rparr>)]
   = [el ''div''
      [el ''div''
         [el ''div'' [headerName v, headerTitle v, el ''div'' (contacts4 v)], photoImg v]],
    profileFragment v, renderExp v, renderEdu v,
    el ''div'' [grid_skills v, grid_languages v],
    boxed_interests v, boxed_certifications v, boxed_projects v]"
  by (simp add: section_defs_no_custom cong: if_cong split del: if_split)

lemma classic_pre_unused:
  "band (v\<lparr>customSections := x\<rparr>) (contacts5 (v\<lparr>customSections := x\<rparr>)) = band v (contacts5 v)"
  "[classic_profile (v\<lparr>customSections := x\<rparr>), renderExp (v\<lparr>customSections := x\<rparr>),
    renderEdu (v\<lparr>customSections := x\<rparr>),
    el ''div'' [grid_skills (v\<lparr>customSections := x\<rparr>), grid_languages (v\<lparr>customSections := x\<rparr>)],
    boxed_interests (v\<lparr>customSections := x\<rparr>), boxed_certifications (v\<lparr>customSections := x\<rparr>),
    boxed_projects (v\<lparr>customSections := x\<rparr>)]
   = [classic_profile v, renderExp v, renderEdu v, el ''div'' [grid_skills v, grid_languages v],
      boxed_interests v, boxed_certifications v, boxed_projects v]"
  by (simp_all add: section_defs_no_custom cong: if_cong split del: if_split)

lemma rootDiv_iff:
  "rootDiv v kids = Inr out \<longleftrightarrow> canStr (fontFamily v) \<and> el ''div'' kids = Inr out"
  by (cases "el ''div'' kids") (simp_all add: rootDiv_def styleValue_def)

lemma clean_layout_custom_last:
  assumes "clean_layout v = Inr out"
  shows "\<exists>pre blocks. out = [Elem ''div'' (pre @ blocks)]
           \<and> clean_layout (v\<lparr>customSections := Arr []\<rparr>) = Inr [Elem ''div'' pre]
           \<and> clean_custom v = Inr blocks"
proof -
  let ?ps = "\<lambda>v. [clean_header v, el ''div'' [], clean_profile v, clean_experience v,
      clean_education v, clean_skills v, clean_languages v, clean_interests v,
      clean_projects v, clean_certifications v]"
  have l: "clean_layout w = rootDiv w (?ps w @ [clean_custom w])" for w
    by (simp add: clean_layout_def)
  from assms have c: "canStr (fontFamily v)"
    and e: "el ''div'' (?ps v @ [clean_custom v]) = Inr out"
    unfolding l rootDiv_iff by simp_all
  from e obtain pre blocks where
    p: "collect (?ps v) = Inr pre" "clean_custom v = Inr blocks" "out = [Elem ''div'' (pre @ blocks)]"
    by (blast dest: el_snoc)
  have "clean_layout (v\<lparr>customSections := Arr []\<rparr>) = Inr [Elem ''div'' pre]"
    unfolding l rootDiv_iff custom_empty clean_pre_unused
    using c el_snoc_empty [OF p(1)] by simp
  with p show ?thesis by blast
qed

lemma minimal_layout_custom_last:
  assumes "minimal_layout v = Inr out"
  shows "\<exists>pre blocks. out = [Elem ''div'' (pre @ blocks)]
           \<and> minimal_layout (v\<lparr>customSections := Arr []\<rparr>) = Inr [Elem ''div'' pre]
           \<and> plain_custom v = Inr blocks"
proof -
  let ?ps = "\<lambda>v. [el ''div''
      [el ''div''
         [el ''div'' [headerName v, headerTitle v, el ''div'' (contacts4 v)], photoImg v]],
    profileFragment v, renderExp v, renderEdu v,
    el ''div'' [grid_skills v, grid_languages v],
    boxed_interests v, boxed_certifications v, boxed_projects v]"
  have l: "minimal_layout w = rootDiv w (?ps w @ [plain_custom w])" for w
    by (simp add: minimal_layout_def)
  from assms have c: "canStr (fontFamily v)"
    and e: "el ''div'' (?ps v @ [plain_custom v]) = Inr out"
    unfolding l rootDiv_iff by simp_all
  from e obtain pre blocks where
    p: "collect (?ps v) = Inr pre" "plain_custom v = Inr blocks" "out = [Elem ''div'' (pre @ blocks)]"
    by (blast dest: el_snoc)
  have "minimal_layout (v\<lparr>customSections := Arr []\<rparr>) = Inr [Elem ''div'' pre]"
    unfolding l rootDiv_iff custom_empty minimal_pre_unused
    using c el_snoc_empty [OF p(1)] by simp
  with p show ?thesis by blast
qed

lemma classic_layout_custom_last:
  assumes "classic_layout v = Inr out"
  shows "\<exists>top pre blocks. out = [Elem ''div'' (top @ [Elem ''div'' (pre @ blocks)])]
           \<and> classic_layout (v\<lparr>customSections := Arr []\<rparr>)
               = Inr [Elem ''div'' (top @ [Elem ''div'' pre])]
           \<and> plain_custom v = Inr blocks"
proof -
  let ?ps = "\<lambda>v. [classic_profile v, renderExp v, renderEdu v,
      el ''div'' [grid_skills v, grid_languages v],
      boxed_interests v, boxed_certifications v, boxed_projects v]"
  have l: "classic_layout w = rootDiv w [band w (contacts5 w), el ''div'' (?ps w @ [plain_custom w])]" for w
    by (simp add: classic_layout_def)
  from assms have c: "canStr (fontFamily v)"
    and e: "el ''div'' [band v (contacts5 v), el ''div'' (?ps v @ [plain_custom v])] = Inr out"
    unfolding l rootDiv_iff by simp_all
  from e obtain top body where
    t: "band v (contacts5 v) = Inr top" "el ''div'' (?ps v @ [plain_custom v]) = Inr body"
       "out = [Elem ''div'' (top @ body)]"
    by (blast dest: el_two)
  from t(2) obtain pre blocks where
    p: "collect (?ps v) = Inr pre" "plain_custom v = Inr blocks" "body = [Elem ''div'' (pre @ blocks)]"
    by (blast dest: el_snoc)
  have "el ''div'' (?ps v @ [Inr []]) = Inr [Elem ''div'' pre]"
    using p(1) by (rule el_snoc_empty)
  then have "classic_layout (v\<lparr>customSections := Arr []\<rparr>)
      = Inr [Elem ''div'' (top @ [Elem ''div'' pre])]"
    unfolding l rootDiv_iff custom_empty classic_pre_unused using c by (simp add: t(1) el_def)
  with p t show ?thesis by blast
qed

lemma customEntries_pairs:
  "customEntries (Arr (map (\<lambda>(t, c). Obj [(str ''title'', Str t), (str ''content'', Str c)]) tcs))
   = Inr (map (\<lambda>(t, c). Obj [(str ''title'', Str t), (str ''content'', Str c)])
            (filter (\<lambda>(t, c). t \<noteq> [] \<and> c \<noteq> []) tcs))"
proof -
  let ?f = "\<lambda>(t, c). Obj [(str ''title'', Str t), (str ''content'', Str c)]"
  have a: "\<not> list_ex nullish (map ?f tcs)"
    by (simp add: list_ex_iff case_prod_beta)
  have b: "(\<lambda>c. truthy (js_and (member c (str ''title'')) (member c (str ''content'')))) \<circ> ?f
      = (\<lambda>(t, c). t \<noteq> [] \<and> c \<noteq> [])"
    by (auto simp: fun_eq_iff js_and_def)
  show ?thesis
    using a by (simp add: customEntries_def filter_map b)
qed

lemma custom_blocks:
  assumes "customSections v = customDoc tcs"
  shows "clean_custom v
         = collect (map (\<lambda>(t, c). el ''div'' [sTitle v (Str t) icon_custom, el ''p'' [lit c]])
                      (filter (\<lambda>(t, c). t \<noteq> [] \<and> c \<noteq> []) tcs))"
    and "plain_custom v
         = collect (map (\<lambda>(t, c). el ''div'' [plainTitle v (Str t), el ''p'' [lit c]])
                      (filter (\<lambda>(t, c). t \<noteq> [] \<and> c \<noteq> []) tcs))"
proof -
  have e: "customEntries (customSections v)
      = Inr (map (\<lambda>(t, c). Obj [(str ''title'', Str t), (str ''content'', Str c)])
            (filter (\<lambda>(t, c). t \<noteq> [] \<and> c \<noteq> []) tcs))"
    using assms by (simp add: customDoc_def customEntries_pairs)
  show "clean_custom v
         = collect (map (\<lambda>(t, c). el ''div'' [sTitle v (Str t) icon_custom, el ''p'' [lit c]])
                      (filter (\<lambda>(t, c). t \<noteq> [] \<and> c \<noteq> []) tcs))"
    unfolding clean_custom_def e
    by (auto simp: comp_def child_def lit_def intro!: arg_cong [where f = collect])
  show "plain_custom v
         = collect (map (\<lambda>(t, c). el ''div'' [plainTitle v (Str t), el ''p'' [lit c]])
                      (filter (\<lambda>(t, c). t \<noteq> [] \<and> c \<noteq> []) tcs))"
    unfolding plain_custom_def e
    by (auto simp: comp_def child_def lit_def intro!: arg_cong [where f = collect])
qed

lemma truthy_plain: "isPlain x \<Longrightarrow> truthy x \<longleftrightarrow> plainText x \<noteq> []"
  by (cases x) simp_all

lemma customEntries_wf:
  assumes "list_all wfCustomSection cs"
  shows "customEntries (Arr cs)
         = Inr (filter (\<lambda>c. plainText (member c (str ''title'')) \<noteq> []
                           \<and> plainText (member c (str ''content'')) \<noteq> []) cs)"
proof -
  have n: "\<not> list_ex nullish cs"
    using assms by (auto simp: list_ex_iff list_all_iff wfCustomSection_def plainAt_def)
  have "truthy (js_and (member c (str ''title'')) (member c (str ''content'')))
        \<longleftrightarrow> plainText (member c (str ''title'')) \<noteq> []
            \<and> plainText (member c (str ''content'')) \<noteq> []"
    if "c \<in> set cs" for c
  proof -
    from assms that have "isPlain (member c (str ''title''))" "isPlain (member c (str ''content''))"
      by (auto simp: list_all_iff wfCustomSection_def plainAt_def)
    then show ?thesis by (auto simp: js_and_def truthy_plain)
  qed
  then have "filter (\<lambda>c. truthy (js_and (member c (str ''title'')) (member c (str ''content'')))) cs
      = filter (\<lambda>c. plainText (member c (str ''title'')) \<noteq> []
                           \<and> plainText (member c (str ''content'')) \<noteq> []) cs"
    by (intro filter_cong) simp_all
  with n show ?thesis by (simp add: customEntries_def)
qed

lemma plain_nonempty_Str: "isPlain x \<Longrightarrow> plainText x \<noteq> [] \<Longrightarrow> \<exists>s. x = Str s \<and> s \<noteq> []"
  by (cases x) simp_all

lemma custom_blocks_wf:
  assumes "customSections v = Arr cs" and "list_all wfCustomSection cs"
  shows "clean_custom v
         = collect (map (\<lambda>c. el ''div''
                           [sTitle v (Str (plainText (member c (str ''title'')))) icon_custom,
                            el ''p'' [lit (plainText (member c (str ''content'')))]])
                      (filter (\<lambda>c. plainText (member c (str ''title'')) \<noteq> []
                                  \<and> plainText (member c (str ''content'')) \<noteq> []) cs))"
    and "plain_custom v
         = collect (map (\<lambda>c. el ''div''
                           [plainTitle v (Str (plainText (member c (str ''title'')))),
                            el ''p'' [lit (plainText (member c (str ''content'')))]])
                      (filter (\<lambda>c. plainText (member c (str ''title'')) \<noteq> []
                                  \<and> plainText (member c (str ''content'')) \<noteq> []) cs))"
proof -
  let ?keep = "filter (\<lambda>c. plainText (member c (str ''title'')) \<noteq> []
                          \<and> plainText (member c (str ''content'')) \<noteq> []) cs"
  have e: "customEntries (customSections v) = Inr ?keep"
    using assms by (simp add: customEntries_wf)
  have k: "\<exists>t c'. member c (str ''title'') = Str t \<and> member c (str ''content'') = Str c'
             \<and> c' \<noteq> []"
    if "c \<in> set ?keep" for c
  proof -
    from assms(2) that have p: "isPlain (member c (str ''title''))"
      "isPlain (member c (str ''content''))"
      by (auto simp: list_all_iff wfCustomSection_def plainAt_def)
    from that have t: "plainText (member c (str ''title'')) \<noteq> []"
      "plainText (member c (str ''content'')) \<noteq> []" by simp_all
    from plain_nonempty_Str [OF p(1) t(1)] plain_nonempty_Str [OF p(2) t(2)]
    show ?thesis by blast
  qed
  have c1: "el ''div'' [sTitle v (member c (str ''title'')) icon_custom,
                       el ''p'' [child (member c (str ''content''))]]
      = el ''div'' [sTitle v (Str (plainText (member c (str ''title'')))) icon_custom,
                    el ''p'' [lit (plainText (member c (str ''content'')))]]"
    if "c \<in> set ?keep" for c
  proof -
    from k [OF that] obtain t c' where "member c (str ''title'') = Str t"
      "member c (str ''content'') = Str c'" "c' \<noteq> []" by blast
    then show ?thesis by (simp add: child_def lit_def)
  qed
  have c2: "el ''div'' [plainTitle v (member c (str ''title'')),
                       el ''p'' [child (member c (str ''content''))]]
      = el ''div'' [plainTitle v (Str (plainText (member c (str ''title'')))),
                    el ''p'' [lit (plainText (member c (str ''content'')))]]"
    if "c \<in> set ?keep" for c
  proof -
    from k [OF that] obtain t c' where "member c (str ''title'') = Str t"
      "member c (str ''content'') = Str c'" "c' \<noteq> []" by blast
    then show ?thesis by (simp add: child_def lit_def)
  qed
  have "map (\<lambda>c. el ''div'' [sTitle v (member c (str ''title'')) icon_custom,
                          el ''p'' [child (member c (str ''content''))]]) ?keep
      = map (\<lambda>c. el ''div''
                           [sTitle v (Str (plainText (member c (str ''title'')))) icon_custom,
                            el ''p'' [lit (plainText (member c (str ''content'')))]]) ?keep"
    by (rule map_cong [OF refl]) (rule c1)
  note m1 = this
  show "clean_custom v
         = collect (map (\<lambda>c. el ''div''
                           [sTitle v (Str (plainText (member c (str ''title'')))) icon_custom,
                            el ''p'' [lit (plainText (member c (str ''content'')))]]) ?keep)"
    by (simp only: clean_custom_def e ebind_simps m1)
  have "map (\<lambda>c. el ''div'' [plainTitle v (member c (str ''title'')),
                          el ''p'' [child (member c (str ''content''))]]) ?keep
      = map (\<lambda>c. el ''div''
                           [plainTitle v (Str (plainText (member c (str ''title'')))),
                            el ''p'' [lit (plainText (member c (str ''content'')))]]) ?keep"
    by (rule map_cong [OF refl]) (rule c2)
  note m2 = this
  show "plain_custom v
         = collect (map (\<lambda>c. el ''div''
                           [plainTitle v (Str (plainText (member c (str ''title'')))),
                            el ''p'' [lit (plainText (member c (str ''content'')))]]) ?keep)"
    by (simp only: plain_custom_def e ebind_simps m2)
qed

text \<open>
  Claim C7, as amended. The modern and the executive layout ignore the custom sections. In
  the clean and the minimal layout the blocks of the custom sections are the last children
  of the page, and in the classic layout the last children of its body: what comes before
  them is the page rendered without custom sections. For a list of entries whose title
  and content are each a string, absent or \<^verbatim>\<open>null\<close>, the blocks are those of the entries
  that have a non-empty title and a non-empty content, in the order of the document; an
  entry whose title or content is absent, \<^verbatim>\<open>null\<close> or empty gives no block. The last
  conjunct spells this out for entries that have both keys as strings.
\<close>

theorem custom_sections_layouts:
  "modern_layout (v\<lparr>customSections := x\<rparr>) = modern_layout v
   \<and> executive_layout (v\<lparr>customSections := x\<rparr>) = executive_layout v
   \<and> (clean_layout v = Inr out \<longrightarrow>
        (\<exists>pre blocks. out = [Elem ''div'' (pre @ blocks)]
           \<and> clean_layout (v\<lparr>customSections := Arr []\<rparr>) = Inr [Elem ''div'' pre]
           \<and> clean_custom v = Inr blocks))
   \<and> (minimal_layout v = Inr out \<longrightarrow>
        (\<exists>pre blocks. out = [Elem ''div'' (pre @ blocks)]
           \<and> minimal_layout (v\<lparr>customSections := Arr []\<rparr>) = Inr [Elem ''div'' pre]
           \<and> plain_custom v = Inr blocks))
   \<and> (classic_layout v = Inr out \<longrightarrow>
        (\<exists>top pre blocks. out = [Elem ''div'' (top @ [Elem ''div'' (pre @ blocks)])]
           \<and> classic_layout (v\<lparr>customSections := Arr []\<rparr>)
               = Inr [Elem ''div'' (top @ [Elem ''div'' pre])]
           \<and> plain_custom v = Inr blocks))
   \<and> (customSections v = Arr cs \<and> list_all wfCustomSection cs \<longrightarrow>
        clean_custom v
          = collect (map (\<lambda>c. el ''div''
                            [sTitle v (Str (plainText (member c (str ''title'')))) icon_custom,
                             el ''p'' [lit (plainText (member c (str ''content'')))]])
                       (filter (\<lambda>c. plainText (member c (str ''title'')) \<noteq> []
                                   \<and> plainText (member c (str ''content'')) \<noteq> []) cs))
        \<and> plain_custom v
          = collect (map (\<lambda>c. el ''div''
                            [plainTitle v (Str (plainText (member c (str ''title'')))),
                             el ''p'' [lit (plainText (member c (str ''content'')))]])
                       (filter (\<lambda>c. plainText (member c (str ''title'')) \<noteq> []
                                   \<and> plainText (member c (str ''content'')) \<noteq> []) cs)))
   \<and> (customSections v = customDoc tcs \<longrightarrow>
        clean_custom v
          = collect (map (\<lambda>(t, c). el ''div'' [sTitle v (Str t) icon_custom, el ''p'' [lit c]])
                       (filter (\<lambda>(t, c). t \<noteq> [] \<and> c \<noteq> []) tcs))
        \<and> plain_custom v
          = collect (map (\<lambda>(t, c). el ''div'' [plainTitle v (Str t), el ''p'' [lit c]])
                       (filter (\<lambda>(t, c). t \<noteq> [] \<and> c \<noteq> []) tcs)))"
  using clean_layout_custom_last [of v out] minimal_layout_custom_last [of v out]
    classic_layout_custom_last [of v out] custom_blocks [of v tcs] custom_blocks_wf [of v cs]
  by (simp add: customSections_unused)

text \<open>
  Claim C7 as stated fails: the classic layout renders a custom section too.
\<close>

theorem classic_renders_custom_sections:
  "map_sum id (map texts)
     (CVPreview no_table (API_BASE None)
        (Obj [(str ''custom_sections'',
               Arr [Obj [(str ''title'', Str (str ''Awards'')),
                         (str ''content'', Str (str ''Best thesis''))]])])
        (Obj [(str ''layout'', Str (str ''classic''))]))
   = Inr [ [str ''Your Name'', str ''Awards'', str ''Best thesis'']]"
  by (simp add: CVPreview_def API_BASE_def value_defs frag_defs layout_defs section_defs str_def)

text \<open>
  The theorem at three custom sections, the second with an empty content, and at five
  entries of which one has no title, one a \<^verbatim>\<open>null\<close> content and one no content.
\<close>

theorem custom_sections_layouts_witness:
  "(\<exists>pre blocks.
       clean_layout (empty_view\<lparr>customSections :=
          customDoc [(str ''Awards'', str ''Best thesis''), (str ''Empty'', []),
                     (str ''Talks'', str ''PLDI'')]\<rparr>) = Inr [Elem ''div'' (pre @ blocks)]
     \<and> clean_layout (empty_view\<lparr>customSections := Arr []\<rparr>) = Inr [Elem ''div'' pre]
     \<and> map texts blocks
         = [ [icon_custom, str ''Awards'', str ''Best thesis''],
            [icon_custom, str ''Talks'', str ''PLDI'']])
   \<and> (\<exists>pre blocks.
       minimal_layout (empty_view\<lparr>customSections :=
          customDoc [(str ''Awards'', str ''Best thesis''), (str ''Empty'', []),
                     (str ''Talks'', str ''PLDI'')]\<rparr>) = Inr [Elem ''div'' (pre @ blocks)]
     \<and> minimal_layout (empty_view\<lparr>customSections := Arr []\<rparr>) = Inr [Elem ''div'' pre]
     \<and> map texts blocks
         = [ [str ''Awards'', str ''Best thesis''], [str ''Talks'', str ''PLDI'']])
   \<and> (\<exists>top pre blocks.
       classic_layout (empty_view\<lparr>customSections :=
          customDoc [(str ''Awards'', str ''Best thesis''), (str ''Empty'', []),
                     (str ''Talks'', str ''PLDI'')]\<rparr>)
         = Inr [Elem ''div'' (top @ [Elem ''div'' (pre @ blocks)])]
     \<and> classic_layout (empty_view\<lparr>customSections := Arr []\<rparr>)
         = Inr [Elem ''div'' (top @ [Elem ''div'' pre])]
     \<and> map texts blocks
         = [ [str ''Awards'', str ''Best thesis''], [str ''Talks'', str ''PLDI'']])
   \<and> map_sum id (map texts)
       (clean_custom (empty_view\<lparr>customSections :=
          Arr [Obj [(str ''title'', Str (str ''Awards'')), (str ''content'', Str (str ''Best thesis''))],
               Obj [(str ''content'', Str (str ''No title''))],
               Obj [(str ''title'', Str (str ''Null content'')), (str ''content'', Null)],
               Obj [(str ''title'', Str (str ''No content''))],
               Obj [(str ''title'', Str (str ''Talks'')), (str ''content'', Str (str ''PLDI''))]]\<rparr>))
     = Inr [ [icon_custom, str ''Awards'', str ''Best thesis''],
            [icon_custom, str ''Talks'', str ''PLDI'']]
   \<and> map_sum id (map texts)
       (plain_custom (empty_view\<lparr>customSections :=
          Arr [Obj [(str ''title'', Str (str ''Awards'')), (str ''content'', Str (str ''Best thesis''))],
               Obj [(str ''content'', Str (str ''No title''))],
               Obj [(str ''title'', Str (str ''Null content'')), (str ''content'', Null)],
               Obj [(str ''title'', Str (str ''No content''))],
               Obj [(str ''title'', Str (str ''Talks'')), (str ''content'', Str (str ''PLDI''))]]\<rparr>))
     = Inr [ [str ''Awards'', str ''Best thesis''], [str ''Talks'', str ''PLDI'']]"
proof -
  let ?tcs = "[(str ''Awards'', str ''Best thesis''), (str ''Empty'', []),
               (str ''Talks'', str ''PLDI'')]"
  let ?v = "empty_view\<lparr>customSections := customDoc ?tcs\<rparr>"
  let ?ct = "[ [icon_custom, str ''Awards'', str ''Best thesis''],
              [icon_custom, str ''Talks'', str ''PLDI'']]"
  let ?pt = "[ [str ''Awards'', str ''Best thesis''], [str ''Talks'', str ''PLDI'']]"
  let ?cs = "[Obj [(str ''title'', Str (str ''Awards'')), (str ''content'', Str (str ''Best thesis''))],
               Obj [(str ''content'', Str (str ''No title''))],
               Obj [(str ''title'', Str (str ''Null content'')), (str ''content'', Null)],
               Obj [(str ''title'', Str (str ''No content''))],
               Obj [(str ''title'', Str (str ''Talks'')), (str ''content'', Str (str ''PLDI''))]]"
  let ?u = "empty_view\<lparr>customSections := Arr ?cs\<rparr>"
  note T = custom_sections_layouts [where v = ?v and tcs = ?tcs]
  note U = custom_sections_layouts [where v = ?u and cs = ?cs]
  have cs: "customSections ?v = customDoc ?tcs" by simp
  have wf: "customSections ?u = Arr ?cs \<and> list_all wfCustomSection ?cs"
    by (simp add: wfCustomSection_def plainAt_def)
  have "clean_custom ?v
          = collect (map (\<lambda>(t, c). el ''div'' [sTitle ?v (Str t) icon_custom, el ''p'' [lit c]])
                       (filter (\<lambda>(t, c). t \<noteq> [] \<and> c \<noteq> []) ?tcs))"
    using T cs by blast
  then have c: "map_sum id (map texts) (clean_custom ?v) = Inr ?ct"
    by (simp add: empty_view_def sTitle_def frag_defs value_defs glyph_defs str_def)
  have "plain_custom ?v
          = collect (map (\<lambda>(t, c). el ''div'' [plainTitle ?v (Str t), el ''p'' [lit c]])
                       (filter (\<lambda>(t, c). t \<noteq> [] \<and> c \<noteq> []) ?tcs))"
    using T cs by blast
  then have p: "map_sum id (map texts) (plain_custom ?v) = Inr ?pt"
    by (simp add: empty_view_def plainTitle_def frag_defs value_defs glyph_defs str_def)
  have "clean_custom ?u
          = collect (map (\<lambda>c. el ''div''
                            [sTitle ?u (Str (plainText (member c (str ''title'')))) icon_custom,
                             el ''p'' [lit (plainText (member c (str ''content'')))]])
                       (filter (\<lambda>c. plainText (member c (str ''title'')) \<noteq> []
                                   \<and> plainText (member c (str ''content'')) \<noteq> []) ?cs))"
    using U wf by blast
  then have c': "map_sum id (map texts) (clean_custom ?u) = Inr ?ct"
    by (simp add: empty_view_def sTitle_def frag_defs value_defs glyph_defs str_def)
  have "plain_custom ?u
          = collect (map (\<lambda>c. el ''div''
                            [plainTitle ?u (Str (plainText (member c (str ''title'')))),
                             el ''p'' [lit (plainText (member c (str ''content'')))]])
                       (filter (\<lambda>c. plainText (member c (str ''title'')) \<noteq> []
                                   \<and> plainText (member c (str ''content'')) \<noteq> []) ?cs))"
    using U wf by blast
  then have p': "map_sum id (map texts) (plain_custom ?u) = Inr ?pt"
    by (simp add: empty_view_def plainTitle_def frag_defs value_defs glyph_defs str_def)
  have u: "?v\<lparr>customSections := Arr []\<rparr> = empty_view\<lparr>customSections := Arr []\<rparr>"
    by simp
  have ok: "\<exists>out. clean_layout ?v = Inr out" "\<exists>out. minimal_layout ?v = Inr out"
    "\<exists>out. classic_layout ?v = Inr out"
    by (simp_all add: empty_view_def customDoc_def value_defs frag_defs layout_defs
        section_defs glyph_defs str_def)
  from ok obtain o1 o2 o3 where o: "clean_layout ?v = Inr o1" "minimal_layout ?v = Inr o2"
    "classic_layout ?v = Inr o3" by blast
  from custom_sections_layouts [where v = ?v and out = o1] o(1)
  obtain pre1 b1 where 1: "o1 = [Elem ''div'' (pre1 @ b1)]"
    "clean_layout (?v\<lparr>customSections := Arr []\<rparr>) = Inr [Elem ''div'' pre1]"
    "clean_custom ?v = Inr b1" by blast
  from custom_sections_layouts [where v = ?v and out = o2] o(2)
  obtain pre2 b2 where 2: "o2 = [Elem ''div'' (pre2 @ b2)]"
    "minimal_layout (?v\<lparr>customSections := Arr []\<rparr>) = Inr [Elem ''div'' pre2]"
    "plain_custom ?v = Inr b2" by blast
  from custom_sections_layouts [where v = ?v and out = o3] o(3)
  obtain top pre3 b3 where 3: "o3 = [Elem ''div'' (top @ [Elem ''div'' (pre3 @ b3)])]"
    "classic_layout (?v\<lparr>customSections := Arr []\<rparr>)
       = Inr [Elem ''div'' (top @ [Elem ''div'' pre3])]"
    "plain_custom ?v = Inr b3" by blast
  have t1: "map texts b1 = ?ct" using c 1(3) by simp
  have t2: "map texts b2 = ?pt" using p 2(3) by simp
  have t3: "map texts b3 = ?pt" using p 3(3) by simp
  have A: "(\<exists>pre blocks. clean_layout ?v = Inr [Elem ''div'' (pre @ blocks)]
     \<and> clean_layout (empty_view\<lparr>customSections := Arr []\<rparr>) = Inr [Elem ''div'' pre]
     \<and> map texts blocks = ?ct)"
    apply (rule exI [of _ pre1], rule exI [of _ b1])
    using o(1) 1(1) 1(2) t1 unfolding u by simp
  have B: "(\<exists>pre blocks. minimal_layout ?v = Inr [Elem ''div'' (pre @ blocks)]
     \<and> minimal_layout (empty_view\<lparr>customSections := Arr []\<rparr>) = Inr [Elem ''div'' pre]
     \<and> map texts blocks = ?pt)"
    apply (rule exI [of _ pre2], rule exI [of _ b2])
    using o(2) 2(1) 2(2) t2 unfolding u by simp
  have C: "(\<exists>top pre blocks. classic_layout ?v
         = Inr [Elem ''div'' (top @ [Elem ''div'' (pre @ blocks)])]
     \<and> classic_layout (empty_view\<lparr>customSections := Arr []\<rparr>)
         = Inr [Elem ''div'' (top @ [Elem ''div'' pre])]
     \<and> map texts blocks = ?pt)"
    apply (rule exI [of _ top], rule exI [of _ pre3], rule exI [of _ b3])
    using o(3) 3(1) 3(2) t3 unfolding u by simp
  from A B C c' p' show ?thesis by (intro conjI)
qed

lemma normalize_fields:
  assumes "normalize lc base d t = Inr v"
  shows "experiences v = js_or (member d (str ''experiences'')) (Arr [])"
    and "education v = js_or (member d (str ''educations'')) (Arr [])"
    and "skills v = flattenSkills (member d (str ''skills''))"
    and "skillCategories v = getSkillCategories (member d (str ''skills''))"
    and "certs v = js_or (member d (str ''certifications'')) (Arr [])"
    and "langs v = js_or (member d (str ''languages'')) (Arr [])"
    and "projects v = js_or (member d (str ''projects'')) (Arr [])"
    and "interests v = js_or (member d (str ''interests'')) (Arr [])"
    and "hobbies v = js_or (js_or (member d (str ''hobbies'')) (member d (str ''hobbies_text'')))
                       (Str [])"
    and "customSections v = js_or (member d (str ''custom_sections'')) (Arr [])"
    and "summary v = js_or (js_or (member (js_or (member d (str ''personal_info'')) (Obj []))
                                     (str ''summary''))
                              (member d (str ''profile_summary''))) (Str [])"
    and "detectGerman lc d = Inr (isGerman v)"
    and "rgba (primary v) = Inr ()"
  using assms
  by (auto simp: normalize_def Let_def ebind_def split: sum.splits if_splits)

lemma absentOrEmpty_or: "absentOrEmpty x \<Longrightarrow> js_or x (Arr []) = Arr []"
  by (auto simp: absentOrEmpty_def js_or_def)

lemma lengthPositive_Arr [simp]: "lengthPositive (Arr xs) = Inr (xs \<noteq> [])"
  by (simp add: lengthPositive_def member_def)

lemma whenLong_empty [simp]: "whenLong (Arr []) f = Inr []"
  by (simp add: whenLong_def)

lemma renderers_empty [simp]:
  "experiences v = Arr [] \<Longrightarrow> renderExp v = Inr []"
  "education v = Arr [] \<Longrightarrow> renderEdu v = Inr []"
  by (simp_all add: renderExp_def renderEdu_def member_def)

lemma skills_absent:
  "absentOrEmpty x \<Longrightarrow> flattenSkills x = [] \<and> getSkillCategories x = Null"
  by (auto simp: absentOrEmpty_def flattenSkills_def getSkillCategories_def skillNames_def)

lemma child_empty [simp]: "child (Str []) = Inr []" "child Null = Inr []"
  by (simp_all add: child_def)

text \<open>
  Claim C6, as amended. When the data behind a section is empty or absent in the document,
  the section renders nothing in any layout that has it: for the summary both summary
  fields, for the interests the list and both hobbies fields, for the skills a value that
  is falsy or the empty array.
\<close>

theorem empty_sections_omitted:
  "normalize lc base d t = Inr v \<longrightarrow>
     (\<not> truthy (member (js_or (member d (str ''personal_info'')) (Obj [])) (str ''summary''))
        \<and> \<not> truthy (member d (str ''profile_summary''))
      \<longrightarrow> clean_profile v = Inr [] \<and> profileFragment v = Inr [] \<and> classic_profile v = Inr [])
   \<and> (absentOrEmpty (member d (str ''experiences''))
      \<longrightarrow> clean_experience v = Inr [] \<and> renderExp v = Inr [])
   \<and> (absentOrEmpty (member d (str ''educations''))
      \<longrightarrow> clean_education v = Inr [] \<and> renderEdu v = Inr [])
   \<and> (absentOrEmpty (member d (str ''skills''))
      \<longrightarrow> clean_skills v = Inr [] \<and> modern_skills v = Inr [] \<and> exec_skills v = Inr []
          \<and> grid_skills v = Inr [])
   \<and> (absentOrEmpty (member d (str ''languages''))
      \<longrightarrow> clean_languages v = Inr [] \<and> modern_languages v = Inr [] \<and> exec_languages v = Inr []
          \<and> grid_languages v = Inr [])
   \<and> (absentOrEmpty (member d (str ''interests'')) \<and> \<not> truthy (member d (str ''hobbies''))
        \<and> \<not> truthy (member d (str ''hobbies_text''))
      \<longrightarrow> clean_interests v = Inr [] \<and> modern_interests v = Inr [] \<and> exec_interests v = Inr []
          \<and> boxed_interests v = Inr [])
   \<and> (absentOrEmpty (member d (str ''projects''))
      \<longrightarrow> clean_projects v = Inr [] \<and> fragment_projects v = Inr [] \<and> boxed_projects v = Inr [])
   \<and> (absentOrEmpty (member d (str ''certifications''))
      \<longrightarrow> clean_certifications v = Inr [] \<and> fragment_certifications v = Inr []
          \<and> exec_certifications v = Inr [] \<and> boxed_certifications v = Inr [])
   \<and> (absentOrEmpty (member d (str ''custom_sections''))
      \<longrightarrow> clean_custom v = Inr [] \<and> plain_custom v = Inr [])"
proof (intro impI conjI)
  assume n: "normalize lc base d t = Inr v"
  note f = normalize_fields [OF n]
  {
    assume "\<not> truthy (member (js_or (member d (str ''personal_info'')) (Obj [])) (str ''summary''))
        \<and> \<not> truthy (member d (str ''profile_summary''))"
    then have s: "summary v = Str []" by (simp add: f js_or_def)
    show "clean_profile v = Inr []" "profileFragment v = Inr []" "classic_profile v = Inr []"
      by (simp_all add: clean_profile_def profileFragment_def classic_profile_def andJSX_def s)
  }
  {
    assume "absentOrEmpty (member d (str ''experiences''))"
    then have s: "experiences v = Arr []" by (simp add: f absentOrEmpty_or)
    show "clean_experience v = Inr []" "renderExp v = Inr []"
      by (simp_all add: clean_experience_def s)
  }
  {
    assume "absentOrEmpty (member d (str ''educations''))"
    then have s: "education v = Arr []" by (simp add: f absentOrEmpty_or)
    show "clean_education v = Inr []" "renderEdu v = Inr []"
      by (simp_all add: clean_education_def s)
  }
  {
    assume "absentOrEmpty (member d (str ''skills''))"
    then have s: "skills v = []" "skillCategories v = Null" by (simp_all add: f skills_absent)
    show "clean_skills v = Inr []" "modern_skills v = Inr []" "exec_skills v = Inr []"
      "grid_skills v = Inr []"
      by (simp_all add: clean_skills_def modern_skills_def exec_skills_def grid_skills_def
          skillsOrCategories_def someSkills_def andJSX_def s)
  }
  {
    assume "absentOrEmpty (member d (str ''languages''))"
    then have s: "langs v = Arr []" by (simp add: f absentOrEmpty_or)
    show "clean_languages v = Inr []" "modern_languages v = Inr []" "exec_languages v = Inr []"
      "grid_languages v = Inr []"
      by (simp_all add: clean_languages_def modern_languages_def exec_languages_def
          grid_languages_def s)
  }
  {
    assume "absentOrEmpty (member d (str ''interests'')) \<and> \<not> truthy (member d (str ''hobbies''))
        \<and> \<not> truthy (member d (str ''hobbies_text''))"
    then have s: "interests v = Arr []" "hobbies v = Str []"
      by (auto simp: f absentOrEmpty_def js_or_def)
    show "clean_interests v = Inr []" "modern_interests v = Inr []" "exec_interests v = Inr []"
      "boxed_interests v = Inr []"
      by (simp_all add: clean_interests_def modern_interests_def exec_interests_def
          boxed_interests_def interestsGuard_def andJSX_def s)
  }
  {
    assume "absentOrEmpty (member d (str ''projects''))"
    then have s: "projects v = Arr []" by (simp add: f absentOrEmpty_or)
    show "clean_projects v = Inr []" "fragment_projects v = Inr []" "boxed_projects v = Inr []"
      by (simp_all add: clean_projects_def fragment_projects_def boxed_projects_def s)
  }
  {
    assume "absentOrEmpty (member d (str ''certifications''))"
    then have s: "certs v = Arr []" by (simp add: f absentOrEmpty_or)
    show "clean_certifications v = Inr []" "fragment_certifications v = Inr []"
      "exec_certifications v = Inr []" "boxed_certifications v = Inr []"
      by (simp_all add: clean_certifications_def fragment_certifications_def
          exec_certifications_def boxed_certifications_def s)
  }
  {
    assume "absentOrEmpty (member d (str ''custom_sections''))"
    then have s: "customSections v = Arr []" by (simp add: f absentOrEmpty_or)
    show "clean_custom v = Inr []" "plain_custom v = Inr []"
      by (simp_all add: clean_custom_def plain_custom_def s)
  }
qed

text \<open>
  The theorem at the empty document.
\<close>

theorem empty_sections_omitted_witness:
  "clean_profile empty_view = Inr [] \<and> profileFragment empty_view = Inr []
   \<and> classic_profile empty_view = Inr []
   \<and> clean_experience empty_view = Inr [] \<and> renderExp empty_view = Inr []
   \<and> clean_education empty_view = Inr [] \<and> renderEdu empty_view = Inr []
   \<and> clean_skills empty_view = Inr [] \<and> modern_skills empty_view = Inr []
   \<and> exec_skills empty_view = Inr [] \<and> grid_skills empty_view = Inr []
   \<and> clean_languages empty_view = Inr [] \<and> modern_languages empty_view = Inr []
   \<and> exec_languages empty_view = Inr [] \<and> grid_languages empty_view = Inr []
   \<and> clean_interests empty_view = Inr [] \<and> modern_interests empty_view = Inr []
   \<and> exec_interests empty_view = Inr [] \<and> boxed_interests empty_view = Inr []
   \<and> clean_projects empty_view = Inr [] \<and> fragment_projects empty_view = Inr []
   \<and> boxed_projects empty_view = Inr []
   \<and> clean_certifications empty_view = Inr [] \<and> fragment_certifications empty_view = Inr []
   \<and> exec_certifications empty_view = Inr [] \<and> boxed_certifications empty_view = Inr []
   \<and> clean_custom empty_view = Inr [] \<and> plain_custom empty_view = Inr []"
  using empty_sections_omitted [where lc = no_table and base = "API_BASE None" and d = "Obj []"
      and t = "Obj []" and v = empty_view] normalize_empty
  by (simp add: absentOrEmpty_def js_or_def)

text \<open>
  Claim C6 as stated fails: with skills given as an empty mapping, the clean and the
  executive layout render the Skills heading over an empty container; and with an empty
  list of interests the Interests heading still appears when there is a hobbies text.
\<close>

theorem empty_skills_mapping_has_heading:
  "CVPreview no_table (API_BASE None) (Obj [(str ''skills'', Obj [])]) Undefined
   = Inr [Elem ''div''
           [Elem ''div''
              [Elem ''div'' [Elem ''h1'' [Text (str ''Your Name'')], Elem ''div'' []]],
            Elem ''div'' [],
            Elem ''div''
              [Elem ''div''
                 [Elem ''div'' [Elem ''span'' [Text (icon Skills)], Elem ''h2'' [Text (str ''Skills'')]],
                  Elem ''div'' []],
               Elem ''div'' []]]]
   \<and> map_sum id (map texts)
        (CVPreview no_table (API_BASE None) (Obj [(str ''skills'', Obj [])])
           (Obj [(str ''layout'', Str (str ''executive''))]))
     = Inr [ [str ''Your Name'', str ''Skills'']]
   \<and> map_sum id (map texts)
        (CVPreview no_table (API_BASE None)
           (Obj [(str ''interests'', Arr []), (str ''hobbies'', Str (str ''Chess''))]) Undefined)
     = Inr [ [str ''Your Name'', icon Interests, str ''Interests'', str ''Chess'']]"
  by (simp add: CVPreview_def API_BASE_def value_defs frag_defs layout_defs section_defs str_def)

lemma child_plain: "isPlain x \<Longrightarrow> child x = Inr (if plainText x = [] then [] else [Text (plainText x)])"
  by (cases x) (simp_all add: child_def)

lemma en_dash_sep_nonempty [simp]: "en_dash_sep \<noteq> []"
  by (simp add: en_dash_sep_def)

lemma collect_child_plain:
  "list_all isPlain xs \<Longrightarrow>
   collect (map child xs)
     = Inr (concat (map (\<lambda>x. if plainText x = [] then [] else [Text (plainText x)]) xs))"
  by (induction xs) (simp_all add: child_plain)

lemma fragText_el_plain:
  assumes "list_all isPlain xs"
  shows "fragText (el tag (map child xs)) = Inr (concat (map plainText xs))"
proof -
  have "concat (concat (map texts
          (concat (map (\<lambda>x. if plainText x = [] then [] else [Text (plainText x)]) ys))))
        = concat (map plainText ys)" for ys
    by (induction ys) simp_all
  then show ?thesis
    using assms by (simp add: fragText_def el_def collect_child_plain)
qed

lemma date_span_text:
  assumes "isPlain sd" "isPlain ed" "isPlain lab"
  shows "fragText (el ''span''
           [child sd,
            child (if truthy (js_and sd (js_or ed cur)) then Str en_dash_sep else Str []),
            child (if truthy cur then lab else ed)])
         = Inr (plainText sd
                @ (if truthy sd \<and> (truthy ed \<or> truthy cur) then en_dash_sep else [])
                @ (if truthy cur then plainText lab else plainText ed))"
proof -
  let ?xs = "[sd, if truthy (js_and sd (js_or ed cur)) then Str en_dash_sep else Str [],
              if truthy cur then lab else ed]"
  have "list_all isPlain ?xs" using assms by simp
  from fragText_el_plain [OF this, of "''span''"] show ?thesis
    by (simp add: js_and_def js_or_def)
qed

text \<open>
  Claim C1, as amended. For an entry whose start and end date are strings or absent, the
  date span shows the start date, the separator exactly when the start date is non-empty
  and the end date is non-empty or \<^verbatim>\<open>current\<close> is truthy, and the end label. In the clean
  layout the end label of a current entry is \<^verbatim>\<open>Heute\<close> for a German document and
  \<^verbatim>\<open>Present\<close> otherwise; in \<^verbatim>\<open>_renderExp\<close>, which the four other layouts use, it is
  \<^verbatim>\<open>Present\<close> whatever the language.
\<close>

theorem experience_date_range:
  "\<not> nullish exp \<and> isPlain (member exp (str ''startDate''))
     \<and> isPlain (member exp (str ''endDate'')) \<longrightarrow>
   fragText (cleanExpDates german exp)
     = Inr (plainText (member exp (str ''startDate''))
            @ (if truthy (member exp (str ''startDate''))
                  \<and> (truthy (member exp (str ''endDate'')) \<or> truthy (member exp (str ''current'')))
               then en_dash_sep else [])
            @ (if truthy (member exp (str ''current''))
               then (if german then str ''Heute'' else str ''Present'')
               else plainText (member exp (str ''endDate''))))
   \<and> fragText (renderExpDates exp)
     = Inr (plainText (member exp (str ''startDate''))
            @ (if truthy (member exp (str ''startDate''))
                  \<and> (truthy (member exp (str ''endDate'')) \<or> truthy (member exp (str ''current'')))
               then en_dash_sep else [])
            @ (if truthy (member exp (str ''current''))
               then str ''Present''
               else plainText (member exp (str ''endDate''))))"
proof (intro impI conjI)
  assume a: "\<not> nullish exp \<and> isPlain (member exp (str ''startDate''))
     \<and> isPlain (member exp (str ''endDate''))"
  show "fragText (cleanExpDates german exp)
     = Inr (plainText (member exp (str ''startDate''))
            @ (if truthy (member exp (str ''startDate''))
                  \<and> (truthy (member exp (str ''endDate'')) \<or> truthy (member exp (str ''current'')))
               then en_dash_sep else [])
            @ (if truthy (member exp (str ''current''))
               then (if german then str ''Heute'' else str ''Present'')
               else plainText (member exp (str ''endDate''))))"
    using a
      date_span_text [of "member exp (str ''startDate'')" "member exp (str ''endDate'')"
        "if german then Str (str ''Heute'') else Str (str ''Present'')"
        "member exp (str ''current'')"]
    by (simp add: cleanExpDates_def Let_def)
  show "fragText (renderExpDates exp)
     = Inr (plainText (member exp (str ''startDate''))
            @ (if truthy (member exp (str ''startDate''))
                  \<and> (truthy (member exp (str ''endDate'')) \<or> truthy (member exp (str ''current'')))
               then en_dash_sep else [])
            @ (if truthy (member exp (str ''current''))
               then str ''Present''
               else plainText (member exp (str ''endDate''))))"
    using a
      date_span_text [of "member exp (str ''startDate'')" "member exp (str ''endDate'')"
        "Str (str ''Present'')" "member exp (str ''current'')"]
    by (simp add: renderExpDates_def Let_def)
qed

text \<open>
  The theorem at a current entry that starts in 2022-01, and at an entry with an end date
  only.
\<close>

theorem experience_date_range_witness:
  "fragText (cleanExpDates True
      (Obj [(str ''startDate'', Str (str ''2022-01'')), (str ''current'', Bool True)]))
     = Inr (str ''2022-01'' @ en_dash_sep @ str ''Heute'')
   \<and> fragText (cleanExpDates False
      (Obj [(str ''startDate'', Str (str ''2022-01'')), (str ''current'', Bool True)]))
     = Inr (str ''2022-01'' @ en_dash_sep @ str ''Present'')
   \<and> fragText (renderExpDates
      (Obj [(str ''startDate'', Str (str ''2022-01'')), (str ''current'', Bool True)]))
     = Inr (str ''2022-01'' @ en_dash_sep @ str ''Present'')
   \<and> fragText (cleanExpDates True (Obj [(str ''endDate'', Str (str ''2021-12''))]))
     = Inr (str ''2021-12'')
   \<and> fragText (renderExpDates (Obj [(str ''endDate'', Str (str ''2021-12''))]))
     = Inr (str ''2021-12'')"
  using experience_date_range
      [of "Obj [(str ''startDate'', Str (str ''2022-01'')), (str ''current'', Bool True)]" True]
    experience_date_range
      [of "Obj [(str ''startDate'', Str (str ''2022-01'')), (str ''current'', Bool True)]" False]
    experience_date_range [of "Obj [(str ''endDate'', Str (str ''2021-12''))]" True]
  by simp

text \<open>
  Claim C1 as stated fails: a German document in the classic layout shows \<^verbatim>\<open>Present\<close>.
  The same document in the clean layout shows \<^verbatim>\<open>Heute\<close>.
\<close>

theorem german_document_classic_layout_says_present:
  "detectGerman no_table example_german_doc = Inr True
   \<and> map_sum id (map texts)
        (CVPreview no_table (API_BASE None) example_german_doc (Obj [(str ''layout'', Str (str ''classic''))]))
     = Inr [ [str ''Your Name'', str ''Profile'', spec_example_phrase, str ''Experience'',
             str ''Ingenieur'', str ''2022-01'', en_dash_sep, str ''Present'']]
   \<and> map_sum id (map texts) (CVPreview no_table (API_BASE None) example_german_doc Undefined)
     = Inr [ [str ''Your Name'', icon Profile, str ''Profil'', spec_example_phrase,
             icon Experience, str ''Berufserfahrung'',
             str ''Ingenieur'', str ''2022-01'', en_dash_sep, str ''Heute'']]"
  by (simp add: example_german_doc_def spec_example_phrase_def CVPreview_def API_BASE_def
      value_defs frag_defs layout_defs section_defs glyph_defs str_def)

lemma headedBy_simps [simp]: "headedBy h (Inl e)" "headedBy h (Inr [])"
  by (simp_all add: headedBy_def)

lemma headedBy_el: "headedBy h (el ''div'' (h # rest))"
  by (auto simp: headedBy_def el_def ebind_def split: sum.splits)

lemma headedBy_whenLong: "headedBy h f \<Longrightarrow> headedBy h (whenLong x f)"
  by (auto simp: whenLong_def ebind_def split: sum.splits)

lemma headedBy_andJSX:
  "headedBy h f \<Longrightarrow> truthy x \<or> x = Str [] \<or> x = Null \<Longrightarrow> headedBy h (andJSX x f)"
  by (auto simp: andJSX_def)

lemma js_or_Str_Nil: "truthy (js_or x (Str [])) \<or> js_or x (Str []) = Str []"
  by (simp add: js_or_def)

lemma getSkillCategories_cases: "truthy (getSkillCategories x) \<or> getSkillCategories x = Null"
  by (simp add: getSkillCategories_def)

lemma clean_sections_headed:
  assumes "normalize lc base d t = Inr v"
  shows "headedBy (sTitle v (Str (L v k)) (icon k)) (clean_section k v)"
proof -
  note f = normalize_fields [OF assms]
  have s: "truthy (summary v) \<or> summary v = Str [] \<or> summary v = Null"
    and h: "truthy (hobbies v) \<or> hobbies v = Str [] \<or> hobbies v = Null"
    and c: "truthy (skillCategories v) \<or> skillCategories v = Str [] \<or> skillCategories v = Null"
    using js_or_Str_Nil getSkillCategories_cases by (auto simp: f)
  show ?thesis
  proof (cases k)
    case Profile
    then show ?thesis by (simp add: clean_profile_def headedBy_andJSX [OF headedBy_el s])
  next
    case Experience
    then show ?thesis by (simp add: clean_experience_def headedBy_whenLong headedBy_el)
  next
    case Education
    then show ?thesis by (simp add: clean_education_def headedBy_whenLong headedBy_el)
  next
    case Skills
    then show ?thesis
      by (simp add: clean_skills_def skillsOrCategories_def headedBy_el
          headedBy_andJSX [OF headedBy_el c])
  next
    case Languages
    then show ?thesis by (simp add: clean_languages_def headedBy_whenLong headedBy_el)
  next
    case Interests
    then show ?thesis
      by (auto simp: clean_interests_def interestsGuard_def ebind_def headedBy_el
          headedBy_andJSX [OF headedBy_el h] split: sum.splits)
  next
    case Projects
    then show ?thesis by (simp add: clean_projects_def headedBy_whenLong headedBy_el)
  next
    case Certifications
    then show ?thesis by (simp add: clean_certifications_def headedBy_whenLong headedBy_el)
  qed
qed

lemma titledBy_simps [simp]: "titledBy h (Inl e)" "titledBy h (Inr [])"
  by (simp_all add: titledBy_def)

lemma titledBy_el:
  assumes "\<And>ns. h = Inr ns \<Longrightarrow> ns \<noteq> []"
  shows "titledBy h (el ''div'' (h # rest))"
  using assms by (auto simp: titledBy_def el_def ebind_def split: sum.splits)

lemma titledBy_collect:
  assumes "\<And>ns. h = Inr ns \<Longrightarrow> ns \<noteq> []"
  shows "titledBy h (collect (h # rest))"
proof (cases h)
  case h: (Inr hn)
  with assms have ne: "hn \<noteq> []" by simp
  show ?thesis
  proof (cases "collect rest")
    case (Inr ys)
    from ne obtain n ns where c: "hn @ ys = n # ns" by (cases hn) auto
    have "prefix hn (hn @ ys)" by simp
    then have "prefix hn (n # ns)" unfolding c .
    then show ?thesis using h Inr ne c by (simp add: titledBy_def)
  qed (simp add: h)
qed simp

lemma titledBy_whenLong: "titledBy h f \<Longrightarrow> titledBy h (whenLong x f)"
  by (auto simp: whenLong_def ebind_def split: sum.splits)

lemma titledBy_andJSX:
  "titledBy h f \<Longrightarrow> truthy x \<or> x = Str [] \<or> x = Null \<Longrightarrow> titledBy h (andJSX x f)"
  by (auto simp: andJSX_def)

lemma titledBy_interestsGuard:
  "titledBy h f \<Longrightarrow> truthy (hobbies v) \<or> hobbies v = Str [] \<or> hobbies v = Null \<Longrightarrow>
   titledBy h (interestsGuard v f)"
  by (auto simp: interestsGuard_def ebind_def titledBy_andJSX split: sum.splits)

lemma plainTitle_nonempty: "plainTitle v x = Inr ns \<Longrightarrow> ns \<noteq> []"
  by (auto simp: plainTitle_def SectionTitle_def el_def ebind_def split: if_splits sum.splits)

lemma sidebarTitle_nonempty: "el ''div'' [lit x] = Inr ns \<Longrightarrow> ns \<noteq> []"
  by (auto simp: el_def lit_def)

lemmas titled_plain =
  titledBy_el [OF plainTitle_nonempty] titledBy_collect [OF plainTitle_nonempty]

lemmas titled_sidebar =
  titledBy_el [OF sidebarTitle_nonempty] titledBy_collect [OF sidebarTitle_nonempty]

lemma other_sections_titled:
  assumes "normalize lc base d t = Inr v"
  shows "titledBy (modern_heading k v) (modern_section k v)"
    and "titledBy (englishTitle v k) (executive_section k v)"
    and "titledBy (englishTitle v k) (minimal_section k v)"
    and "titledBy (englishTitle v k) (classic_section k v)"
proof -
  note f = normalize_fields [OF assms]
  have s: "truthy (summary v) \<or> summary v = Str [] \<or> summary v = Null"
    and h: "truthy (hobbies v) \<or> hobbies v = Str [] \<or> hobbies v = Null"
    and c: "truthy (skillCategories v) \<or> skillCategories v = Str [] \<or> skillCategories v = Null"
    using js_or_Str_Nil getSkillCategories_cases by (auto simp: f)
  have pro: "titledBy (plainTitle v (Str (str ''Profile''))) (profileFragment v)"
    "titledBy (plainTitle v (Str (str ''Profile''))) (classic_profile v)"
    by (simp_all del: collect.simps add: profileFragment_def classic_profile_def titledBy_andJSX [OF _ s]
        titled_plain)
  have exp: "titledBy (plainTitle v (Str (str ''Experience''))) (renderExp v)"
    by (simp del: collect.simps add: renderExp_def titled_plain)
  have edu: "titledBy (plainTitle v (Str (str ''Education''))) (renderEdu v)"
    by (simp del: collect.simps add: renderEdu_def titled_plain)
  have ski: "titledBy (el ''div'' [lit (str ''Skills'')]) (modern_skills v)"
    "titledBy (plainTitle v (Str (str ''Skills''))) (exec_skills v)"
    "titledBy (plainTitle v (Str (str ''Skills''))) (grid_skills v)"
    by (simp_all del: collect.simps add: modern_skills_def exec_skills_def grid_skills_def someSkills_def
        skillsOrCategories_def titledBy_andJSX [OF _ c] titled_plain titled_sidebar)
  have lan: "titledBy (el ''div'' [lit (str ''Languages'')]) (modern_languages v)"
    "titledBy (plainTitle v (Str (str ''Languages''))) (exec_languages v)"
    "titledBy (plainTitle v (Str (str ''Languages''))) (grid_languages v)"
    by (simp_all del: collect.simps add: modern_languages_def exec_languages_def grid_languages_def
        titledBy_whenLong titled_plain titled_sidebar)
  have int: "titledBy (el ''div'' [lit (str ''Interests'')]) (modern_interests v)"
    "titledBy (plainTitle v (Str (str ''Interests''))) (exec_interests v)"
    "titledBy (plainTitle v (Str (str ''Interests''))) (boxed_interests v)"
    by (simp_all del: collect.simps add: modern_interests_def exec_interests_def boxed_interests_def
        titledBy_interestsGuard [OF _ h] titled_plain titled_sidebar)
  have prj: "titledBy (plainTitle v (Str (str ''Projects''))) (fragment_projects v)"
    "titledBy (plainTitle v (Str (str ''Projects''))) (boxed_projects v)"
    by (simp_all del: collect.simps add: fragment_projects_def boxed_projects_def titledBy_whenLong titled_plain)
  have cer: "titledBy (plainTitle v (Str (str ''Certifications''))) (fragment_certifications v)"
    "titledBy (plainTitle v (Str (str ''Certifications''))) (exec_certifications v)"
    "titledBy (plainTitle v (Str (str ''Certifications''))) (boxed_certifications v)"
    by (simp_all del: collect.simps add: fragment_certifications_def exec_certifications_def
        boxed_certifications_def titledBy_whenLong titled_plain)
  note all = pro exp edu ski lan int prj cer
  show "titledBy (modern_heading k v) (modern_section k v)"
    by (cases k) (simp_all add: englishTitle_def sidebarTitle_def all)
  show "titledBy (englishTitle v k) (executive_section k v)"
    by (cases k) (simp_all add: englishTitle_def all)
  show "titledBy (englishTitle v k) (minimal_section k v)"
    by (cases k) (simp_all add: englishTitle_def all)
  show "titledBy (englishTitle v k) (classic_section k v)"
    by (cases k) (simp_all add: englishTitle_def all)
qed

text \<open>
  Claim C3, as amended. The modern, executive, minimal and classic layouts do not depend
  on the detected language, and every section of theirs that renders starts with the
  heading that carries the English label of its key, whatever the language of the
  document: a \<^verbatim>\<open>SectionTitle\<close> with that label, or the bare heading of the modern sidebar.
  In the clean layout every section that renders is headed by the title of its key, taken
  from the German label set when the document is German and from the English one
  otherwise.
\<close>

theorem headings_per_layout:
  "modern_layout (v\<lparr>isGerman := b\<rparr>) = modern_layout v
   \<and> executive_layout (v\<lparr>isGerman := b\<rparr>) = executive_layout v
   \<and> minimal_layout (v\<lparr>isGerman := b\<rparr>) = minimal_layout v
   \<and> classic_layout (v\<lparr>isGerman := b\<rparr>) = classic_layout v
   \<and> (normalize lc base d t = Inr w \<longrightarrow>
        detectGerman lc d = Inr (isGerman w)
        \<and> (isGerman w \<longrightarrow>
             headedBy (sTitle w (Str (LABELS_DE k)) (icon k)) (clean_section k w))
        \<and> (\<not> isGerman w \<longrightarrow>
             headedBy (sTitle w (Str (LABELS_EN k)) (icon k)) (clean_section k w))
        \<and> titledBy (modern_heading k w) (modern_section k w)
        \<and> titledBy (englishTitle w k) (executive_section k w)
        \<and> titledBy (englishTitle w k) (minimal_section k w)
        \<and> titledBy (englishTitle w k) (classic_section k w))"
  using clean_sections_headed [of lc base d t w k] normalize_fields(12) [of lc base d t w]
    other_sections_titled [of lc base d t w k]
  by (auto simp: isGerman_unused L_def)

text \<open>
  Claim C3 as stated fails: a German document in the modern layout has the headings
  \<^verbatim>\<open>Profile\<close> and \<^verbatim>\<open>Experience\<close>.
\<close>

theorem german_document_modern_layout_english_headings:
  "detectGerman no_table example_german_doc = Inr True
   \<and> map_sum id (map texts)
        (CVPreview no_table (API_BASE None) example_german_doc
           (Obj [(str ''layout'', Str (str ''modern''))]))
     = Inr [ [str ''Your Name'', str ''Profile'', spec_example_phrase, str ''Experience'',
             str ''Ingenieur'', str ''2022-01'', en_dash_sep, str ''Present'']]"
  by (simp add: example_german_doc_def spec_example_phrase_def CVPreview_def API_BASE_def
      value_defs frag_defs layout_defs section_defs glyph_defs str_def)

text \<open>
  The theorem at the German example document: its profile in the clean layout and in the
  fragment of the three layouts that share it, and the headings of all sections.
\<close>

theorem headings_per_layout_witness:
  "\<exists>w. normalize no_table (API_BASE None) example_german_doc (Obj []) = Inr w \<and> isGerman w
      \<and> clean_profile w
          = Inr [Elem ''div''
                  [Elem ''div''
                     [Elem ''div'' [Elem ''span'' [Text (icon Profile)],
                                    Elem ''h2'' [Text (str ''Profil'')]],
                      Elem ''div'' []],
                   Elem ''p'' [Text spec_example_phrase]]]
      \<and> profileFragment w
          = Inr [Elem ''div''
                   [Elem ''div'' [Elem ''h2'' [Text (str ''Profile'')]],
                    Elem ''div'' []],
                 Elem ''p'' [Text spec_example_phrase]]
      \<and> englishTitle w Profile
          = Inr [Elem ''div''
                   [Elem ''div'' [Elem ''h2'' [Text (str ''Profile'')]],
                    Elem ''div'' []]]
      \<and> (\<forall>k. headedBy (sTitle w (Str (LABELS_DE k)) (icon k)) (clean_section k w)
             \<and> titledBy (modern_heading k w) (modern_section k w)
             \<and> titledBy (englishTitle w k) (executive_section k w)
             \<and> titledBy (englishTitle w k) (minimal_section k w)
             \<and> titledBy (englishTitle w k) (classic_section k w))"
proof -
  obtain w where w: "normalize no_table (API_BASE None) example_german_doc (Obj []) = Inr w"
    and g: "isGerman w"
    and p: "clean_profile w
          = Inr [Elem ''div''
                  [Elem ''div''
                     [Elem ''div'' [Elem ''span'' [Text (icon Profile)],
                                    Elem ''h2'' [Text (str ''Profil'')]],
                      Elem ''div'' []],
                   Elem ''p'' [Text spec_example_phrase]]]"
    and q: "profileFragment w
          = Inr [Elem ''div''
                   [Elem ''div'' [Elem ''h2'' [Text (str ''Profile'')]],
                    Elem ''div'' []],
                 Elem ''p'' [Text spec_example_phrase]]"
    and e: "englishTitle w Profile
          = Inr [Elem ''div''
                   [Elem ''div'' [Elem ''h2'' [Text (str ''Profile'')]],
                    Elem ''div'' []]]"
    by (simp add: example_german_doc_def spec_example_phrase_def API_BASE_def englishTitle_def
        value_defs frag_defs section_defs str_def)
  have "headedBy (sTitle w (Str (LABELS_DE k)) (icon k)) (clean_section k w)
        \<and> titledBy (modern_heading k w) (modern_section k w)
        \<and> titledBy (englishTitle w k) (executive_section k w)
        \<and> titledBy (englishTitle w k) (minimal_section k w)
        \<and> titledBy (englishTitle w k) (classic_section k w)" for k
    using headings_per_layout [where lc = no_table and base = "API_BASE None"
        and d = example_german_doc and t = "Obj []" and w = w and k = k] w g
    by blast
  with w g p q e show ?thesis by blast
qed

lemma ok_simps [simp]: "ok (Inr x)" "\<not> ok (Inl e)"
  by (simp_all add: ok_def)

lemma ok_iff: "ok r \<longleftrightarrow> (\<exists>x. r = Inr x)"
  by (cases r) simp_all

lemma ok_collect [simp]: "ok (collect ps) \<longleftrightarrow> list_all ok ps"
  by (induction ps) (auto simp: ok_def split: sum.splits)

lemma ok_el [simp]: "ok (el tag kids) \<longleftrightarrow> list_all ok kids"
  using ok_collect [of kids] by (cases "collect kids") (simp_all add: el_def)

lemma ok_lit [simp]: "ok (lit s)"
  by (simp add: lit_def)

lemma ok_child [simp]: "ok (child x) \<longleftrightarrow> childOK x \<and> printable x"
  by (simp add: child_def)

lemma falsy_childOK: "\<not> truthy x \<Longrightarrow> childOK x \<and> printable x"
  by (cases x) simp_all

lemma ok_andJSX [simp]: "ok (andJSX x f) \<longleftrightarrow> (truthy x \<longrightarrow> ok f)"
  by (simp add: andJSX_def falsy_childOK)

lemma ok_mapEl_Arr [simp]: "ok (mapEl f (Arr xs)) \<longleftrightarrow> list_all (\<lambda>x. ok (f x)) xs"
  by (simp add: mapEl_def list_all_iff)

lemma ok_whenLong_Arr [simp]: "ok (whenLong (Arr xs) f) \<longleftrightarrow> (xs \<noteq> [] \<longrightarrow> ok f)"
  by (simp add: whenLong_def)

lemma plain_childOK [simp]: "isPlain x \<Longrightarrow> childOK x"
  by (cases x) simp_all

lemma plain_canStr [simp]: "isPlain x \<Longrightarrow> canStr x"
  by (cases x) simp_all

lemma plain_printable [simp]: "isPlain x \<Longrightarrow> printable x"
  by (cases x) simp_all

declare isPlain_js_or [simp]

lemma plain_truthy_Str: "isPlain x \<Longrightarrow> truthy x \<Longrightarrow> \<exists>s. x = Str s \<and> s \<noteq> []"
  by (cases x) simp_all

lemma plainAtD: "plainAt e ks \<Longrightarrow> k \<in> set ks \<Longrightarrow> isPlain (member e (str k))"
  by (simp add: plainAt_def list_all_iff)

lemma plainAt_not_nullish: "plainAt e ks \<Longrightarrow> \<not> nullish e"
  by (simp add: plainAt_def)

lemma ok_SectionTitle:
  "rgba color = Inr () \<Longrightarrow> childOK label \<Longrightarrow> printable label \<Longrightarrow> childOK ic \<Longrightarrow>
   printable ic \<Longrightarrow> ok (SectionTitle style color label ic)"
  by (simp add: SectionTitle_def)

lemma ok_desc:
  assumes "isPlain x" and "\<And>l. ok (f l)"
  shows "truthy x \<longrightarrow> ok (ebind (descLines x) (\<lambda>ls. el tag (map f ls)))"
  using assms by (cases x) (simp_all add: descLines_def list_all_iff)

lemma wfExperienceD:
  assumes "wfExperience e"
  shows "\<not> nullish e"
    and "isPlain (member e (str ''role''))" "isPlain (member e (str ''position''))"
    and "isPlain (member e (str ''job_title''))" "isPlain (member e (str ''company''))"
    and "isPlain (member e (str ''location''))" "isPlain (member e (str ''startDate''))"
    and "isPlain (member e (str ''endDate''))" "isPlain (member e (str ''description''))"
  using assms by (simp_all add: wfExperience_def plainAt_def)

lemma ok_cleanExpDates: "wfExperience e \<Longrightarrow> ok (cleanExpDates g e)"
  by (simp add: cleanExpDates_def Let_def wfExperienceD)

lemma ok_renderExpDates: "wfExperience e \<Longrightarrow> ok (renderExpDates e)"
  by (simp add: renderExpDates_def Let_def wfExperienceD)

lemma ok_cleanExp:
  assumes "wfExperience e"
  shows "ok (cleanExp g e)"
  using ok_desc [OF wfExperienceD(9) [OF assms], of
      "\<lambda>l. el ''div'' [el ''span'' [lit bullet], el ''span'' [child (Str (stripBullet l))]]" "''div''"]
  by (simp add: cleanExp_def Let_def expRole_def ok_cleanExpDates wfExperienceD assms)

lemma ok_renderExpEntry:
  assumes "wfExperience e"
  shows "ok (renderExpEntry l e)"
  using ok_desc [OF wfExperienceD(9) [OF assms], of
      "\<lambda>l. el ''div'' [el ''span'' [lit bullet], child (Str (stripBullet l))]" "''div''"]
  by (simp add: renderExpEntry_def Let_def expRole_def ok_renderExpDates wfExperienceD assms)

lemma wfEducationD:
  assumes "wfEducation e"
  shows "\<not> nullish e"
    and "isPlain (member e (str ''degree''))" "isPlain (member e (str ''field''))"
    and "isPlain (member e (str ''institution''))" "isPlain (member e (str ''startDate''))"
    and "isPlain (member e (str ''endDate''))" "isPlain (member e (str ''grade''))"
  using assms by (simp_all add: wfEducation_def plainAt_def)

lemma ok_toStr_plain: "isPlain x \<Longrightarrow> toStr x = Inr (strOf x)"
  by (simp add: toStr_def)

lemma ok_eduHeading: "wfEducation e \<Longrightarrow> ok (eduHeading sep e)"
  by (simp add: eduHeading_def Let_def wfEducationD ok_toStr_plain)

lemma ok_eduDates: "wfEducation e \<Longrightarrow> ok (eduDates e)"
  by (simp add: eduDates_def Let_def wfEducationD)

lemma ok_cleanEdu: "wfEducation e \<Longrightarrow> ok (cleanEdu g e)"
  by (simp add: cleanEdu_def Let_def wfEducationD ok_eduHeading ok_eduDates)

lemma ok_renderEduEntry: "wfEducation e \<Longrightarrow> ok (renderEduEntry e)"
  by (simp add: renderEduEntry_def Let_def wfEducationD ok_eduHeading ok_eduDates)

lemma ok_langRow: "wfLanguage e \<Longrightarrow> ok (langRow e)"
  by (simp add: langRow_def wfLanguage_def plainAt_def)

lemma ok_certRow: "wfCertification e \<Longrightarrow> ok (certRow e)"
  by (simp add: certRow_def Let_def wfCertification_def plainAt_def)

lemma ok_execCertRow: "wfCertification e \<Longrightarrow> ok (execCertRow e)"
  by (simp add: execCertRow_def Let_def wfCertification_def plainAt_def)

lemma ok_cleanProject: "wfProject e \<Longrightarrow> ok (cleanProject e)"
  by (simp add: cleanProject_def Let_def wfProject_def plainAt_def)

lemma ok_projectRow: "wfProject e \<Longrightarrow> ok (projectRow e)"
  by (simp add: projectRow_def Let_def wfProject_def plainAt_def)

lemma plain_interestText: "wfInterest i \<Longrightarrow> isPlain (interestText i)"
  by (cases i) (auto simp: interestText_def wfInterest_def plainAt_def optMember_def)

lemma plain_interestName: "wfInterest i \<Longrightarrow> isPlain (interestName i)"
  by (cases i) (auto simp: interestName_def wfInterest_def plainAt_def optMember_def)

lemma ok_interestChip:
  "wfInterest i \<Longrightarrow> ok (interestChip tag interestText i)"
  "wfInterest i \<Longrightarrow> ok (interestChip tag interestName i)"
  by (simp_all add: interestChip_def plain_interestText plain_interestName)

lemma arrOfE:
  assumes "arrOf P x"
  obtains xs where "x = Arr xs" "list_all P xs"
  using assms by (cases x) (simp_all add: arrOf_def)

lemma ok_mapEl_arrOf:
  assumes "arrOf P x" and "\<And>y. P y \<Longrightarrow> ok (f y)"
  shows "ok (mapEl f x)"
  using assms by (auto elim!: arrOfE simp: list_all_iff)

lemma ok_whenLong_arrOf:
  assumes "arrOf P x" and "ok f"
  shows "ok (whenLong x f)"
  using assms by (auto elim!: arrOfE)

lemma ok_interestsGuard:
  assumes "arrOf P (interests v)" and "ok f"
  shows "ok (interestsGuard v f)"
  using assms by (auto elim!: arrOfE simp: interestsGuard_def)

lemma ok_interestsBody:
  assumes "arrOf P (interests v)" and "ok a" and "ok b"
  shows "ok (interestsBody v a b)"
  using assms by (auto elim!: arrOfE simp: interestsBody_def)

lemma ok_titles:
  assumes "wfView v" and "childOK label" and "printable label"
  shows "ok (sTitle v label ic)" and "ok (plainTitle v label)"
  using assms by (simp_all add: sTitle_def plainTitle_def wfView_def ok_SectionTitle)

lemma isStr_childOK [simp]: "isStr x \<Longrightarrow> childOK x"
  by (cases x) simp_all

lemma isStr_canStr [simp]: "isStr x \<Longrightarrow> canStr x"
  by (cases x) simp_all

lemma isStr_printable [simp]: "isStr x \<Longrightarrow> printable x"
  by (cases x) simp_all

lemma ok_joinVals:
  "list_all canStr xs \<Longrightarrow> list_all printable xs \<Longrightarrow>
   ok (ebind (joinVals sep xs) (\<lambda>s. child (Str s)))"
  by (simp add: joinVals_def)

lemma plain_skillName: "wfSkill s \<Longrightarrow> isPlain (skillName s)"
  by (cases s) (auto simp: skillName_def wfSkill_def plainAt_def optMember_def)

lemma skillNames_Nil [simp]: "skillNames [] = []"
  by (simp add: skillNames_def)

lemma canStr_skillNames:
  "list_all wfSkill xs \<Longrightarrow>
   list_all canStr (skillNames xs) \<and> list_all printable (skillNames xs)"
  by (auto simp: skillNames_def list_all_iff plain_skillName)

lemma ok_categoryRow:
  assumes "case items of Arr xs \<Rightarrow> list_all wfSkill xs | _ \<Rightarrow> True"
  shows "ok (categoryRow (cat, items))"
proof -
  have "list_all canStr (skillNames (case items of Arr xs \<Rightarrow> xs | _ \<Rightarrow> []))
      \<and> list_all printable (skillNames (case items of Arr xs \<Rightarrow> xs | _ \<Rightarrow> []))"
    using assms by (cases items) (simp_all add: canStr_skillNames)
  then show ?thesis by (simp add: categoryRow_def ok_joinVals)
qed

lemma ok_renderSkills:
  assumes "wfView v"
  shows "ok (renderSkills v c)"
proof (cases "truthy (skillCategories v)")
  case True
  have w: "wfCategories (skillCategories v)" using assms by (simp add: wfView_def)
  with True obtain kvs where k: "skillCategories v = Obj kvs"
    "list_all (\<lambda>(c, items). case items of Arr xs \<Rightarrow> list_all wfSkill xs | _ \<Rightarrow> True) kvs"
    by (cases "skillCategories v") (auto simp: wfCategories_def wfSkills_def)
  have "list_all (\<lambda>e. ok (categoryRow e)) kvs"
    using k(2) by (auto simp: list_all_iff ok_categoryRow)
  then show ?thesis
    using True by (simp add: renderSkills_def k(1) entriesOf_def list_all_iff)
next
  case False
  have s: "list_all isStr (skills v)" using assms by (simp add: wfView_def)
  then have "list_all canStr (skills v)" "list_all childOK (skills v)"
    "list_all printable (skills v)"
    by (auto simp: list_all_iff)
  then show ?thesis
    using False by (simp add: renderSkills_def ok_joinVals list_all_iff)
qed

lemma customEntries_arrOf:
  assumes "arrOf wfCustomSection x"
  obtains cs where "customEntries x = Inr cs" "list_all wfCustomSection cs"
proof -
  from assms obtain xs where x: "x = Arr xs" "list_all wfCustomSection xs" by (rule arrOfE)
  then have "\<not> list_ex nullish xs"
    by (auto simp: list_ex_iff list_all_iff wfCustomSection_def plainAt_def)
  then have "customEntries x
      = Inr (filter (\<lambda>c. truthy (js_and (member c (str ''title'')) (member c (str ''content'')))) xs)"
    by (simp add: customEntries_def x(1))
  moreover have "list_all wfCustomSection
      (filter (\<lambda>c. truthy (js_and (member c (str ''title'')) (member c (str ''content'')))) xs)"
    using x(2) by (simp add: list_all_iff)
  ultimately show ?thesis using that by blast
qed

lemma ok_custom:
  assumes "wfView v"
  shows "ok (clean_custom v)" and "ok (plain_custom v)"
proof -
  from assms have "arrOf wfCustomSection (customSections v)" by (simp add: wfView_def)
  then obtain cs where c: "customEntries (customSections v) = Inr cs"
    "list_all wfCustomSection cs" by (rule customEntries_arrOf)
  have p: "isPlain (member e (str ''title''))" "isPlain (member e (str ''content''))"
    if "e \<in> set cs" for e
    using c(2) that by (auto simp: list_all_iff wfCustomSection_def plainAt_def)
  show "ok (clean_custom v)" "ok (plain_custom v)"
    by (simp_all add: clean_custom_def plain_custom_def c(1) list_all_iff p
        ok_titles [OF assms])
qed

lemma ok_contacts:
  assumes "isPlain x"
  shows "ok (contactSpan g x)" and "ok (contactLine g x)"
  using assms by (simp_all add: contactSpan_def contactLine_def ok_toStr_plain)

lemma ok_header_parts:
  assumes "wfView v"
  shows "ok (headerName v)" "ok (headerTitle v)" "ok (photoImg v)"
    "list_all ok (contacts4 v)" "list_all ok (contacts5 v)"
  using assms
  by (simp_all add: headerName_def headerTitle_def photoImg_def contacts4_def contacts5_def
      wfView_def ok_contacts)

lemma ok_renderExp:
  assumes "wfView v"
  shows "ok (renderExp v)"
proof -
  from assms obtain xs where x: "experiences v = Arr xs" "list_all wfExperience xs"
    by (auto simp: wfView_def elim: arrOfE)
  have "list_all ok (mapLast renderExpEntry ys)" if "list_all wfExperience ys" for ys
    using that by (induction renderExpEntry ys rule: mapLast.induct)
      (simp_all add: ok_renderExpEntry)
  then show ?thesis
    using x by (simp add: renderExp_def ok_titles [OF assms])
qed

lemma ok_renderEdu:
  assumes "wfView v"
  shows "ok (renderEdu v)"
  using assms
  by (auto simp: renderEdu_def ok_titles wfView_def ok_renderEduEntry
      intro!: ok_mapEl_arrOf [where P = wfEducation])

lemma ok_clean_sections:
  assumes "wfView v"
  shows "ok (clean_header v)" "ok (clean_profile v)" "ok (clean_experience v)"
    "ok (clean_education v)" "ok (clean_skills v)" "ok (clean_languages v)"
    "ok (clean_interests v)" "ok (clean_projects v)" "ok (clean_certifications v)"
proof -
  note t = ok_titles [OF assms] and h = ok_header_parts [OF assms]
  have w: "isPlain (summary v)" "isPlain (hobbies v)"
    "arrOf wfExperience (experiences v)" "arrOf wfEducation (education v)"
    "arrOf wfCertification (certs v)" "arrOf wfLanguage (langs v)"
    "arrOf wfProject (projects v)" "arrOf wfInterest (interests v)"
    using assms by (simp_all add: wfView_def)
  show "ok (clean_header v)" by (simp add: clean_header_def h)
  show "ok (clean_profile v)" by (simp add: clean_profile_def t w)
  show "ok (clean_experience v)"
    unfolding clean_experience_def
    by (rule ok_whenLong_arrOf [OF w(3)])
       (simp add: t ok_mapEl_arrOf [OF w(3)] ok_cleanExp)
  show "ok (clean_education v)"
    unfolding clean_education_def
    by (rule ok_whenLong_arrOf [OF w(4)])
       (simp add: t ok_mapEl_arrOf [OF w(4)] ok_cleanEdu)
  show "ok (clean_skills v)"
    by (simp add: clean_skills_def skillsOrCategories_def t ok_renderSkills [OF assms])
  show "ok (clean_languages v)"
    unfolding clean_languages_def
    by (rule ok_whenLong_arrOf [OF w(6)])
       (simp add: t ok_mapEl_arrOf [OF w(6)] ok_langRow)
  show "ok (clean_interests v)"
    unfolding clean_interests_def
    by (rule ok_interestsGuard [OF w(8)])
       (simp add: t w ok_interestsBody [OF w(8)] ok_mapEl_arrOf [OF w(8)] ok_interestChip)
  show "ok (clean_projects v)"
    unfolding clean_projects_def
    by (rule ok_whenLong_arrOf [OF w(7)])
       (simp add: t ok_mapEl_arrOf [OF w(7)] ok_cleanProject)
  show "ok (clean_certifications v)"
    unfolding clean_certifications_def
    by (rule ok_whenLong_arrOf [OF w(5)])
       (simp add: t ok_mapEl_arrOf [OF w(5)] ok_certRow)
qed

lemma ok_other_sections:
  assumes "wfView v"
  shows "ok (profileFragment v)" "ok (classic_profile v)" "ok (grid_skills v)"
    "ok (grid_languages v)" "ok (boxed_interests v)" "ok (boxed_certifications v)"
    "ok (boxed_projects v)" "ok (fragment_certifications v)" "ok (fragment_projects v)"
    "ok (modern_skills v)" "ok (modern_languages v)" "ok (modern_interests v)"
    "ok (exec_skills v)" "ok (exec_languages v)" "ok (exec_interests v)"
    "ok (exec_certifications v)"
proof -
  note t = ok_titles [OF assms] and h = ok_header_parts [OF assms]
  have w: "isPlain (summary v)" "isPlain (hobbies v)"
    "arrOf wfExperience (experiences v)" "arrOf wfEducation (education v)"
    "arrOf wfCertification (certs v)" "arrOf wfLanguage (langs v)"
    "arrOf wfProject (projects v)" "arrOf wfInterest (interests v)"
    "list_all isStr (skills v)"
    using assms by (simp_all add: wfView_def)
  have sk: "list_all childOK (skills v)" "list_all printable (skills v)"
    using w(9) by (auto simp: list_all_iff)
  show "ok (profileFragment v)" by (simp del: collect.simps add: profileFragment_def t w)
  show "ok (classic_profile v)" by (simp del: collect.simps add: classic_profile_def t w)
  show "ok (grid_skills v)"
    by (simp del: collect.simps add: grid_skills_def someSkills_def t ok_renderSkills [OF assms])
  show "ok (grid_languages v)"
    unfolding grid_languages_def
    by (rule ok_whenLong_arrOf [OF w(6)]) (simp del: collect.simps add: t ok_mapEl_arrOf [OF w(6)] ok_langRow)
  show "ok (boxed_interests v)"
    unfolding boxed_interests_def
    by (rule ok_interestsGuard [OF w(8)])
       (simp del: collect.simps add: t w ok_interestsBody [OF w(8)] ok_mapEl_arrOf [OF w(8)] ok_interestChip)
  show "ok (boxed_certifications v)"
    unfolding boxed_certifications_def
    by (rule ok_whenLong_arrOf [OF w(5)]) (simp del: collect.simps add: t ok_mapEl_arrOf [OF w(5)] ok_certRow)
  show "ok (boxed_projects v)"
    unfolding boxed_projects_def
    by (rule ok_whenLong_arrOf [OF w(7)]) (simp del: collect.simps add: t ok_mapEl_arrOf [OF w(7)] ok_projectRow)
  show "ok (fragment_certifications v)"
    unfolding fragment_certifications_def
    by (rule ok_whenLong_arrOf [OF w(5)]) (simp del: collect.simps add: t ok_mapEl_arrOf [OF w(5)] ok_certRow)
  show "ok (fragment_projects v)"
    unfolding fragment_projects_def
    by (rule ok_whenLong_arrOf [OF w(7)]) (simp del: collect.simps add: t ok_mapEl_arrOf [OF w(7)] ok_projectRow)
  show "ok (modern_skills v)"
    using sk by (simp del: collect.simps add: modern_skills_def someSkills_def list_all_iff)
  show "ok (modern_languages v)"
    unfolding modern_languages_def
    by (rule ok_whenLong_arrOf [OF w(6)]) (simp del: collect.simps add: ok_mapEl_arrOf [OF w(6)] ok_langRow)
  show "ok (modern_interests v)"
    unfolding modern_interests_def
    by (rule ok_interestsGuard [OF w(8)])
       (simp del: collect.simps add: w ok_interestsBody [OF w(8)] ok_mapEl_arrOf [OF w(8)] ok_interestChip)
  show "ok (exec_skills v)"
    by (simp del: collect.simps add: exec_skills_def skillsOrCategories_def t ok_renderSkills [OF assms])
  show "ok (exec_languages v)"
    unfolding exec_languages_def
    by (rule ok_whenLong_arrOf [OF w(6)]) (simp del: collect.simps add: t ok_mapEl_arrOf [OF w(6)] ok_langRow)
  show "ok (exec_interests v)"
    unfolding exec_interests_def
    by (rule ok_interestsGuard [OF w(8)])
       (simp del: collect.simps add: t w ok_interestsBody [OF w(8)] ok_mapEl_arrOf [OF w(8)] ok_interestChip)
  show "ok (exec_certifications v)"
    unfolding exec_certifications_def
    by (rule ok_whenLong_arrOf [OF w(5)]) (simp del: collect.simps add: t ok_mapEl_arrOf [OF w(5)] ok_execCertRow)
qed

lemma ok_rootDiv [simp]: "ok (rootDiv v kids) \<longleftrightarrow> list_all ok kids \<and> canStr (fontFamily v)"
  using ok_el [of "''div''" kids]
  by (cases "el ''div'' kids") (simp_all add: rootDiv_def styleValue_def)

lemma ok_layouts:
  assumes "wfView v"
  shows "ok (clean_layout v)" "ok (modern_layout v)" "ok (executive_layout v)"
    "ok (minimal_layout v)" "ok (classic_layout v)"
proof -
  have w: "isPlain (email v)" "isPlain (phone v)" "isPlain (location v)" "isPlain (linkedin v)"
    "canStr (fontFamily v)"
    using assms by (simp_all add: wfView_def)
  note s = w(5) ok_clean_sections [OF assms] ok_other_sections [OF assms] ok_custom [OF assms]
    ok_header_parts [OF assms] ok_renderExp [OF assms] ok_renderEdu [OF assms]
  show "ok (clean_layout v)" by (simp add: clean_layout_def s)
  show "ok (modern_layout v)" by (simp add: modern_layout_def s ok_contacts w)
  show "ok (executive_layout v)" by (simp add: executive_layout_def band_def s)
  show "ok (minimal_layout v)" by (simp add: minimal_layout_def s)
  show "ok (classic_layout v)" by (simp add: classic_layout_def band_def s)
qed

lemma wfList_or:
  assumes "wfList P x"
  shows "arrOf P (js_or x (Arr []))"
  using assms by (cases x) (auto simp: wfList_def arrOf_def js_or_def)

lemma wfList_or2:
  assumes "wfList P x" and "wfList P y"
  shows "arrOf P (js_or (js_or x y) (Arr []))"
  using assms by (cases x; cases y) (auto simp: wfList_def arrOf_def js_or_def)

lemma member_empty_obj [simp]: "member (Obj []) k = Undefined"
  by simp

lemma pinfo_plain:
  assumes "wfPersonalInfo x"
    and "k \<in> set [''name'', ''title'', ''jobTitle'', ''summary'', ''photo'', ''email'', ''phone'',
                    ''location'', ''linkedin'', ''linkedin_url'', ''website'']"
  shows "isPlain (member (js_or x (Obj [])) (str k))"
proof (cases "truthy x")
  case True
  with assms(1) have "plainAt x [''name'', ''title'', ''jobTitle'', ''summary'', ''photo'',
      ''email'', ''phone'', ''location'', ''linkedin'', ''linkedin_url'', ''website'']"
    by (simp add: wfPersonalInfo_def)
  from plainAtD [OF this assms(2)] True show ?thesis by (simp add: js_or_def)
next
  case False
  then show ?thesis by (simp add: js_or_def)
qed

lemma pinfo_photoSize:
  assumes "wfPersonalInfo x"
  shows "ok (photoSizePx (js_or x (Obj [])))"
proof -
  have "isScalar (member (js_or x (Obj [])) (str ''photoSize''))"
    using assms by (cases "truthy x") (simp_all add: wfPersonalInfo_def js_or_def)
  then show ?thesis
    by (cases "member (js_or x (Obj [])) (str ''photoSize'')")
       (simp_all add: photoSizePx_def toStr_def)
qed

lemma resolvePhoto_plain:
  "isPlain x \<Longrightarrow> \<exists>ph. resolvePhoto base x = Inr ph \<and> isPlain ph"
  by (cases x) (simp_all add: resolvePhoto_def)

lemma ok_resolvePhoto:
  assumes "isPlain x"
  obtains ph where "resolvePhoto base x = Inr ph" "isPlain ph"
  using resolvePhoto_plain [OF assms] by blast

lemma ok_ebind_Inr [simp]: "ok (ebind m (\<lambda>x. Inr (g x))) \<longleftrightarrow> ok m"
  by (cases m) simp_all

lemma ok_expSample: "wfExperience e \<Longrightarrow> ok (expSample e)"
  using wfExperienceD(1,9) [of e]
  by (cases "member e (str ''description'')")
     (auto simp: expSample_def js_or_def substring_def)

lemma ok_substring_plain: "isPlain x \<Longrightarrow> ok (substring (js_or x (Str [])) n)"
  by (cases x) (simp_all add: substring_def js_or_def)

lemma ok_firstTwo:
  assumes "arrOf wfExperience x"
  shows "ok (ebind (firstTwo x) (\<lambda>es. collect (map expSample es)))"
proof -
  from assms obtain xs where x: "x = Arr xs" "list_all wfExperience xs" by (rule arrOfE)
  have "list_all wfExperience (take 2 xs)"
    using x(2) by (auto simp: list_all_iff dest: in_set_takeD)
  then show ?thesis
    by (simp add: firstTwo_def x(1) list_all_iff ok_expSample)
qed

lemma ok_detectGerman:
  assumes "wfDoc d" and "\<not> nullish d"
  shows "ok (detectGerman lc d)"
proof -
  let ?pi = "js_or (member d (str ''personal_info'')) (Obj [])"
  have pi: "wfPersonalInfo (member d (str ''personal_info''))"
    and top: "plainAt d [''full_name'', ''title'', ''profile_summary'', ''photo_path'', ''email'',
                   ''phone'', ''location'', ''linkedin_url'', ''hobbies'', ''hobbies_text'']"
    and ex: "wfList wfExperience (member d (str ''experiences''))"
      "wfList wfExperience (member d (str ''experience''))"
    using assms(1) by (simp_all add: wfDoc_def)
  have t: "isPlain (js_or (js_or (member ?pi (str ''title'')) (member ?pi (str ''jobTitle'')))
              (Str []))"
    by (simp add: pinfo_plain [OF pi])
  have s: "isPlain (js_or (member ?pi (str ''summary'')) (member d (str ''profile_summary'')))"
    by (simp add: pinfo_plain [OF pi] plainAtD [OF top])
  have "ok (detectGerman_sample lc d)"
    using assms(2) t ok_substring_plain [OF s] ok_firstTwo [OF wfList_or2 [OF ex]]
    by (simp del: collect.simps add: detectGerman_sample_def Let_def ok_toStr_plain)
  then show ?thesis
    by (simp add: detectGerman_def)
qed

lemma flattenSkills_isStr:
  assumes "wfSkills x"
  shows "list_all isStr (flattenSkills x)"
proof -
  have n: "list_all isStr (skillNames xs)" if "list_all wfSkill xs" for xs
  proof -
    have "isStr (skillName s)" if "wfSkill s" "truthy (skillName s)" for s
      using plain_truthy_Str [OF plain_skillName [OF that(1)] that(2)] by auto
    then show ?thesis using that by (auto simp: skillNames_def list_all_iff)
  qed
  show ?thesis
  proof (cases x)
    case (Arr xs)
    then show ?thesis using assms n by (simp add: flattenSkills_def wfSkills_def)
  next
    case (Obj kvs)
    then have "list_all (\<lambda>(c, items). case items of Arr xs \<Rightarrow> list_all wfSkill xs | _ \<Rightarrow> True) kvs"
      using assms by (simp add: wfSkills_def)
    then have "list_all isStr (case v of Arr xs \<Rightarrow> skillNames xs | _ \<Rightarrow> [])"
      if "(k, v) \<in> set kvs" for k v
      using that n by (cases v) (auto simp: list_all_iff)
    then have "\<forall>e\<in>set kvs. list_all isStr
        (case e of (k, v) \<Rightarrow> (case v of Arr xs \<Rightarrow> skillNames xs | _ \<Rightarrow> []))"
      by auto
    then show ?thesis
      using Obj by (auto simp: flattenSkills_def list_all_iff)
  qed (simp_all add: flattenSkills_def)
qed

lemma getSkillCategories_wf: "wfSkills x \<Longrightarrow> wfCategories (getSkillCategories x)"
  by (cases x) (simp_all add: getSkillCategories_def wfCategories_def)

lemma normalize_wf:
  assumes "wfDoc d" and "\<not> nullish d" and "wfTheme t"
  obtains v where "normalize lc base d t = Inr v" "wfView v"
proof -
  let ?pi = "js_or (member d (str ''personal_info'')) (Obj [])"
  let ?prim = "themeField t (str ''primaryColor'') (Str (str ''#1a1a1a''))"
  let ?font = "themeField t (str ''fontFamily'') (Str (str ''Inter, system-ui, sans-serif''))"
  have pi: "wfPersonalInfo (member d (str ''personal_info''))"
    and top: "plainAt d [''full_name'', ''title'', ''profile_summary'', ''photo_path'', ''email'',
                   ''phone'', ''location'', ''linkedin_url'', ''hobbies'', ''hobbies_text'']"
    and colls: "wfList wfExperience (member d (str ''experiences''))"
      "wfList wfEducation (member d (str ''educations''))"
      "wfSkills (member d (str ''skills''))"
      "wfList wfCertification (member d (str ''certifications''))"
      "wfList wfLanguage (member d (str ''languages''))"
      "wfList wfProject (member d (str ''projects''))"
      "wfList wfInterest (member d (str ''interests''))"
      "wfList wfCustomSection (member d (str ''custom_sections''))"
    using assms(1) by (simp_all add: wfDoc_def)
  note pp = pinfo_plain [OF pi] and tp = plainAtD [OF top]
  have r: "rgba ?prim = Inr ()"
    using assms(3) by (cases ?prim) (simp_all add: wfTheme_def rgba_def)
  have "isPlain (js_or (member ?pi (str ''photo'')) (member d (str ''photo_path'')))"
    by (simp add: pp tp)
  then obtain ph where ph: "resolvePhoto base
      (js_or (member ?pi (str ''photo'')) (member d (str ''photo_path''))) = Inr ph" "isPlain ph"
    by (rule ok_resolvePhoto)
  obtain g where g: "detectGerman lc d = Inr g"
    using ok_detectGerman [OF assms(1,2)] by (auto simp: ok_iff)
  obtain u where u: "photoSizePx ?pi = Inr u"
    using pinfo_photoSize [OF pi] by (auto simp: ok_iff)
  obtain v where v: "normalize lc base d t = Inr v"
    by (simp add: normalize_def Let_def r assms(2) ph(1) g u)
  have ff: "isStr ?font" using assms(3) by (simp add: wfTheme_def)
  have f: "primary v = ?prim" "fontFamily v = ?font" "photo v = ph"
    "name v = js_or (js_or (member ?pi (str ''name'')) (member d (str ''full_name''))) (Str [])"
    "title v = js_or (js_or (js_or (member ?pi (str ''title'')) (member ?pi (str ''jobTitle'')))
                            (member d (str ''title''))) (Str [])"
    "email v = js_or (js_or (member ?pi (str ''email'')) (member d (str ''email''))) (Str [])"
    "phone v = js_or (js_or (member ?pi (str ''phone'')) (member d (str ''phone''))) (Str [])"
    "location v = js_or (js_or (member ?pi (str ''location'')) (member d (str ''location'')))
                    (Str [])"
    "linkedin v = js_or (js_or (js_or (member ?pi (str ''linkedin''))
                                      (member ?pi (str ''linkedin_url'')))
                               (member d (str ''linkedin_url''))) (Str [])"
    "website v = js_or (member ?pi (str ''website'')) (Str [])"
    using v by (auto simp: normalize_def Let_def r assms(2) ph(1) g u)
  note n = normalize_fields [OF v]
  have "wfView v"
    unfolding wfView_def
    by (simp add: f n r ff ph(2) pp tp wfList_or colls flattenSkills_isStr getSkillCategories_wf)
  with v show ?thesis using that by blast
qed

lemma wfDoc_not_nullish: "wfDoc d \<Longrightarrow> \<not> nullish d"
  by (simp add: wfDoc_def plainAt_def)

text \<open>
  Claim C9, as amended. A document of the documented types (fields absent, \<^verbatim>\<open>null\<close> or of
  their type, entries objects), with a theme whose primary colour and font family are
  absent or strings, renders to one tree, whatever the layout and whatever the case table
  of the engine. The empty document renders the placeholder \<^verbatim>\<open>Your Name\<close> and no other
  text.
\<close>

theorem well_typed_document_renders:
  "(wfDoc (if d = Undefined then Obj [] else d) \<and> wfTheme t
      \<longrightarrow> (\<exists>tree. CVPreview lc base d t = Inr [tree]))
   \<and> map_sum id (map texts) (CVPreview lc base (Obj []) (Obj [])) = Inr [ [str ''Your Name'']]
   \<and> map_sum id (map texts) (CVPreview lc base Undefined Undefined) = Inr [ [str ''Your Name'']]"
proof (intro conjI impI)
  let ?d = "if d = Undefined then Obj [] else d"
  let ?t = "if t = Undefined then Obj [] else t"
  assume a: "wfDoc ?d \<and> wfTheme t"
  have "wfTheme ?t" using a by (auto simp: wfTheme_def themeField_def)
  with a obtain v where v: "normalize lc base ?d ?t = Inr v" "wfView v"
    using normalize_wf [of ?d ?t lc base] wfDoc_not_nullish [of ?d] by blast
  have "ok (CVPreview lc base d t)"
    using ok_layouts [OF v(2)] by (simp add: CVPreview_def v(1))
  then obtain ns where ns: "CVPreview lc base d t = Inr ns" by (auto simp: ok_iff)
  have single: "\<exists>tree. out = [tree]" if "rootDiv w kids = Inr out" for w kids out
    using that by (auto simp: rootDiv_iff el_def ebind_def split: sum.splits)
  from ns have "\<exists>w kids. rootDiv w kids = Inr ns"
    by (auto simp: CVPreview_def v(1) clean_layout_def modern_layout_def executive_layout_def
        minimal_layout_def classic_layout_def split: if_splits)
  with single ns show "\<exists>tree. CVPreview lc base d t = Inr [tree]"
    by blast
next
  show "map_sum id (map texts) (CVPreview lc base (Obj []) (Obj [])) = Inr [ [str ''Your Name'']]"
    by (simp add: CVPreview_def value_defs frag_defs layout_defs section_defs str_def)
  show "map_sum id (map texts) (CVPreview lc base Undefined Undefined) = Inr [ [str ''Your Name'']]"
    by (simp add: CVPreview_def value_defs frag_defs layout_defs section_defs str_def)
qed

text \<open>
  The theorem at the German example document in the modern layout, at a document with
  \<^verbatim>\<open>null\<close> skills and a partial theme, and at absent props.
\<close>

theorem well_typed_document_renders_witness:
  "wfDoc example_german_doc \<and> wfTheme (Obj [(str ''layout'', Str (str ''modern''))])
   \<and> (\<exists>tree. CVPreview no_table (API_BASE None) example_german_doc
                  (Obj [(str ''layout'', Str (str ''modern''))]) = Inr [tree])
   \<and> wfDoc (Obj [(str ''skills'', Null), (str ''personal_info'', Null)])
   \<and> wfTheme (Obj [(str ''primaryColor'', Str (str ''#be123c''))])
   \<and> (\<exists>tree. CVPreview no_table (API_BASE None)
                  (Obj [(str ''skills'', Null), (str ''personal_info'', Null)])
                  (Obj [(str ''primaryColor'', Str (str ''#be123c''))]) = Inr [tree])
   \<and> wfDoc (Obj []) \<and> wfTheme Undefined
   \<and> (\<exists>tree. CVPreview no_table (API_BASE None) Undefined Undefined = Inr [tree])"
proof -
  have w: "wfDoc example_german_doc" "wfTheme (Obj [(str ''layout'', Str (str ''modern''))])"
    "wfDoc (Obj [(str ''skills'', Null), (str ''personal_info'', Null)])"
    "wfTheme (Obj [(str ''primaryColor'', Str (str ''#be123c''))])"
    "wfDoc (Obj [])" "wfTheme Undefined"
    by (simp_all add: example_german_doc_def wfDoc_def wfPersonalInfo_def plainAt_def
        wfList_def wfSkills_def wfExperience_def wfTheme_def themeField_def)
  show ?thesis
    using w
      well_typed_document_renders [where d = example_german_doc
        and t = "Obj [(str ''layout'', Str (str ''modern''))]" and lc = no_table
        and base = "API_BASE None"]
      well_typed_document_renders
        [where d = "Obj [(str ''skills'', Null), (str ''personal_info'', Null)]"
        and t = "Obj [(str ''primaryColor'', Str (str ''#be123c''))]" and lc = no_table
        and base = "API_BASE None"]
      well_typed_document_renders [where d = Undefined and t = Undefined and lc = no_table
        and base = "API_BASE None"]
    by (simp add: example_german_doc_def)
qed

text \<open>
  Claim C9 as stated fails: a summary that is a number, an experience entry that is
  \<^verbatim>\<open>null\<close>, a theme whose primary colour is \<^verbatim>\<open>null\<close>, a theme whose font family is an
  object with a property \<^verbatim>\<open>toString\<close>, and a \<^verbatim>\<open>null\<close> document each make the render throw.
\<close>

theorem wrong_type_or_null_entry_throws:
  "CVPreview no_table (API_BASE None)
     (Obj [(str ''personal_info'', Obj [(str ''summary'', Num 42)])]) Undefined = Inl Thrown
   \<and> CVPreview no_table (API_BASE None) (Obj [(str ''experiences'', Arr [Null])]) Undefined
       = Inl Thrown
   \<and> CVPreview no_table (API_BASE None) (Obj []) (Obj [(str ''primaryColor'', Null)])
       = Inl Thrown
   \<and> CVPreview no_table (API_BASE None) (Obj [])
        (Obj [(str ''fontFamily'', Obj [(str ''toString'', Num 1)])]) = Inl Thrown
   \<and> CVPreview no_table (API_BASE None) Null Undefined = Inl Thrown"
  by (simp add: CVPreview_def API_BASE_def value_defs frag_defs layout_defs section_defs str_def)

end
